theory Spec2Isabelle
  imports Main
begin

section \<open>Data model of system.c\<close>

text \<open>
  The address family of a socket address. A zeroed \<^verbatim>\<open>sockaddr_storage\<close> has family
  \<^verbatim>\<open>AF_UNSPEC\<close> (the value 0).
\<close>

datatype family = AF_UNSPEC | AF_INET | AF_INET6

text \<open>
  \<^verbatim>\<open>struct sockaddr_storage\<close>: the family, the address bytes in network order and the
  port number.
\<close>

record sockaddr_storage =
  ss_family :: family
  ss_addr :: "nat list"
  ss_port :: nat

text \<open>\<^verbatim>\<open>listen_address_t\<close>: a declared listen address, as the command line gave it.\<close>

record listen_address =
  addr_local_addr_name :: "string option"

text \<open>
  \<^verbatim>\<open>listen_socket_t\<close>, with the fields system.c reads and writes. A \<^verbatim>\<open>const char*\<close> that
  may be \<^verbatim>\<open>NULL\<close> is a \<open>string option\<close>.
\<close>

record listen_socket =
  socket :: int
  local_addr :: sockaddr_storage
  local_addr_len :: nat
  local_addr_name :: "string option"
  local_addr_name_no_port :: "string option"
  optional :: bool

text \<open>\<^verbatim>\<open>daemon_state_t\<close>.\<close>

datatype daemon_state_t = DAEMON_STATE_NO | DAEMON_STATE_REQUEST | DAEMON_STATE_EFFECTIVE

text \<open>
  Every \<^verbatim>\<open>return false\<close> of system.c follows one error message; the error names it.
  \<open>TableOverflow\<close>, \<open>NullPointer\<close> and \<open>AssertionFailed\<close> are the places where the C
  code has no defined result: an access past the end of a global table, a read through
  a \<^verbatim>\<open>NULL\<close> name, and a failed \<^verbatim>\<open>assert\<close>.
\<close>

datatype error =
    CantResolve
  | NoClosingBracket
  | InvalidBracketEnd
  | AddressTooLong
  | TooManyAddresses
  | SocketCreationFailed
  | SetsockoptFailed
  | SocketBindingFailed
  | CantOpenNullDevice
  | CantGetUser
  | CantChroot
  | CantSwitchUser
  | DaemonizationFailed
  | TableOverflow
  | NullPointer
  | AssertionFailed

datatype status = Success | Failure error

text \<open>The bytes of a zeroed table entry (static storage, and \<^verbatim>\<open>memset (.., 0, ..)\<close>).\<close>

definition zero_sockaddr :: sockaddr_storage where
  "zero_sockaddr = \<lparr>ss_family = AF_UNSPEC, ss_addr = [], ss_port = 0\<rparr>"

definition zero_listen_address :: listen_address where
  "zero_listen_address = \<lparr>addr_local_addr_name = None\<rparr>"

definition zero_listen_socket :: listen_socket where
  "zero_listen_socket =
     \<lparr>socket = 0, local_addr = zero_sockaddr, local_addr_len = 0, local_addr_name = None,
      local_addr_name_no_port = None, optional = False\<rparr>"

section \<open>C strings\<close>

text \<open>
  A C string is the list of its characters before the terminating NUL. \<open>strchr s c\<close> is
  the offset of the first \<open>c\<close> in \<open>s\<close>, \<open>strrchr s c\<close> the offset of the last one, and
  \<open>None\<close> stands for \<^verbatim>\<open>NULL\<close>. \<open>char_at s i\<close> reads \<^verbatim>\<open>s[i]\<close>, which is the terminator at
  \<open>i = length s\<close>.
\<close>

fun strchr :: "string \<Rightarrow> char \<Rightarrow> nat option" where
  "strchr [] c = None"
| "strchr (x # xs) c = (if x = c then Some 0 else map_option Suc (strchr xs c))"

definition strrchr :: "string \<Rightarrow> char \<Rightarrow> nat option" where
  "strrchr s c = map_option (\<lambda>i. length s - 1 - i) (strchr (rev s) c)"

definition NUL :: char where
  "NUL = CHR 0x00"

definition char_at :: "string \<Rightarrow> nat \<Rightarrow> char" where
  "char_at s i = (if i < length s then s ! i else NUL)"

section \<open>Name resolution\<close>

text \<open>
  \<^verbatim>\<open>getaddrinfo\<close> is the system's resolver: given the node name (\<^verbatim>\<open>NULL\<close> for the wildcard
  address), the service name and the family hint (the socket type and the passive flag
  are the same at every call), it answers with an error code and the head of the result
  list. It is a parameter of the model.
\<close>

record addrinfo =
  ai_addr :: sockaddr_storage
  ai_addrlen :: nat

type_synonym getaddrinfo_t = "string option \<Rightarrow> string \<Rightarrow> family \<Rightarrow> int \<times> addrinfo option"

text \<open>
  \<^verbatim>\<open>Sys_BuildSockaddr\<close>. Its two output pointers always point into one table entry, which
  the model takes and returns. (The \<^verbatim>\<open>assert\<close> on the length is left out: a
  \<^verbatim>\<open>sockaddr_storage\<close> holds every address the resolver returns.)
\<close>

definition Sys_BuildSockaddr ::
  "getaddrinfo_t \<Rightarrow> string option \<Rightarrow> string \<Rightarrow> family \<Rightarrow> listen_socket \<Rightarrow> status \<times> listen_socket"
where
  "Sys_BuildSockaddr gai addr_name port_name addr_family_hint listen_sock =
     (case gai addr_name port_name addr_family_hint of
        (err, addrinf) \<Rightarrow>
          (case addrinf of
             None \<Rightarrow> (Failure CantResolve, listen_sock)
           | Some ai \<Rightarrow>
               if err \<noteq> 0 then (Failure CantResolve, listen_sock)
               else (Success,
                     listen_sock\<lparr>local_addr := ai_addr ai, local_addr_len := ai_addrlen ai\<rparr>)))"

text \<open>
  \<^verbatim>\<open>Sys_StringToSockaddr\<close>. \<open>addr_start\<close> and \<open>addr_end\<close> are offsets into \<open>address\<close>.
  The caller always passes a non-null \<^verbatim>\<open>address_no_port\<close>, a field of the same table
  entry. The size of \<^verbatim>\<open>addr_buff\<close> is 128.
\<close>

definition addr_buff_size :: nat where
  "addr_buff_size = 128"

definition Sys_StringToSockaddr ::
  "getaddrinfo_t \<Rightarrow> string \<Rightarrow> string \<Rightarrow> listen_socket \<Rightarrow> status \<times> listen_socket"
where
  "Sys_StringToSockaddr gai address port_name listen_sock =
     (let parsed =
        (if char_at address 0 = CHR ''[''
         then
           (case strchr address CHR '']'' of
              None \<Rightarrow> Inl NoClosingBracket
            | Some end_bracket \<Rightarrow>
                if char_at address (end_bracket + 1) \<noteq> CHR '':'' \<and>
                   char_at address (end_bracket + 1) \<noteq> NUL
                then Inl InvalidBracketEnd
                else Inr (1, Some end_bracket, AF_INET6))
         else
           (case strchr address CHR '':'' of
              None \<Rightarrow> Inr (0, None, AF_UNSPEC)
            | Some first_colon \<Rightarrow>
                (case strrchr (drop (first_colon + 1) address) CHR '':'' of
                   None \<Rightarrow> Inr (0, Some first_colon, AF_UNSPEC)
                 | Some last_colon \<Rightarrow> Inr (0, None, AF_INET6))))
      in case parsed of
           Inl e \<Rightarrow> (Failure e, listen_sock)
         | Inr (addr_start, addr_end, addr_family) \<Rightarrow>
             (let addr_length =
                    (case addr_end of
                       Some e \<Rightarrow> e - addr_start
                     | None \<Rightarrow> length address - addr_start)
              in if addr_length \<ge> addr_buff_size then (Failure AddressTooLong, listen_sock)
                 else
                   (let addr_buff = take addr_length (drop addr_start address)
                    in Sys_BuildSockaddr gai (Some addr_buff) port_name addr_family
                         (listen_sock\<lparr>local_addr_name_no_port := Some addr_buff\<rparr>))))"

section \<open>The process state\<close>

text \<open>
  The global variables of system.c. The two tables are lists of fixed length: the length
  of \<open>listen_addresses\<close> is \<^verbatim>\<open>MAX_LISTEN_ADDRESSES\<close>, the length of \<open>listen_sockets\<close> is
  \<^verbatim>\<open>MAX_LISTEN_SOCKETS\<close> (both constants are declared in system.h).
\<close>

record sys_state =
  nb_addresses :: nat
  listen_addresses :: "listen_address list"
  nb_sockets :: nat
  listen_sockets :: "listen_socket list"
  daemon_state :: daemon_state_t
  jail_path :: string
  low_priv_user :: string
  null_device :: int

definition DEFAULT_JAIL_PATH :: string where
  "DEFAULT_JAIL_PATH = ''/var/empty/''"

definition DEFAULT_LOW_PRIV_USER :: string where
  "DEFAULT_LOW_PRIV_USER = ''nobody''"

text \<open>The initial values of the globals, for tables of the given sizes.\<close>

definition initial_state :: "nat \<Rightarrow> nat \<Rightarrow> sys_state" where
  "initial_state max_listen_addresses max_listen_sockets =
     \<lparr>nb_addresses = 0,
      listen_addresses = replicate max_listen_addresses zero_listen_address,
      nb_sockets = 0,
      listen_sockets = replicate max_listen_sockets zero_listen_socket,
      daemon_state = DAEMON_STATE_NO,
      jail_path = DEFAULT_JAIL_PATH,
      low_priv_user = DEFAULT_LOW_PRIV_USER,
      null_device = - 1\<rparr>"

section \<open>Listen addresses and their resolution\<close>

text \<open>\<^verbatim>\<open>Sys_DeclareListenAddress\<close>.\<close>

definition Sys_DeclareListenAddress :: "string \<Rightarrow> sys_state \<Rightarrow> status \<times> sys_state" where
  "Sys_DeclareListenAddress local_addr_name_arg s =
     (if nb_addresses s < length (listen_addresses s)
      then (Success,
            s\<lparr>listen_addresses :=
                 (listen_addresses s)
                   [nb_addresses s :=
                      zero_listen_address\<lparr>addr_local_addr_name := Some local_addr_name_arg\<rparr>],
               nb_addresses := nb_addresses s + 1\<rparr>)
      else (Failure TooManyAddresses, s))"

text \<open>
  The inner loop of the branch without declared addresses: one entry per port, for one
  address family. The list of ports is the chain \<^verbatim>\<open>listen_ports_t\<close>. The entry is written at
  index \<open>nb_sockets\<close>; the code does not compare the index with the size of the table,
  and an entry past the table is \<open>TableOverflow\<close> here. The entry is written back also
  when the call fails, with what the call stored in it before failing.
\<close>

fun resolve_wildcard_ports ::
  "getaddrinfo_t \<Rightarrow> family \<Rightarrow> string list \<Rightarrow> sys_state \<Rightarrow> status \<times> sys_state"
where
  "resolve_wildcard_ports gai addr_family [] s = (Success, s)"
| "resolve_wildcard_ports gai addr_family (port # ports) s =
     (if length (listen_sockets s) \<le> nb_sockets s then (Failure TableOverflow, s)
      else
        (case Sys_BuildSockaddr gai None port addr_family (listen_sockets s ! nb_sockets s) of
           (Failure e, listen_sock) \<Rightarrow>
             (Failure e, s\<lparr>listen_sockets := (listen_sockets s)[nb_sockets s := listen_sock]\<rparr>)
         | (Success, listen_sock) \<Rightarrow>
             resolve_wildcard_ports gai addr_family ports
               (s\<lparr>listen_sockets :=
                    (listen_sockets s)[nb_sockets s := listen_sock\<lparr>optional := True\<rparr>],
                  nb_sockets := nb_sockets s + 1\<rparr>)))"

text \<open>The outer loop of that branch, over \<^verbatim>\<open>addr_families\<close>.\<close>

fun resolve_families ::
  "getaddrinfo_t \<Rightarrow> family list \<Rightarrow> string list \<Rightarrow> sys_state \<Rightarrow> status \<times> sys_state"
where
  "resolve_families gai [] listen_ports s = (Success, s)"
| "resolve_families gai (addr_family # addr_families) listen_ports s =
     (case resolve_wildcard_ports gai addr_family listen_ports s of
        (Failure e, s') \<Rightarrow> (Failure e, s')
      | (Success, s') \<Rightarrow> resolve_families gai addr_families listen_ports s')"

text \<open>The inner loop of the branch with declared addresses: one entry per port.\<close>

fun resolve_address_ports ::
  "getaddrinfo_t \<Rightarrow> string \<Rightarrow> string list \<Rightarrow> sys_state \<Rightarrow> status \<times> sys_state"
where
  "resolve_address_ports gai address [] s = (Success, s)"
| "resolve_address_ports gai address (port # ports) s =
     (if length (listen_sockets s) \<le> nb_sockets s then (Failure TableOverflow, s)
      else
        (case Sys_StringToSockaddr gai address port (listen_sockets s ! nb_sockets s) of
           (Failure e, listen_sock) \<Rightarrow>
             (Failure e, s\<lparr>listen_sockets := (listen_sockets s)[nb_sockets s := listen_sock]\<rparr>)
         | (Success, listen_sock) \<Rightarrow>
             resolve_address_ports gai address ports
               (s\<lparr>listen_sockets :=
                    (listen_sockets s)
                      [nb_sockets s := listen_sock\<lparr>local_addr_name := Some address\<rparr>],
                  nb_sockets := nb_sockets s + 1\<rparr>)))"

text \<open>
  The outer loop of that branch, over the first \<open>nb_addresses\<close> entries of
  \<open>listen_addresses\<close>. A \<^verbatim>\<open>NULL\<close> name is read only when there is a port to resolve.
\<close>

fun resolve_addresses ::
  "getaddrinfo_t \<Rightarrow> listen_address list \<Rightarrow> string list \<Rightarrow> sys_state \<Rightarrow> status \<times> sys_state"
where
  "resolve_addresses gai [] listen_ports s = (Success, s)"
| "resolve_addresses gai (listen_addr # rest) listen_ports s =
     (case addr_local_addr_name listen_addr of
        None \<Rightarrow>
          (if listen_ports = [] then resolve_addresses gai rest listen_ports s
           else (Failure NullPointer, s))
      | Some address \<Rightarrow>
          (case resolve_address_ports gai address listen_ports s of
             (Failure e, s') \<Rightarrow> (Failure e, s')
           | (Success, s') \<Rightarrow> resolve_addresses gai rest listen_ports s'))"

text \<open>
  \<^verbatim>\<open>Sys_ResolveListenAddresses\<close>. The \<^verbatim>\<open>memset\<close> of the first branch clears
  \<open>nb_addr_families * nb_listen_ports\<close> entries from the start of the table; clearing
  more entries than the table has, or reading more declared addresses than their table
  has, is \<open>TableOverflow\<close>. The function does not reset \<open>nb_sockets\<close>.
\<close>

definition Sys_ResolveListenAddresses ::
  "getaddrinfo_t \<Rightarrow> string list \<Rightarrow> sys_state \<Rightarrow> status \<times> sys_state"
where
  "Sys_ResolveListenAddresses gai listen_ports s =
     (let nb_listen_ports = length listen_ports
      in if nb_addresses s = 0
         then
           (let addr_families = [AF_INET, AF_INET6];
                nb_addr_families = length addr_families
            in if length (listen_sockets s) < nb_addr_families * nb_listen_ports
               then (Failure TableOverflow, s)
               else resolve_families gai addr_families listen_ports
                      (s\<lparr>listen_sockets :=
                           replicate (nb_addr_families * nb_listen_ports) zero_listen_socket @
                           drop (nb_addr_families * nb_listen_ports) (listen_sockets s)\<rparr>))
         else
           (if length (listen_addresses s) < nb_addresses s then (Failure TableOverflow, s)
            else resolve_addresses gai (take (nb_addresses s) (listen_addresses s))
                   listen_ports s))"

section \<open>The operating system\<close>

text \<open>
  The part of the process that the kernel holds: the table of open descriptors with what
  each refers to, \<^verbatim>\<open>errno\<close>, the effective user and group, the root and the working
  directory, and the sequence of system calls made so far (the latest last).
\<close>

datatype open_file = Terminal | NullDevice | UdpSocket family

datatype syscall =
    Call_socket family
  | Call_setsockopt int
  | Call_bind int sockaddr_storage
  | Call_close int
  | Call_open string
  | Call_geteuid
  | Call_getpwnam string
  | Call_chroot string
  | Call_chdir string
  | Call_setgid nat
  | Call_setuid nat
  | Call_daemon
  | Call_dup2 int int

record world =
  fds :: "(int \<times> open_file) list"
  errno :: int
  euid :: nat
  egid :: nat
  root_dir :: string
  cwd :: string
  calls :: "syscall list"

text \<open>\<^verbatim>\<open>struct passwd\<close>, with the two fields system.c reads.\<close>

record passwd =
  pw_uid :: nat
  pw_gid :: nat

text \<open>
  Whether a system call fails is the environment's choice, a parameter of the model. Each
  entry gives the \<^verbatim>\<open>errno\<close> of the failure, or 0 for success (\<open>os_getpwnam\<close>: the account,
  or \<open>None\<close>). The calls made inside a loop (\<^verbatim>\<open>socket\<close>, \<^verbatim>\<open>setsockopt\<close>, \<^verbatim>\<open>bind\<close>) also get
  the world, so that their outcome may change from one call to the next; the others are
  made at most once by each function.
\<close>

record os =
  os_socket :: "world \<Rightarrow> family \<Rightarrow> int"
  os_setsockopt :: "world \<Rightarrow> int \<Rightarrow> int"
  os_bind :: "world \<Rightarrow> int \<Rightarrow> sockaddr_storage \<Rightarrow> int"
  os_open :: "string \<Rightarrow> int"
  os_getpwnam :: "string \<Rightarrow> passwd option"
  os_chroot :: "string \<Rightarrow> int"
  os_chdir :: "string \<Rightarrow> int"
  os_setgid :: "nat \<Rightarrow> int"
  os_setuid :: "nat \<Rightarrow> int"
  os_daemon :: int

definition INVALID_SOCKET :: int where
  "INVALID_SOCKET = - 1"

text \<open>
  \<^verbatim>\<open>NETERR_AFNOSUPPORT\<close> is \<^verbatim>\<open>EAFNOSUPPORT\<close> (system.h); 97 is its value on Linux. \<^verbatim>\<open>EBADF\<close>
  is 9.
\<close>

definition NETERR_AFNOSUPPORT :: int where
  "NETERR_AFNOSUPPORT = 97"

definition EBADF :: int where
  "EBADF = 9"

text \<open>A new descriptor is the lowest number that is not open.\<close>

definition lowest_free :: "int list \<Rightarrow> int" where
  "lowest_free used =
     (case find (\<lambda>n. n \<notin> set used) (map int [0..<Suc (length used)]) of
        Some n \<Rightarrow> n
      | None \<Rightarrow> int (length used))"

definition logged :: "syscall \<Rightarrow> world \<Rightarrow> world" where
  "logged c w = w\<lparr>calls := calls w @ [c]\<rparr>"

definition sys_socket :: "os \<Rightarrow> family \<Rightarrow> world \<Rightarrow> int \<times> world" where
  "sys_socket env addr_family w =
     (let e = os_socket env w addr_family
      in if e \<noteq> 0 then (- 1, logged (Call_socket addr_family) (w\<lparr>errno := e\<rparr>))
         else
           (let fd = lowest_free (map fst (fds w))
            in (fd, logged (Call_socket addr_family)
                      (w\<lparr>fds := (fd, UdpSocket addr_family) # fds w\<rparr>))))"

definition sys_setsockopt :: "os \<Rightarrow> int \<Rightarrow> world \<Rightarrow> int \<times> world" where
  "sys_setsockopt env fd w =
     (let e = os_setsockopt env w fd
      in if e \<noteq> 0 then (- 1, logged (Call_setsockopt fd) (w\<lparr>errno := e\<rparr>))
         else (0, logged (Call_setsockopt fd) w))"

definition sys_bind :: "os \<Rightarrow> int \<Rightarrow> sockaddr_storage \<Rightarrow> world \<Rightarrow> int \<times> world" where
  "sys_bind env fd addr w =
     (let e = os_bind env w fd addr
      in if e \<noteq> 0 then (- 1, logged (Call_bind fd addr) (w\<lparr>errno := e\<rparr>))
         else (0, logged (Call_bind fd addr) w))"

text \<open>\<^verbatim>\<open>close\<close> of a descriptor that is not open fails and changes nothing but \<^verbatim>\<open>errno\<close>.\<close>

definition sys_close :: "int \<Rightarrow> world \<Rightarrow> int \<times> world" where
  "sys_close fd w =
     (if fd \<in> set (map fst (fds w))
      then (0, logged (Call_close fd) (w\<lparr>fds := filter (\<lambda>d. fst d \<noteq> fd) (fds w)\<rparr>))
      else (- 1, logged (Call_close fd) (w\<lparr>errno := EBADF\<rparr>)))"

definition sys_open :: "os \<Rightarrow> string \<Rightarrow> open_file \<Rightarrow> world \<Rightarrow> int \<times> world" where
  "sys_open env path f w =
     (let e = os_open env path
      in if e \<noteq> 0 then (- 1, logged (Call_open path) (w\<lparr>errno := e\<rparr>))
         else
           (let fd = lowest_free (map fst (fds w))
            in (fd, logged (Call_open path) (w\<lparr>fds := (fd, f) # fds w\<rparr>))))"

definition sys_geteuid :: "world \<Rightarrow> nat \<times> world" where
  "sys_geteuid w = (euid w, logged Call_geteuid w)"

definition sys_getpwnam :: "os \<Rightarrow> string \<Rightarrow> world \<Rightarrow> passwd option \<times> world" where
  "sys_getpwnam env name w = (os_getpwnam env name, logged (Call_getpwnam name) w)"

definition sys_chroot :: "os \<Rightarrow> string \<Rightarrow> world \<Rightarrow> int \<times> world" where
  "sys_chroot env path w =
     (let e = os_chroot env path
      in if e \<noteq> 0 then (- 1, logged (Call_chroot path) (w\<lparr>errno := e\<rparr>))
         else (0, logged (Call_chroot path) (w\<lparr>root_dir := path\<rparr>)))"

definition sys_chdir :: "os \<Rightarrow> string \<Rightarrow> world \<Rightarrow> int \<times> world" where
  "sys_chdir env path w =
     (let e = os_chdir env path
      in if e \<noteq> 0 then (- 1, logged (Call_chdir path) (w\<lparr>errno := e\<rparr>))
         else (0, logged (Call_chdir path) (w\<lparr>cwd := path\<rparr>)))"

definition sys_setgid :: "os \<Rightarrow> nat \<Rightarrow> world \<Rightarrow> int \<times> world" where
  "sys_setgid env gid w =
     (let e = os_setgid env gid
      in if e \<noteq> 0 then (- 1, logged (Call_setgid gid) (w\<lparr>errno := e\<rparr>))
         else (0, logged (Call_setgid gid) (w\<lparr>egid := gid\<rparr>)))"

definition sys_setuid :: "os \<Rightarrow> nat \<Rightarrow> world \<Rightarrow> int \<times> world" where
  "sys_setuid env uid w =
     (let e = os_setuid env uid
      in if e \<noteq> 0 then (- 1, logged (Call_setuid uid) (w\<lparr>errno := e\<rparr>))
         else (0, logged (Call_setuid uid) (w\<lparr>euid := uid\<rparr>)))"

text \<open>
  \<^verbatim>\<open>daemon (0, 1)\<close>: the process goes on as the detached child, with the working
  directory changed to the root and its descriptors kept.
\<close>

definition sys_daemon :: "os \<Rightarrow> world \<Rightarrow> int \<times> world" where
  "sys_daemon env w =
     (let e = os_daemon env
      in if e \<noteq> 0 then (- 1, logged Call_daemon (w\<lparr>errno := e\<rparr>))
         else (0, logged Call_daemon (w\<lparr>cwd := ''/''\<rparr>)))"

text \<open>
  \<^verbatim>\<open>dup2 (oldfd, newfd)\<close> makes \<open>newfd\<close> refer to the file of \<open>oldfd\<close>, closing what
  \<open>newfd\<close> referred to; it fails when \<open>oldfd\<close> is not open.
\<close>

definition sys_dup2 :: "int \<Rightarrow> int \<Rightarrow> world \<Rightarrow> int \<times> world" where
  "sys_dup2 oldfd newfd w =
     (case map_of (fds w) oldfd of
        None \<Rightarrow> (- 1, logged (Call_dup2 oldfd newfd) (w\<lparr>errno := EBADF\<rparr>))
      | Some f \<Rightarrow>
          (newfd, logged (Call_dup2 oldfd newfd)
                    (w\<lparr>fds := (newfd, f) # filter (\<lambda>d. fst d \<noteq> newfd) (fds w)\<rparr>)))"

section \<open>Creating the listening sockets\<close>

text \<open>\<^verbatim>\<open>Sys_CloseSocket\<close>.\<close>

definition Sys_CloseSocket :: "int \<Rightarrow> world \<Rightarrow> world" where
  "Sys_CloseSocket sock w = snd (sys_close sock w)"

text \<open>\<^verbatim>\<open>Sys_CloseAllSockets\<close>: the loop over the first \<open>nb_sockets\<close> entries, then the reset.\<close>

fun close_sockets :: "listen_socket list \<Rightarrow> world \<Rightarrow> world" where
  "close_sockets [] w = w"
| "close_sockets (sock # socks) w =
     close_sockets socks (if socket sock \<noteq> - 1 then Sys_CloseSocket (socket sock) w else w)"

definition Sys_CloseAllSockets :: "world \<Rightarrow> sys_state \<Rightarrow> world \<times> sys_state" where
  "Sys_CloseAllSockets w s =
     (close_sockets (take (nb_sockets s) (listen_sockets s)) w, s\<lparr>nb_sockets := 0\<rparr>)"

text \<open>
  \<^verbatim>\<open>memmove (&t[dst], &t[src], n * sizeof (t[0]))\<close> on a table: \<open>n\<close> entries are copied
  from offset \<open>src\<close> to offset \<open>dst\<close>, as if through a temporary buffer.
\<close>

definition memmove_entries :: "nat \<Rightarrow> nat \<Rightarrow> nat \<Rightarrow> 'a list \<Rightarrow> 'a list" where
  "memmove_entries dst src n t = take dst t @ take n (drop src t) @ drop (dst + n) t"

text \<open>\<^verbatim>\<open>Sys_GetLastNetError\<close> (not on Windows: \<^verbatim>\<open>errno\<close>).\<close>

definition Sys_GetLastNetError :: "world \<Rightarrow> int" where
  "Sys_GetLastNetError w = errno w"

text \<open>
  The loop of \<^verbatim>\<open>Sys_CreateListenSockets\<close>, from index \<open>sock_ind\<close>. When an optional
  entry is dropped, the code decrements \<open>sock_ind\<close> and \<^verbatim>\<open>continue\<close> increments it again
  (the counter is unsigned: at 0 it wraps to \<^verbatim>\<open>UINT_MAX\<close> and back), so the loop goes on
  at the same index. The table must hold \<open>nb_sockets\<close> entries. The text of the log lines
  (\<^verbatim>\<open>Sys_SockaddrToString\<close>, \<^verbatim>\<open>Com_Printf\<close>) has no effect on the state and is left out.
  \<^verbatim>\<open>IPV6_V6ONLY\<close> is defined, and the build is not for Windows.
\<close>

function create_sockets_from :: "os \<Rightarrow> nat \<Rightarrow> world \<Rightarrow> sys_state \<Rightarrow> status \<times> world \<times> sys_state"
where
  "create_sockets_from env sock_ind w s =
     (if \<not> sock_ind < nb_sockets s then (Success, w, s)
      else if length (listen_sockets s) < nb_sockets s then (Failure TableOverflow, w, s)
      else
        (let listen_sock = listen_sockets s ! sock_ind;
             addr_family = ss_family (local_addr listen_sock)
         in case sys_socket env addr_family w of
              (crt_sock, w1) \<Rightarrow>
                if crt_sock = INVALID_SOCKET
                then
                  (if Sys_GetLastNetError w1 = NETERR_AFNOSUPPORT \<and> optional listen_sock
                   then
                     create_sockets_from env sock_ind w1
                       ((if sock_ind + 1 < nb_sockets s
                         then s\<lparr>listen_sockets :=
                                  memmove_entries sock_ind (sock_ind + 1)
                                    (nb_sockets s - sock_ind - 2) (listen_sockets s)\<rparr>
                         else s)
                        \<lparr>nb_sockets := nb_sockets s - 1\<rparr>)
                   else
                     (case Sys_CloseAllSockets w1 s of
                        (w2, s2) \<Rightarrow> (Failure SocketCreationFailed, w2, s2)))
                else
                  (case (if addr_family = AF_INET6 then sys_setsockopt env crt_sock w1
                         else (0, w1)) of
                     (opt_res, w2) \<Rightarrow>
                       if opt_res \<noteq> 0
                       then
                         (case Sys_CloseAllSockets w2 s of
                            (w3, s3) \<Rightarrow> (Failure SetsockoptFailed, w3, s3))
                       else
                         (case sys_bind env crt_sock (local_addr listen_sock) w2 of
                            (bind_res, w3) \<Rightarrow>
                              if bind_res \<noteq> 0
                              then
                                (case Sys_CloseAllSockets w3 s of
                                   (w4, s4) \<Rightarrow> (Failure SocketBindingFailed, w4, s4))
                              else
                                create_sockets_from env (sock_ind + 1) w3
                                  (s\<lparr>listen_sockets :=
                                       (listen_sockets s)
                                         [sock_ind := listen_sock\<lparr>socket := crt_sock\<rparr>]\<rparr>)))))"
  by pat_completeness auto
termination
  by (relation "measure (\<lambda>(env, sock_ind, w, s). nb_sockets s - sock_ind)") auto

declare create_sockets_from.simps [simp del]

text \<open>\<^verbatim>\<open>Sys_CreateListenSockets\<close>.\<close>

definition Sys_CreateListenSockets :: "os \<Rightarrow> world \<Rightarrow> sys_state \<Rightarrow> status \<times> world \<times> sys_state" where
  "Sys_CreateListenSockets env w s = create_sockets_from env 0 w s"

section \<open>The three initialization phases\<close>

text \<open>
  The model is the build for POSIX systems (\<^verbatim>\<open>WIN32\<close> is not defined).
  \<^verbatim>\<open>Sys_UnsecureInit\<close> then has an empty body.
\<close>

definition Sys_UnsecureInit :: "os \<Rightarrow> world \<Rightarrow> sys_state \<Rightarrow> status \<times> world \<times> sys_state" where
  "Sys_UnsecureInit env w s = (Success, w, s)"

text \<open>
  The block of \<^verbatim>\<open>Sys_SecurityInit\<close> that runs with super-user privileges, from the call of
  \<^verbatim>\<open>getpwnam\<close> on. \<^verbatim>\<open>chroot (jail_path) || chdir ("/")\<close> and
  \<^verbatim>\<open>setgid (..) || setuid (..)\<close> make the second call only when the first returned 0.
\<close>

definition drop_privileges :: "os \<Rightarrow> world \<Rightarrow> sys_state \<Rightarrow> status \<times> world \<times> sys_state" where
  "drop_privileges env w s =
     (case sys_getpwnam env (low_priv_user s) w of
        (None, w1) \<Rightarrow> (Failure CantGetUser, w1, s)
      | (Some pw, w1) \<Rightarrow>
          (case sys_chroot env (jail_path s) w1 of
             (r2, w2) \<Rightarrow>
               if r2 \<noteq> 0 then (Failure CantChroot, w2, s)
               else
                 (case sys_chdir env ''/'' w2 of
                    (r3, w3) \<Rightarrow>
                      if r3 \<noteq> 0 then (Failure CantChroot, w3, s)
                      else
                        (case sys_setgid env (pw_gid pw) w3 of
                           (r4, w4) \<Rightarrow>
                             if r4 \<noteq> 0 then (Failure CantSwitchUser, w4, s)
                             else
                               (case sys_setuid env (pw_uid pw) w4 of
                                  (r5, w5) \<Rightarrow>
                                    if r5 \<noteq> 0 then (Failure CantSwitchUser, w5, s)
                                    else (Success, w5, s))))))"

text \<open>\<^verbatim>\<open>Sys_SecurityInit\<close>.\<close>

definition Sys_SecurityInit :: "os \<Rightarrow> world \<Rightarrow> sys_state \<Rightarrow> status \<times> world \<times> sys_state" where
  "Sys_SecurityInit env w s =
     (case (if daemon_state s = DAEMON_STATE_REQUEST
            then (case sys_open env ''/dev/null'' NullDevice w of
                    (fd, w0) \<Rightarrow> (w0, s\<lparr>null_device := fd\<rparr>))
            else (w, s)) of
        (w0, s0) \<Rightarrow>
          if daemon_state s = DAEMON_STATE_REQUEST \<and> null_device s0 = - 1
          then (Failure CantOpenNullDevice, w0, s0)
          else
            (case sys_geteuid w0 of
               (uid, w1) \<Rightarrow>
                 if uid = 0 then drop_privileges env w1 s0
                 else (Success, w1, s0)))"

text \<open>\<^verbatim>\<open>Sys_SecureInit\<close>. The results of \<^verbatim>\<open>dup2\<close> and \<^verbatim>\<open>close\<close> are not looked at.\<close>

definition STDIN_FILENO :: int where
  "STDIN_FILENO = 0"

definition STDOUT_FILENO :: int where
  "STDOUT_FILENO = 1"

definition STDERR_FILENO :: int where
  "STDERR_FILENO = 2"

definition Sys_SecureInit :: "os \<Rightarrow> world \<Rightarrow> sys_state \<Rightarrow> status \<times> world \<times> sys_state" where
  "Sys_SecureInit env w s =
     (if daemon_state s = DAEMON_STATE_REQUEST
      then
        (case sys_daemon env w of
           (r, w1) \<Rightarrow>
             if r \<noteq> 0
             then (Failure DaemonizationFailed, w1, s\<lparr>daemon_state := DAEMON_STATE_NO\<rparr>)
             else if null_device s = - 1 then (Failure AssertionFailed, w1, s)
             else
               (let w2 = snd (sys_dup2 (null_device s) STDIN_FILENO w1);
                    w3 = snd (sys_dup2 (null_device s) STDOUT_FILENO w2);
                    w4 = snd (sys_dup2 (null_device s) STDERR_FILENO w3);
                    w5 = snd (sys_close (null_device s) w4)
                in (Success, w5,
                    s\<lparr>null_device := - 1, daemon_state := DAEMON_STATE_EFFECTIVE\<rparr>)))
      else (Success, w, s))"

section \<open>Printing a socket address\<close>

text \<open>
  \<^verbatim>\<open>getnameinfo\<close> with the flags \<^verbatim>\<open>NI_NUMERICHOST|NI_NUMERICSERV\<close> is a parameter: for an
  address and its length it answers with an error code (0 for success), the numeric
  host and the numeric port. \<open>sys_getnameinfo\<close> adds the limits of the two buffers the
  caller gives: a text that does not fit its buffer, terminator included, is the error
  \<^verbatim>\<open>EAI_OVERFLOW\<close>. \<^verbatim>\<open>NI_MAXHOST\<close> and \<^verbatim>\<open>NI_MAXSERV\<close> are the values of netdb.h.
\<close>

type_synonym getnameinfo_t = "sockaddr_storage \<Rightarrow> nat \<Rightarrow> int \<times> string \<times> string"

definition NI_MAXHOST :: nat where
  "NI_MAXHOST = 1025"

definition NI_MAXSERV :: nat where
  "NI_MAXSERV = 32"

definition EAI_OVERFLOW :: int where
  "EAI_OVERFLOW = - 12"

definition sys_getnameinfo ::
  "getnameinfo_t \<Rightarrow> sockaddr_storage \<Rightarrow> nat \<Rightarrow> nat \<Rightarrow> nat \<Rightarrow> int \<times> string \<times> string"
where
  "sys_getnameinfo gni address socklen hostlen servlen =
     (case gni address socklen of
        (err, host, serv) \<Rightarrow>
          if err \<noteq> 0 then (err, [], [])
          else if hostlen \<le> length host \<or> servlen \<le> length serv then (EAI_OVERFLOW, [], [])
          else (0, host, serv))"

text \<open>\<^verbatim>\<open>snprintf (buf, n, ..)\<close> stores at most \<open>n - 1\<close> characters of the text.\<close>

definition snprintf :: "nat \<Rightarrow> string \<Rightarrow> string" where
  "snprintf n txt = take (n - 1) txt"

text \<open>
  \<^verbatim>\<open>Sys_SockaddrToString\<close>. The value is the string held by the static buffer \<open>result\<close>
  when the function returns.
\<close>

definition Sys_SockaddrToString :: "getnameinfo_t \<Rightarrow> sockaddr_storage \<Rightarrow> nat \<Rightarrow> string" where
  "Sys_SockaddrToString gni address socklen =
     (let result_size = NI_MAXHOST + NI_MAXSERV;
          opening = (if ss_family address = AF_INET6 then ''['' else []);
          res_len = length opening
      in case sys_getnameinfo gni address socklen (result_size - res_len) NI_MAXSERV of
           (err, host, port_str) \<Rightarrow>
             if err = 0
             then
               (let suffix = (if ss_family address = AF_INET6 then '']'' else []);
                    result = opening @ host;
                    res_len = length result
                in take (result_size - 1)
                     (result @ snprintf (result_size - res_len) (suffix @ '':'' @ port_str)))
             else take (result_size - 1) ''NON-PRINTABLE ADDRESS'')"

section \<open>An environment for the worked examples\<close>

text \<open>
  A small resolver: the service must be a decimal number, the node is the wildcard
  address, an IPv4 literal of the table below or the IPv6 loopback. The family hint
  restricts the answer.
\<close>

definition digit_value :: "char \<Rightarrow> nat option" where
  "digit_value c =
     (let n = (of_char c :: nat) in if 48 \<le> n \<and> n \<le> 57 then Some (n - 48) else None)"

fun decimal_from :: "nat \<Rightarrow> string \<Rightarrow> nat option" where
  "decimal_from acc [] = Some acc"
| "decimal_from acc (c # cs) =
     (case digit_value c of None \<Rightarrow> None | Some d \<Rightarrow> decimal_from (10 * acc + d) cs)"

definition decimal :: "string \<Rightarrow> nat option" where
  "decimal txt = (if txt = [] then None else decimal_from 0 txt)"

definition EAI_NONAME :: int where
  "EAI_NONAME = - 2"

definition EAI_SERVICE :: int where
  "EAI_SERVICE = - 8"

definition example_hosts :: "(string \<times> family \<times> nat list) list" where
  "example_hosts =
     [(''203.0.113.5'', AF_INET, [203, 0, 113, 5]),
      (''127.0.0.1'', AF_INET, [127, 0, 0, 1]),
      (''example.com'', AF_INET, [192, 0, 2, 10]),
      (''::1'', AF_INET6, [0, 0, 0, 0, 0, 0, 0, 0, 0, 0, 0, 0, 0, 0, 0, 1])]"

definition example_answer :: "family \<Rightarrow> nat list \<Rightarrow> nat \<Rightarrow> int \<times> addrinfo option" where
  "example_answer fam bytes port =
     (0, Some \<lparr>ai_addr = \<lparr>ss_family = fam, ss_addr = bytes, ss_port = port\<rparr>,
              ai_addrlen = (if fam = AF_INET6 then 28 else 16)\<rparr>)"

definition example_getaddrinfo :: getaddrinfo_t where
  "example_getaddrinfo node service hint =
     (case decimal service of
        None \<Rightarrow> (EAI_SERVICE, None)
      | Some port \<Rightarrow>
          (case node of
             None \<Rightarrow>
               (if hint = AF_INET6 then example_answer AF_INET6 (replicate 16 0) port
                else example_answer AF_INET (replicate 4 0) port)
           | Some name \<Rightarrow>
               (case map_of example_hosts name of
                  None \<Rightarrow> (EAI_NONAME, None)
                | Some (fam, bytes) \<Rightarrow>
                    if hint = AF_UNSPEC \<or> hint = fam then example_answer fam bytes port
                    else (EAI_NONAME, None))))"

definition example_world :: world where
  "example_world =
     \<lparr>fds = [(0, Terminal), (1, Terminal), (2, Terminal)], errno = 0, euid = 0, egid = 0,
      root_dir = ''/'', cwd = ''/home'', calls = []\<rparr>"

text \<open>An environment in which every call succeeds, and the account has the ids 65534.\<close>

definition example_os :: os where
  "example_os =
     \<lparr>os_socket = (\<lambda>w f. 0), os_setsockopt = (\<lambda>w fd. 0), os_bind = (\<lambda>w fd a. 0),
      os_open = (\<lambda>p. 0), os_getpwnam = (\<lambda>n. Some \<lparr>pw_uid = 65534, pw_gid = 65534\<rparr>),
      os_chroot = (\<lambda>p. 0), os_chdir = (\<lambda>p. 0), os_setgid = (\<lambda>g. 0),
      os_setuid = (\<lambda>u. 0), os_daemon = 0\<rparr>"

text \<open>A name conversion that knows two addresses and fails for every other one.\<close>

definition EAI_FAMILY :: int where
  "EAI_FAMILY = - 6"

definition example_getnameinfo :: getnameinfo_t where
  "example_getnameinfo address socklen =
     (if address = \<lparr>ss_family = AF_INET, ss_addr = [203, 0, 113, 5], ss_port = 27900\<rparr>
      then (0, ''203.0.113.5'', ''27900'')
      else if address =
              \<lparr>ss_family = AF_INET6, ss_addr = [0, 0, 0, 0, 0, 0, 0, 0, 0, 0, 0, 0, 0, 0, 0, 1],
               ss_port = 27900\<rparr>
      then (0, ''::1'', ''27900'')
      else (EAI_FAMILY, [], []))"

section \<open>The resolution plan, in the words of the specification\<close>

text \<open>
  The plan the specification describes, to be compared with the table that
  \<open>Sys_ResolveListenAddresses\<close> fills. Without declared addresses: the families IPv4
  and IPv6 outer, the ports inner, each entry the wildcard address of the family for
  the port, marked optional. With declared addresses: the addresses outer, the ports
  inner, each entry not optional and holding the declared name and the host part
  without the port.
\<close>

definition wildcard_entry :: "getaddrinfo_t \<Rightarrow> family \<Rightarrow> string \<Rightarrow> listen_socket" where
  "wildcard_entry gai fam port =
     (snd (Sys_BuildSockaddr gai None port fam zero_listen_socket))\<lparr>optional := True\<rparr>"

definition declared_entry :: "getaddrinfo_t \<Rightarrow> string \<Rightarrow> string \<Rightarrow> listen_socket" where
  "declared_entry gai name port =
     (snd (Sys_StringToSockaddr gai name port zero_listen_socket))\<lparr>local_addr_name := Some name\<rparr>"

definition spec_wildcard_plan :: "getaddrinfo_t \<Rightarrow> string list \<Rightarrow> listen_socket list" where
  "spec_wildcard_plan gai ports =
     map (\<lambda>(fam, port). wildcard_entry gai fam port) (List.product [AF_INET, AF_INET6] ports)"

definition spec_declared_plan ::
  "getaddrinfo_t \<Rightarrow> string list \<Rightarrow> string list \<Rightarrow> listen_socket list"
where
  "spec_declared_plan gai names ports =
     map (\<lambda>(name, port). declared_entry gai name port) (List.product names ports)"

text \<open>The registry after the given names were declared, in a table that holds them.\<close>

definition declared :: "string list \<Rightarrow> listen_address list" where
  "declared names = map (\<lambda>name. \<lparr>addr_local_addr_name = Some name\<rparr>) names"

text \<open>
  A resolver for a host without IPv6, and the registry after two declarations in tables
  of two addresses and eight sockets.
\<close>

definition ipv4_only_getaddrinfo :: getaddrinfo_t where
  "ipv4_only_getaddrinfo node service hint =
     (if hint = AF_INET6 then (EAI_FAMILY, None) else example_getaddrinfo node service hint)"

definition example_registry :: sys_state where
  "example_registry =
     snd (Sys_DeclareListenAddress ''[::1]:27999''
            (snd (Sys_DeclareListenAddress ''203.0.113.5'' (initial_state 2 8))))"

text \<open>
  Hosts on which one address family is not supported, a plan of three optional entries
  whose second entry is for IPv6, and an environment in which the port 27950 cannot be
  bound (98 is \<^verbatim>\<open>EADDRINUSE\<close>).
\<close>

definition no_ipv6_os :: os where
  "no_ipv6_os =
     example_os\<lparr>os_socket := \<lambda>w fam. if fam = AF_INET6 then NETERR_AFNOSUPPORT else 0\<rparr>"

definition no_ipv4_os :: os where
  "no_ipv4_os =
     example_os\<lparr>os_socket := \<lambda>w fam. if fam = AF_INET then NETERR_AFNOSUPPORT else 0\<rparr>"

definition three_entry_plan :: sys_state where
  "three_entry_plan =
     (initial_state 2 8)
       \<lparr>nb_sockets := 3,
        listen_sockets :=
          [wildcard_entry example_getaddrinfo AF_INET ''27900'',
           wildcard_entry example_getaddrinfo AF_INET6 ''27900'',
           wildcard_entry example_getaddrinfo AF_INET ''27950''] @
          replicate 5 zero_listen_socket\<rparr>"

definition busy_port_os :: os where
  "busy_port_os = example_os\<lparr>os_bind := \<lambda>w fd addr. if ss_port addr = 27950 then 98 else 0\<rparr>"

text \<open>The plan for one declared address and three ports, as the resolution builds it.\<close>

definition three_port_plan :: sys_state where
  "three_port_plan =
     snd (Sys_ResolveListenAddresses example_getaddrinfo [''27900'', ''27950'', ''27999'']
            (snd (Sys_DeclareListenAddress ''203.0.113.5'' (initial_state 2 8))))"

section \<open>The entries of the plan, written out\<close>

text \<open>
  What the specification says an entry of the plan holds, written without the functions
  of the code. A lookup succeeds when the resolver answers with the code 0 and a
  result, and the entry then holds the address and the length of that result. The entry
  of a family and a port is the answer to the lookup of no host (the wildcard address)
  with the family as the hint, and it is optional.
\<close>

definition spec_lookup ::
  "getaddrinfo_t \<Rightarrow> string option \<Rightarrow> string \<Rightarrow> family \<Rightarrow> addrinfo option"
where
  "spec_lookup gai host port hint =
     (case gai host port hint of
        (err, None) \<Rightarrow> None
      | (err, Some ai) \<Rightarrow> if err = 0 then Some ai else None)"

definition spec_wildcard_socket ::
  "getaddrinfo_t \<Rightarrow> family \<Rightarrow> string \<Rightarrow> listen_socket option"
where
  "spec_wildcard_socket gai fam port =
     map_option
       (\<lambda>ai. \<lparr>socket = 0, local_addr = ai_addr ai, local_addr_len = ai_addrlen ai,
              local_addr_name = None, local_addr_name_no_port = None, optional = True\<rparr>)
       (spec_lookup gai None port fam)"

text \<open>
  The host portion of an address token and the family hint, by the steps of the
  specification. A token that starts with an opening bracket needs a closing one, the
  host is the text between them, the hint is IPv6, and what follows the closing bracket
  is nothing or starts with a colon. Another token without a colon is the host; with
  one colon, the host is the text before it; with two or more, the token is an IPv6
  literal and is the host, with the hint IPv6. The host has at most 127 characters.
\<close>

definition spec_host :: "string \<Rightarrow> error + string \<times> family" where
  "spec_host token =
     (if token \<noteq> [] \<and> hd token = CHR ''[''
      then
        (if CHR '']'' \<notin> set (tl token) then Inl NoClosingBracket
         else
           (let host = takeWhile (\<lambda>c. c \<noteq> CHR '']'') (tl token);
                after = drop (length host + 1) (tl token)
            in if after \<noteq> [] \<and> hd after \<noteq> CHR '':'' then Inl InvalidBracketEnd
               else if 127 < length host then Inl AddressTooLong
               else Inr (host, AF_INET6)))
      else
        (let colons = count_list token CHR '':'';
             host = (if colons = 1 then takeWhile (\<lambda>c. c \<noteq> CHR '':'') token else token)
         in if 127 < length host then Inl AddressTooLong
            else Inr (host, if 2 \<le> colons then AF_INET6 else AF_UNSPEC)))"

text \<open>
  The entry of a declared address and a port: the answer to the lookup of the host
  portion with the port and the hint, the declared name, the host portion, and not
  optional. There is no entry when the token is not well formed or the lookup fails.
\<close>

definition spec_declared_socket ::
  "getaddrinfo_t \<Rightarrow> string \<Rightarrow> string \<Rightarrow> listen_socket option"
where
  "spec_declared_socket gai name port =
     (case spec_host name of
        Inl e \<Rightarrow> None
      | Inr (host, hint) \<Rightarrow>
          map_option
            (\<lambda>ai. \<lparr>socket = 0, local_addr = ai_addr ai, local_addr_len = ai_addrlen ai,
                   local_addr_name = Some name, local_addr_name_no_port = Some host,
                   optional = False\<rparr>)
            (spec_lookup gai (Some host) port hint))"

text \<open>
  A process that was started with its standard input closed and for which a daemon is
  requested.
\<close>

definition stdin_closed_world :: world where
  "stdin_closed_world = example_world\<lparr>fds := [(1, Terminal), (2, Terminal)]\<rparr>"

definition daemon_requested :: sys_state where
  "daemon_requested = (initial_state 2 8)\<lparr>daemon_state := DAEMON_STATE_REQUEST\<rparr>"

section \<open>Parsing an address: facts about the string functions\<close>

lemma strchr_None_iff: "strchr s c = None \<longleftrightarrow> c \<notin> set s"
  by (induction s) auto

lemma strchr_append: "c \<notin> set h \<Longrightarrow> strchr (h @ c # t) c = Some (length h)"
  by (induction h) auto

lemma strchr_Some_split:
  "strchr s c = Some i \<Longrightarrow> i < length s \<and> s ! i = c \<and> c \<notin> set (take i s)"
proof (induction s arbitrary: i)
  case Nil
  then show ?case by simp
next
  case (Cons x xs)
  show ?case
  proof (cases "x = c")
    case True
    with Cons.prems show ?thesis by simp
  next
    case False
    with Cons.prems obtain j where j: "strchr xs c = Some j" "i = Suc j" by auto
    from Cons.IH [OF j(1)] False j(2) show ?thesis by simp
  qed
qed

lemma strchr_takeWhile:
  "strchr s c = Some i \<Longrightarrow> take i s = takeWhile (\<lambda>x. x \<noteq> c) s"
proof (induction s arbitrary: i)
  case Nil
  then show ?case by simp
next
  case (Cons x xs)
  then show ?case by (cases "x = c") auto
qed

lemma strrchr_None_iff: "strrchr s c = None \<longleftrightarrow> c \<notin> set s"
  by (simp add: strrchr_def strchr_None_iff)

lemma count_list_zero_iff: "count_list s c = 0 \<longleftrightarrow> c \<notin> set s"
  by (induction s) auto

lemma count_list_split:
  "strchr s c = Some i \<Longrightarrow> count_list s c = Suc (count_list (drop (Suc i) s) c)"
proof -
  assume a: "strchr s c = Some i"
  from strchr_Some_split [OF a] have i: "i < length s" "s ! i = c" "c \<notin> set (take i s)" by auto
  have "s = take i s @ s ! i # drop (Suc i) s" using i(1) by (simp add: id_take_nth_drop)
  then have "count_list s c = count_list (take i s @ c # drop (Suc i) s) c" using i(2) by simp
  also have "\<dots> = count_list (take i s) c + Suc (count_list (drop (Suc i) s) c)" by simp
  also have "count_list (take i s) c = 0" using i(3) by (simp add: count_list_zero_iff)
  finally show ?thesis by simp
qed


lemma parse_no_colon:
  assumes "char_at address 0 \<noteq> CHR ''[''" and "count_list address CHR '':'' = 0"
    and "length address < addr_buff_size"
  shows "Sys_StringToSockaddr gai address port_name ls =
         Sys_BuildSockaddr gai (Some address) port_name AF_UNSPEC
           (ls\<lparr>local_addr_name_no_port := Some address\<rparr>)"
proof -
  from assms(2) have "strchr address CHR '':'' = None"
    by (simp add: strchr_None_iff count_list_zero_iff)
  with assms(1,3) show ?thesis
    by (simp add: Sys_StringToSockaddr_def Let_def)
qed

lemma parse_one_colon:
  assumes "char_at address 0 \<noteq> CHR ''[''" and "count_list address CHR '':'' = 1"
    and "length (takeWhile (\<lambda>c. c \<noteq> CHR '':'') address) < addr_buff_size"
  shows "Sys_StringToSockaddr gai address port_name ls =
         Sys_BuildSockaddr gai (Some (takeWhile (\<lambda>c. c \<noteq> CHR '':'') address)) port_name AF_UNSPEC
           (ls\<lparr>local_addr_name_no_port := Some (takeWhile (\<lambda>c. c \<noteq> CHR '':'') address)\<rparr>)"
proof -
  from assms(2) have "CHR '':'' \<in> set address"
    using count_list_zero_iff [of address "CHR '':''"] by simp
  then obtain i where i: "strchr address CHR '':'' = Some i"
    using strchr_None_iff [of address "CHR '':''"] by (cases "strchr address CHR '':''") auto
  from count_list_split [OF i] assms(2)
  have "count_list (drop (Suc i) address) CHR '':'' = 0" by simp
  then have r: "strrchr (drop (Suc i) address) CHR '':'' = None"
    by (simp add: strrchr_None_iff count_list_zero_iff)
  have t: "take i address = takeWhile (\<lambda>c. c \<noteq> CHR '':'') address"
    by (rule strchr_takeWhile [OF i])
  have l: "i < length address" using strchr_Some_split [OF i] by simp
  have li: "length (takeWhile (\<lambda>c. c \<noteq> CHR '':'') address) = i"
    using t l by (metis length_take min.absorb2 less_imp_le)
  show ?thesis
    using assms(1,3) i r t li by (simp add: Sys_StringToSockaddr_def Let_def)
qed

lemma parse_many_colons:
  assumes "char_at address 0 \<noteq> CHR ''[''" and "2 \<le> count_list address CHR '':''"
    and "length address < addr_buff_size"
  shows "Sys_StringToSockaddr gai address port_name ls =
         Sys_BuildSockaddr gai (Some address) port_name AF_INET6
           (ls\<lparr>local_addr_name_no_port := Some address\<rparr>)"
proof -
  from assms(2) have "CHR '':'' \<in> set address"
    using count_list_zero_iff [of address "CHR '':''"] by auto
  then obtain i where i: "strchr address CHR '':'' = Some i"
    using strchr_None_iff [of address "CHR '':''"] by (cases "strchr address CHR '':''") auto
  from count_list_split [OF i] assms(2)
  have "count_list (drop (Suc i) address) CHR '':'' \<noteq> 0" by simp
  then obtain j where r: "strrchr (drop (Suc i) address) CHR '':'' = Some j"
    using strrchr_None_iff [of "drop (Suc i) address" "CHR '':''"]
    by (cases "strrchr (drop (Suc i) address) CHR '':''") (auto simp: count_list_zero_iff)
  show ?thesis
    using assms(1,3) i r by (simp add: Sys_StringToSockaddr_def Let_def)
qed

lemma parse_bracketed:
  assumes "CHR '']'' \<notin> set host" and "tail = [] \<or> hd tail = CHR '':''"
    and "length host < addr_buff_size"
  shows "Sys_StringToSockaddr gai (CHR ''['' # host @ CHR '']'' # tail) port_name ls =
         Sys_BuildSockaddr gai (Some host) port_name AF_INET6
           (ls\<lparr>local_addr_name_no_port := Some host\<rparr>)"
proof -
  have i: "strchr (CHR ''['' # host @ CHR '']'' # tail) CHR '']'' = Some (Suc (length host))"
    using assms(1) by (simp add: strchr_append)
  have c: "char_at (CHR ''['' # host @ CHR '']'' # tail) (Suc (Suc (length host))) = char_at tail 0"
    by (simp add: char_at_def nth_append)
  have z: "char_at (CHR ''['' # host @ CHR '']'' # tail) 0 = CHR ''[''"
    by (simp add: char_at_def)
  have t: "char_at tail 0 = CHR '':'' \<or> char_at tail 0 = NUL"
    using assms(2) by (cases tail) (auto simp: char_at_def)
  show ?thesis
    using assms(3) i t z by (auto simp: Sys_StringToSockaddr_def Let_def c)
qed

lemma parse_no_closing_bracket:
  assumes "CHR '']'' \<notin> set rest"
  shows "Sys_StringToSockaddr gai (CHR ''['' # rest) port_name ls = (Failure NoClosingBracket, ls)"
proof -
  have "strchr (CHR ''['' # rest) CHR '']'' = None"
    using assms by (simp add: strchr_None_iff)
  then show ?thesis by (simp add: Sys_StringToSockaddr_def char_at_def Let_def)
qed

lemma parse_invalid_bracket_end:
  assumes "CHR '']'' \<notin> set host" and "x \<noteq> CHR '':''" and "x \<noteq> NUL"
  shows "Sys_StringToSockaddr gai (CHR ''['' # host @ CHR '']'' # x # tail) port_name ls =
         (Failure InvalidBracketEnd, ls)"
proof -
  have i: "strchr (CHR ''['' # host @ CHR '']'' # x # tail) CHR '']'' = Some (Suc (length host))"
    using assms(1) by (simp add: strchr_append)
  have c: "char_at (CHR ''['' # host @ CHR '']'' # x # tail) (Suc (Suc (length host))) = x"
    by (simp add: char_at_def nth_append)
  have z: "char_at (CHR ''['' # host @ CHR '']'' # x # tail) 0 = CHR ''[''"
    by (simp add: char_at_def)
  show ?thesis
    using assms(2,3) i z by (simp add: Sys_StringToSockaddr_def Let_def c)
qed


section \<open>Parsing an address: what is resolved\<close>

text \<open>
  C3, as the code has it. The host part of a token must be shorter than the 128 bytes of
  \<open>addr_buff\<close>. For a token that does not start with an opening bracket: without a
  colon the whole token is the host, with no family hint; with exactly one colon the
  host is the text before the colon, with no family hint; with two or more colons the
  whole token is the host, with the family hint IPv6. For a token that starts with an
  opening bracket, the host is the text up to the first closing bracket and the hint is
  IPv6, provided the token ends there or a colon follows; a token without a closing
  bracket and a token with another character after it are syntax errors, and the table
  entry is left as it was. In every case the service given to the resolver is the
  caller's \<open>port_name\<close>: the text after the colon of the token is not used.
\<close>

theorem Sys_StringToSockaddr_parse:
  "(char_at address 0 \<noteq> CHR ''['' \<and> count_list address CHR '':'' = 0 \<and>
    length address < addr_buff_size \<longrightarrow>
      Sys_StringToSockaddr gai address port_name ls =
      Sys_BuildSockaddr gai (Some address) port_name AF_UNSPEC
        (ls\<lparr>local_addr_name_no_port := Some address\<rparr>)) \<and>
   (char_at address 0 \<noteq> CHR ''['' \<and> count_list address CHR '':'' = 1 \<and>
    length (takeWhile (\<lambda>c. c \<noteq> CHR '':'') address) < addr_buff_size \<longrightarrow>
      Sys_StringToSockaddr gai address port_name ls =
      Sys_BuildSockaddr gai (Some (takeWhile (\<lambda>c. c \<noteq> CHR '':'') address)) port_name AF_UNSPEC
        (ls\<lparr>local_addr_name_no_port := Some (takeWhile (\<lambda>c. c \<noteq> CHR '':'') address)\<rparr>)) \<and>
   (char_at address 0 \<noteq> CHR ''['' \<and> 2 \<le> count_list address CHR '':'' \<and>
    length address < addr_buff_size \<longrightarrow>
      Sys_StringToSockaddr gai address port_name ls =
      Sys_BuildSockaddr gai (Some address) port_name AF_INET6
        (ls\<lparr>local_addr_name_no_port := Some address\<rparr>)) \<and>
   (CHR '']'' \<notin> set host \<and> (tail = [] \<or> hd tail = CHR '':'') \<and>
    length host < addr_buff_size \<longrightarrow>
      Sys_StringToSockaddr gai (CHR ''['' # host @ CHR '']'' # tail) port_name ls =
      Sys_BuildSockaddr gai (Some host) port_name AF_INET6
        (ls\<lparr>local_addr_name_no_port := Some host\<rparr>)) \<and>
   (CHR '']'' \<notin> set rest \<longrightarrow>
      Sys_StringToSockaddr gai (CHR ''['' # rest) port_name ls =
      (Failure NoClosingBracket, ls)) \<and>
   (CHR '']'' \<notin> set host \<and> x \<noteq> CHR '':'' \<and> x \<noteq> NUL \<longrightarrow>
      Sys_StringToSockaddr gai (CHR ''['' # host @ CHR '']'' # x # tail) port_name ls =
      (Failure InvalidBracketEnd, ls))"
  using parse_no_colon [of address gai port_name ls]
    parse_one_colon [of address gai port_name ls]
    parse_many_colons [of address gai port_name ls]
    parse_bracketed [of host tail gai port_name ls]
    parse_no_closing_bracket [of rest gai port_name ls]
    parse_invalid_bracket_end [of host x gai tail port_name ls]
  by blast

theorem Sys_StringToSockaddr_parse_witness:
  "Sys_StringToSockaddr example_getaddrinfo ''example.com'' ''27900'' zero_listen_socket =
     Sys_BuildSockaddr example_getaddrinfo (Some ''example.com'') ''27900'' AF_UNSPEC
       (zero_listen_socket\<lparr>local_addr_name_no_port := Some ''example.com''\<rparr>) \<and>
   Sys_StringToSockaddr example_getaddrinfo ''example.com:27901'' ''27900'' zero_listen_socket =
     Sys_BuildSockaddr example_getaddrinfo (Some ''example.com'') ''27900'' AF_UNSPEC
       (zero_listen_socket\<lparr>local_addr_name_no_port := Some ''example.com''\<rparr>) \<and>
   Sys_StringToSockaddr example_getaddrinfo ''::1:db8::1'' ''27900'' zero_listen_socket =
     Sys_BuildSockaddr example_getaddrinfo (Some ''::1:db8::1'') ''27900'' AF_INET6
       (zero_listen_socket\<lparr>local_addr_name_no_port := Some ''::1:db8::1''\<rparr>) \<and>
   Sys_StringToSockaddr example_getaddrinfo ''[::1]:27900'' ''27950'' zero_listen_socket =
     Sys_BuildSockaddr example_getaddrinfo (Some ''::1'') ''27950'' AF_INET6
       (zero_listen_socket\<lparr>local_addr_name_no_port := Some ''::1''\<rparr>) \<and>
   Sys_StringToSockaddr example_getaddrinfo ''[::1'' ''27900'' zero_listen_socket =
     (Failure NoClosingBracket, zero_listen_socket) \<and>
   Sys_StringToSockaddr example_getaddrinfo ''[::1]27900'' ''27900'' zero_listen_socket =
     (Failure InvalidBracketEnd, zero_listen_socket)"
  using
    Sys_StringToSockaddr_parse [where address = "''example.com''" and gai = example_getaddrinfo
      and port_name = "''27900''" and ls = zero_listen_socket and host = "''::1''"
      and tail = "'':27900''" and rest = "''::1''" and x = "CHR ''2''"]
    Sys_StringToSockaddr_parse [where address = "''example.com:27901''"
      and gai = example_getaddrinfo and port_name = "''27900''" and ls = zero_listen_socket
      and host = "''::1''" and tail = "''7900''" and rest = "''::1''" and x = "CHR ''2''"]
    Sys_StringToSockaddr_parse [where address = "''::1:db8::1''" and gai = example_getaddrinfo
      and port_name = "''27900''" and ls = zero_listen_socket and host = "''::1''"
      and tail = "'':27900''" and rest = "''::1''" and x = "CHR ''2''"]
    Sys_StringToSockaddr_parse [where address = "''x''" and gai = example_getaddrinfo
      and port_name = "''27950''" and ls = zero_listen_socket and host = "''::1''"
      and tail = "'':27900''" and rest = "''::1''" and x = "CHR ''2''"]
  by (simp add: char_at_def addr_buff_size_def NUL_def)

text \<open>
  C3 as it is stated fails: the port written in the token is not the port of the resolved
  address. With the caller's port 27900, the token \<open>example.com:27901\<close> resolves to port
  27900, and \<open>[::1]:27900\<close> with the caller's port 27950 resolves to port 27950.
\<close>

theorem Sys_StringToSockaddr_port_counterexample:
  "ss_port (local_addr (snd (Sys_StringToSockaddr example_getaddrinfo
      ''example.com:27901'' ''27900'' zero_listen_socket))) = 27900 \<and>
   Sys_StringToSockaddr example_getaddrinfo ''example.com:27901'' ''27900'' zero_listen_socket \<noteq>
     Sys_BuildSockaddr example_getaddrinfo (Some ''example.com'') ''27901'' AF_UNSPEC
       (zero_listen_socket\<lparr>local_addr_name_no_port := Some ''example.com''\<rparr>) \<and>
   ss_port (local_addr (snd (Sys_StringToSockaddr example_getaddrinfo
      ''[::1]:27900'' ''27950'' zero_listen_socket))) = 27950"
  by (simp add: Sys_StringToSockaddr_def Sys_BuildSockaddr_def example_getaddrinfo_def
      example_answer_def example_hosts_def decimal_def digit_value_def char_at_def strrchr_def
      addr_buff_size_def NUL_def zero_listen_socket_def zero_sockaddr_def Let_def)

section \<open>Printing a socket address: the format\<close>

lemma format_success:
  assumes "gni address socklen = (0, host, port_str)"
    and "length port_str < NI_MAXSERV"
    and "length host + length port_str + 3 < NI_MAXHOST + NI_MAXSERV"
  shows "Sys_SockaddrToString gni address socklen =
         (if ss_family address = AF_INET6 then ''['' @ host @ '']:'' @ port_str
          else host @ '':'' @ port_str)"
  using assms
  by (auto simp: Sys_SockaddrToString_def sys_getnameinfo_def snprintf_def Let_def)

lemma format_failure:
  assumes "fst (gni address socklen) \<noteq> 0"
  shows "Sys_SockaddrToString gni address socklen = ''NON-PRINTABLE ADDRESS''"
proof -
  obtain err host serv where g: "gni address socklen = (err, host, serv)"
    by (cases "gni address socklen") auto
  with assms have "err \<noteq> 0" by simp
  with g show ?thesis
    by (simp add: Sys_SockaddrToString_def sys_getnameinfo_def NI_MAXHOST_def NI_MAXSERV_def Let_def)
qed

text \<open>
  C9. When the name conversion succeeds with a numeric host and a numeric port that fit
  the buffer, \<open>Sys_SockaddrToString\<close> gives the host, in brackets exactly when the
  family is IPv6, then a colon and the port. When the conversion fails, it gives the
  fixed text \<open>NON-PRINTABLE ADDRESS\<close>.
\<close>

theorem Sys_SockaddrToString_format:
  "(gni address socklen = (0, host, port_str) \<and> length port_str < NI_MAXSERV \<and>
    length host + length port_str + 3 < NI_MAXHOST + NI_MAXSERV \<longrightarrow>
      Sys_SockaddrToString gni address socklen =
      (if ss_family address = AF_INET6 then ''['' @ host @ '']:'' @ port_str
       else host @ '':'' @ port_str)) \<and>
   (fst (gni address socklen) \<noteq> 0 \<longrightarrow>
      Sys_SockaddrToString gni address socklen = ''NON-PRINTABLE ADDRESS'')"
  using format_success [of gni address socklen host port_str]
    format_failure [of gni address socklen]
  by blast

theorem Sys_SockaddrToString_format_witness:
  "Sys_SockaddrToString example_getnameinfo
     \<lparr>ss_family = AF_INET, ss_addr = [203, 0, 113, 5], ss_port = 27900\<rparr> 16 =
     ''203.0.113.5:27900'' \<and>
   Sys_SockaddrToString example_getnameinfo
     \<lparr>ss_family = AF_INET6, ss_addr = [0, 0, 0, 0, 0, 0, 0, 0, 0, 0, 0, 0, 0, 0, 0, 1],
      ss_port = 27900\<rparr> 28 =
     ''[::1]:27900'' \<and>
   Sys_SockaddrToString example_getnameinfo zero_sockaddr 0 = ''NON-PRINTABLE ADDRESS''"
  using
    Sys_SockaddrToString_format [of example_getnameinfo
      "\<lparr>ss_family = AF_INET, ss_addr = [203, 0, 113, 5], ss_port = 27900\<rparr>" 16
      "''203.0.113.5''" "''27900''"]
    Sys_SockaddrToString_format [of example_getnameinfo
      "\<lparr>ss_family = AF_INET6, ss_addr = [0, 0, 0, 0, 0, 0, 0, 0, 0, 0, 0, 0, 0, 0, 0, 1],
        ss_port = 27900\<rparr>" 28 "''::1''" "''27900''"]
    Sys_SockaddrToString_format [of example_getnameinfo zero_sockaddr 0 "[]" "[]"]
  by (simp add: example_getnameinfo_def NI_MAXHOST_def NI_MAXSERV_def zero_sockaddr_def
      EAI_FAMILY_def)

section \<open>The daemon phase\<close>

lemma daemon_failure:
  assumes "daemon_state s = DAEMON_STATE_REQUEST" and "os_daemon env \<noteq> 0"
  shows "Sys_SecureInit env w s =
         (Failure DaemonizationFailed, logged Call_daemon (w\<lparr>errno := os_daemon env\<rparr>),
          s\<lparr>daemon_state := DAEMON_STATE_NO\<rparr>)"
  using assms by (simp add: Sys_SecureInit_def sys_daemon_def Let_def)

lemma map_of_filter_other:
  "k \<noteq> fd \<Longrightarrow> map_of (filter (\<lambda>d. fst d \<noteq> fd) xs) k = map_of xs k"
  by (induction xs) auto

lemma map_of_filter_same: "map_of (filter (\<lambda>d. fst d \<noteq> fd) xs) fd = None"
  by (induction xs) auto

lemma dup2_calls: "calls (snd (sys_dup2 a b w)) = calls w @ [Call_dup2 a b]"
  by (simp add: sys_dup2_def logged_def split: option.splits)

lemma close_calls: "calls (snd (sys_close a w)) = calls w @ [Call_close a]"
  by (simp add: sys_close_def logged_def)

lemma close_closed: "map_of (fds (snd (sys_close a w))) a = None"
  by (auto simp: sys_close_def logged_def map_of_filter_same map_of_eq_None_iff)

lemma close_other: "k \<noteq> a \<Longrightarrow> map_of (fds (snd (sys_close a w))) k = map_of (fds w) k"
  by (simp add: sys_close_def logged_def map_of_filter_other)

lemma dup2_target:
  "map_of (fds w) a = Some f \<Longrightarrow> map_of (fds (snd (sys_dup2 a b w))) b = Some f"
  by (simp add: sys_dup2_def logged_def)

lemma dup2_other:
  "k \<noteq> b \<Longrightarrow> map_of (fds (snd (sys_dup2 a b w))) k = map_of (fds w) k"
  by (simp add: sys_dup2_def logged_def map_of_filter_other split: option.splits)

lemma daemon_success:
  assumes "daemon_state s = DAEMON_STATE_REQUEST" and "os_daemon env = 0"
    and "null_device s \<noteq> - 1"
    and "Sys_SecureInit env w s = (r, w', s')"
  shows "r = Success" and "daemon_state s' = DAEMON_STATE_EFFECTIVE" and "null_device s' = - 1"
    and "calls w' = calls w @
           [Call_daemon, Call_dup2 (null_device s) 0, Call_dup2 (null_device s) 1,
            Call_dup2 (null_device s) 2, Call_close (null_device s)]"
    and "map_of (fds w') (null_device s) = None"
    and "map_of (fds w) (null_device s) = Some NullDevice \<Longrightarrow> 2 < null_device s \<Longrightarrow>
         map_of (fds w') 0 = Some NullDevice \<and> map_of (fds w') 1 = Some NullDevice \<and>
         map_of (fds w') 2 = Some NullDevice"
proof -
  define w1 where "w1 = logged Call_daemon (w\<lparr>cwd := ''/''\<rparr>)"
  define w2 where "w2 = snd (sys_dup2 (null_device s) 0 w1)"
  define w3 where "w3 = snd (sys_dup2 (null_device s) 1 w2)"
  define w4 where "w4 = snd (sys_dup2 (null_device s) 2 w3)"
  have res: "Sys_SecureInit env w s =
      (Success, snd (sys_close (null_device s) w4),
       s\<lparr>null_device := - 1, daemon_state := DAEMON_STATE_EFFECTIVE\<rparr>)"
    using assms(1-3)
    by (simp add: Sys_SecureInit_def sys_daemon_def Let_def w1_def w2_def w3_def w4_def
        STDIN_FILENO_def STDOUT_FILENO_def STDERR_FILENO_def)
  from res assms(4) show "r = Success" and "daemon_state s' = DAEMON_STATE_EFFECTIVE"
    and "null_device s' = - 1" by auto
  from res assms(4) have w': "w' = snd (sys_close (null_device s) w4)" by simp
  have c1: "calls w1 = calls w @ [Call_daemon]" by (simp add: w1_def logged_def)
  show "calls w' = calls w @
           [Call_daemon, Call_dup2 (null_device s) 0, Call_dup2 (null_device s) 1,
            Call_dup2 (null_device s) 2, Call_close (null_device s)]"
    by (simp add: w' close_calls w4_def w3_def w2_def dup2_calls c1)
  show "map_of (fds w') (null_device s) = None"
    by (simp add: w' close_closed)
  assume nd: "map_of (fds w) (null_device s) = Some NullDevice" and big: "2 < null_device s"
  have f1: "fds w1 = fds w" by (simp add: w1_def logged_def)
  have n2: "map_of (fds w2) (null_device s) = Some NullDevice"
    using nd big by (simp add: w2_def dup2_other f1)
  have n3: "map_of (fds w3) (null_device s) = Some NullDevice"
    using n2 big by (simp add: w3_def dup2_other)
  have a0: "map_of (fds w2) 0 = Some NullDevice"
    using nd by (simp add: w2_def dup2_target f1)
  have a1: "map_of (fds w3) 1 = Some NullDevice"
    using n2 by (simp add: w3_def dup2_target)
  have a2: "map_of (fds w4) 2 = Some NullDevice"
    using n3 by (simp add: w4_def dup2_target)
  have b0: "map_of (fds w4) 0 = Some NullDevice"
    using a0 by (simp add: w4_def w3_def dup2_other)
  have b1: "map_of (fds w4) 1 = Some NullDevice"
    using a1 by (simp add: w4_def dup2_other)
  show "map_of (fds w') 0 = Some NullDevice \<and> map_of (fds w') 1 = Some NullDevice \<and>
         map_of (fds w') 2 = Some NullDevice"
    using big b0 b1 a2 by (simp add: w' close_other)
qed

text \<open>
  What \<open>Sys_SecureInit\<close> does in every environment. When a daemon was requested and
  \<open>daemon\<close> fails, it returns the failure \<open>DaemonizationFailed\<close>, the daemon state is
  \<open>DAEMON_STATE_NO\<close>, the table of descriptors is as it was, and \<open>daemon\<close> is the only call
  made. When \<open>daemon\<close> succeeds and the null device was opened before, the function
  succeeds, the calls are the three \<open>dup2\<close> to the descriptors 0, 1 and 2 and then the
  \<open>close\<close> of the handle, the handle is closed and forgotten, and the daemon state is
  \<open>DAEMON_STATE_EFFECTIVE\<close>. The three standard descriptors then refer to the null device
  when the handle is a descriptor above them.
\<close>

lemma Sys_SecureInit_daemonize:
  "(daemon_state s = DAEMON_STATE_REQUEST \<and> os_daemon env \<noteq> 0 \<longrightarrow>
      (case Sys_SecureInit env w s of
         (r, w', s') \<Rightarrow>
           r = Failure DaemonizationFailed \<and> daemon_state s' = DAEMON_STATE_NO \<and>
           fds w' = fds w \<and> calls w' = calls w @ [Call_daemon])) \<and>
   (daemon_state s = DAEMON_STATE_REQUEST \<and> os_daemon env = 0 \<and>
    null_device s \<noteq> - 1 \<and> map_of (fds w) (null_device s) = Some NullDevice \<longrightarrow>
      (case Sys_SecureInit env w s of
         (r, w', s') \<Rightarrow>
           r = Success \<and> daemon_state s' = DAEMON_STATE_EFFECTIVE \<and> null_device s' = - 1 \<and>
           calls w' = calls w @
             [Call_daemon, Call_dup2 (null_device s) STDIN_FILENO,
              Call_dup2 (null_device s) STDOUT_FILENO,
              Call_dup2 (null_device s) STDERR_FILENO, Call_close (null_device s)] \<and>
           map_of (fds w') (null_device s) = None \<and>
           (2 < null_device s \<longrightarrow>
              map_of (fds w') STDIN_FILENO = Some NullDevice \<and>
              map_of (fds w') STDOUT_FILENO = Some NullDevice \<and>
              map_of (fds w') STDERR_FILENO = Some NullDevice)))"
proof (intro conjI impI)
  assume "daemon_state s = DAEMON_STATE_REQUEST \<and> os_daemon env \<noteq> 0"
  then show "case Sys_SecureInit env w s of
         (r, w', s') \<Rightarrow>
           r = Failure DaemonizationFailed \<and> daemon_state s' = DAEMON_STATE_NO \<and>
           fds w' = fds w \<and> calls w' = calls w @ [Call_daemon]"
    by (simp add: daemon_failure logged_def)
next
  assume a: "daemon_state s = DAEMON_STATE_REQUEST \<and> os_daemon env = 0 \<and>
    null_device s \<noteq> - 1 \<and> map_of (fds w) (null_device s) = Some NullDevice"
  obtain r w' s' where res: "Sys_SecureInit env w s = (r, w', s')"
    by (cases "Sys_SecureInit env w s") auto
  from a have a1: "daemon_state s = DAEMON_STATE_REQUEST" and a2: "os_daemon env = 0"
    and a3: "null_device s \<noteq> - 1" and a4: "map_of (fds w) (null_device s) = Some NullDevice"
    by auto
  note d = daemon_success [OF a1 a2 a3 res]
  show "case Sys_SecureInit env w s of
         (r, w', s') \<Rightarrow>
           r = Success \<and> daemon_state s' = DAEMON_STATE_EFFECTIVE \<and> null_device s' = - 1 \<and>
           calls w' = calls w @
             [Call_daemon, Call_dup2 (null_device s) STDIN_FILENO,
              Call_dup2 (null_device s) STDOUT_FILENO,
              Call_dup2 (null_device s) STDERR_FILENO, Call_close (null_device s)] \<and>
           map_of (fds w') (null_device s) = None \<and>
           (2 < null_device s \<longrightarrow>
              map_of (fds w') STDIN_FILENO = Some NullDevice \<and>
              map_of (fds w') STDOUT_FILENO = Some NullDevice \<and>
              map_of (fds w') STDERR_FILENO = Some NullDevice)"
    using d(1-5) d(6) [OF a4]
    by (simp add: res STDIN_FILENO_def STDOUT_FILENO_def STDERR_FILENO_def)
qed


lemma Sys_SecureInit_daemonize_example:
  "fst (Sys_SecureInit (example_os\<lparr>os_daemon := 12\<rparr>)
         (example_world\<lparr>fds := (3, NullDevice) # fds example_world\<rparr>)
         ((initial_state 8 8)\<lparr>daemon_state := DAEMON_STATE_REQUEST, null_device := 3\<rparr>)) =
     Failure DaemonizationFailed \<and>
   fds (fst (snd (Sys_SecureInit (example_os\<lparr>os_daemon := 12\<rparr>)
         (example_world\<lparr>fds := (3, NullDevice) # fds example_world\<rparr>)
         ((initial_state 8 8)\<lparr>daemon_state := DAEMON_STATE_REQUEST, null_device := 3\<rparr>)))) =
     [(3, NullDevice), (0, Terminal), (1, Terminal), (2, Terminal)] \<and>
   fst (Sys_SecureInit example_os
         (example_world\<lparr>fds := (3, NullDevice) # fds example_world\<rparr>)
         ((initial_state 8 8)\<lparr>daemon_state := DAEMON_STATE_REQUEST, null_device := 3\<rparr>)) =
     Success \<and>
   map_of (fds (fst (snd (Sys_SecureInit example_os
         (example_world\<lparr>fds := (3, NullDevice) # fds example_world\<rparr>)
         ((initial_state 8 8)\<lparr>daemon_state := DAEMON_STATE_REQUEST, null_device := 3\<rparr>))))) 0 =
     Some NullDevice \<and>
   map_of (fds (fst (snd (Sys_SecureInit example_os
         (example_world\<lparr>fds := (3, NullDevice) # fds example_world\<rparr>)
         ((initial_state 8 8)\<lparr>daemon_state := DAEMON_STATE_REQUEST, null_device := 3\<rparr>))))) 3 =
     None"
  using
    Sys_SecureInit_daemonize [of "(initial_state 8 8)\<lparr>daemon_state := DAEMON_STATE_REQUEST, null_device := 3\<rparr>"
      "example_os\<lparr>os_daemon := 12\<rparr>" "example_world\<lparr>fds := (3, NullDevice) # fds example_world\<rparr>"]
    Sys_SecureInit_daemonize [of "(initial_state 8 8)\<lparr>daemon_state := DAEMON_STATE_REQUEST, null_device := 3\<rparr>"
      example_os "example_world\<lparr>fds := (3, NullDevice) # fds example_world\<rparr>"]
  by (simp add: initial_state_def example_os_def example_world_def case_prod_beta
      STDIN_FILENO_def)

text \<open>
  C6 does not hold of the code: after a successful \<open>daemon\<close>, the standard input is not
  always redirected to the null device. \<open>Sys_SecureInit\<close> closes the handle of the null
  device without looking at its number. In a process that was started with its standard
  input closed, \<open>open\<close> in \<open>Sys_SecurityInit\<close> returns the descriptor 0 for the null
  device. \<open>Sys_SecureInit\<close> then succeeds and sets the daemon state to
  \<open>DAEMON_STATE_EFFECTIVE\<close>, the standard output and the standard error refer to the null
  device, and the standard input is closed.
\<close>

theorem Sys_SecureInit_closes_stdin:
  "(case Sys_SecurityInit example_os stdin_closed_world daemon_requested of
      (r1, w1, s1) \<Rightarrow>
        r1 = Success \<and> daemon_state s1 = DAEMON_STATE_REQUEST \<and>
        null_device s1 = STDIN_FILENO \<and>
        map_of (fds w1) (null_device s1) = Some NullDevice \<and>
        (case Sys_SecureInit example_os w1 s1 of
           (r2, w2, s2) \<Rightarrow>
             r2 = Success \<and> daemon_state s2 = DAEMON_STATE_EFFECTIVE \<and>
             null_device s2 = - 1 \<and>
             map_of (fds w2) STDIN_FILENO = None \<and>
             map_of (fds w2) STDOUT_FILENO = Some NullDevice \<and>
             map_of (fds w2) STDERR_FILENO = Some NullDevice \<and>
             calls w2 = calls w1 @
               [Call_daemon, Call_dup2 0 0, Call_dup2 0 1, Call_dup2 0 2, Call_close 0]))"
  by (simp add: Sys_SecurityInit_def drop_privileges_def Sys_SecureInit_def
      stdin_closed_world_def daemon_requested_def example_os_def example_world_def
      initial_state_def sys_open_def sys_geteuid_def sys_getpwnam_def sys_chroot_def
      sys_chdir_def sys_setgid_def sys_setuid_def sys_daemon_def sys_dup2_def sys_close_def
      logged_def lowest_free_def STDIN_FILENO_def STDOUT_FILENO_def STDERR_FILENO_def Let_def)

section \<open>The privilege phase\<close>

lemma find_upto_nonneg:
  "find P (map int xs) = Some n \<Longrightarrow> 0 \<le> n"
  by (induction xs) (auto split: if_splits)

lemma lowest_free_nonneg: "0 \<le> lowest_free used"
proof (cases "find (\<lambda>n. n \<notin> set used) (map int [0..<Suc (length used)])")
  case None
  then show ?thesis by (simp add: lowest_free_def del: upt_Suc)
next
  case (Some n)
  from find_upto_nonneg [OF Some] Some show ?thesis
    by (simp add: lowest_free_def del: upt_Suc)
qed

lemma security_open_failure:
  assumes "daemon_state s = DAEMON_STATE_REQUEST" and "os_open env ''/dev/null'' \<noteq> 0"
  shows "Sys_SecurityInit env w s =
         (Failure CantOpenNullDevice,
          logged (Call_open ''/dev/null'') (w\<lparr>errno := os_open env ''/dev/null''\<rparr>),
          s\<lparr>null_device := - 1\<rparr>)"
  using assms by (simp add: Sys_SecurityInit_def sys_open_def Let_def)

lemma security_passes_open:
  assumes "daemon_state s \<noteq> DAEMON_STATE_REQUEST \<or> os_open env ''/dev/null'' = 0"
  obtains w0 s0 where
    "Sys_SecurityInit env w s =
       (if euid w = 0 then drop_privileges env (logged Call_geteuid w0) s0
        else (Success, logged Call_geteuid w0, s0))"
    and "calls w0 = calls w @
           (if daemon_state s = DAEMON_STATE_REQUEST then [Call_open ''/dev/null''] else [])"
    and "low_priv_user s0 = low_priv_user s" and "jail_path s0 = jail_path s"
proof (cases "daemon_state s = DAEMON_STATE_REQUEST")
  case False
  have "Sys_SecurityInit env w s =
       (if euid w = 0 then drop_privileges env (logged Call_geteuid w) s
        else (Success, logged Call_geteuid w, s))"
    using False by (simp add: Sys_SecurityInit_def sys_geteuid_def)
  then show ?thesis using False that [of w s] by simp
next
  case True
  with assms have ok: "os_open env ''/dev/null'' = 0" by simp
  define fd where "fd = lowest_free (map fst (fds w))"
  define w0 where "w0 = logged (Call_open ''/dev/null'') (w\<lparr>fds := (fd, NullDevice) # fds w\<rparr>)"
  have fd: "fd \<noteq> - 1" using lowest_free_nonneg [of "map fst (fds w)"] by (simp add: fd_def)
  have "Sys_SecurityInit env w s =
       (if euid w = 0 then drop_privileges env (logged Call_geteuid w0) (s\<lparr>null_device := fd\<rparr>)
        else (Success, logged Call_geteuid w0, s\<lparr>null_device := fd\<rparr>))"
    using True ok fd
    by (simp add: Sys_SecurityInit_def sys_open_def sys_geteuid_def Let_def fd_def [symmetric]
        w0_def logged_def)
  moreover have "calls w0 = calls w @ [Call_open ''/dev/null'']"
    by (simp add: w0_def logged_def)
  ultimately show ?thesis using True that [of w0 "s\<lparr>null_device := fd\<rparr>"] by simp
qed

lemma drop_no_user:
  assumes "os_getpwnam env (low_priv_user s) = None"
  shows "fst (drop_privileges env w s) = Failure CantGetUser"
    and "calls (fst (snd (drop_privileges env w s))) = calls w @ [Call_getpwnam (low_priv_user s)]"
  using assms by (simp_all add: drop_privileges_def sys_getpwnam_def logged_def)

lemma drop_chroot_fails:
  assumes "os_getpwnam env (low_priv_user s) = Some pw" and "os_chroot env (jail_path s) \<noteq> 0"
  shows "fst (drop_privileges env w s) = Failure CantChroot"
    and "calls (fst (snd (drop_privileges env w s))) =
         calls w @ [Call_getpwnam (low_priv_user s), Call_chroot (jail_path s)]"
  using assms
  by (simp_all add: drop_privileges_def sys_getpwnam_def sys_chroot_def logged_def Let_def)

lemma drop_chdir_fails:
  assumes "os_getpwnam env (low_priv_user s) = Some pw" and "os_chroot env (jail_path s) = 0"
    and "os_chdir env ''/'' \<noteq> 0"
  shows "fst (drop_privileges env w s) = Failure CantChroot"
    and "calls (fst (snd (drop_privileges env w s))) =
         calls w @ [Call_getpwnam (low_priv_user s), Call_chroot (jail_path s), Call_chdir ''/'']"
  using assms
  by (simp_all add: drop_privileges_def sys_getpwnam_def sys_chroot_def sys_chdir_def
      logged_def Let_def)

lemma drop_setgid_fails:
  assumes "os_getpwnam env (low_priv_user s) = Some pw" and "os_chroot env (jail_path s) = 0"
    and "os_chdir env ''/'' = 0" and "os_setgid env (pw_gid pw) \<noteq> 0"
  shows "fst (drop_privileges env w s) = Failure CantSwitchUser"
    and "calls (fst (snd (drop_privileges env w s))) =
         calls w @ [Call_getpwnam (low_priv_user s), Call_chroot (jail_path s), Call_chdir ''/'',
                    Call_setgid (pw_gid pw)]"
  using assms
  by (simp_all add: drop_privileges_def sys_getpwnam_def sys_chroot_def sys_chdir_def
      sys_setgid_def logged_def Let_def)

lemma drop_setuid_fails:
  assumes "os_getpwnam env (low_priv_user s) = Some pw" and "os_chroot env (jail_path s) = 0"
    and "os_chdir env ''/'' = 0" and "os_setgid env (pw_gid pw) = 0"
    and "os_setuid env (pw_uid pw) \<noteq> 0"
  shows "fst (drop_privileges env w s) = Failure CantSwitchUser"
    and "calls (fst (snd (drop_privileges env w s))) =
         calls w @ [Call_getpwnam (low_priv_user s), Call_chroot (jail_path s), Call_chdir ''/'',
                    Call_setgid (pw_gid pw), Call_setuid (pw_uid pw)]"
  using assms
  by (simp_all add: drop_privileges_def sys_getpwnam_def sys_chroot_def sys_chdir_def
      sys_setgid_def sys_setuid_def logged_def Let_def)

lemma drop_succeeds:
  assumes "os_getpwnam env (low_priv_user s) = Some pw" and "os_chroot env (jail_path s) = 0"
    and "os_chdir env ''/'' = 0" and "os_setgid env (pw_gid pw) = 0"
    and "os_setuid env (pw_uid pw) = 0"
  shows "fst (drop_privileges env w s) = Success"
    and "calls (fst (snd (drop_privileges env w s))) =
         calls w @ [Call_getpwnam (low_priv_user s), Call_chroot (jail_path s), Call_chdir ''/'',
                    Call_setgid (pw_gid pw), Call_setuid (pw_uid pw)]"
    and "euid (fst (snd (drop_privileges env w s))) = pw_uid pw"
    and "egid (fst (snd (drop_privileges env w s))) = pw_gid pw"
    and "root_dir (fst (snd (drop_privileges env w s))) = jail_path s"
  using assms
  by (simp_all add: drop_privileges_def sys_getpwnam_def sys_chroot_def sys_chdir_def
      sys_setgid_def sys_setuid_def logged_def Let_def)


lemma drop_keeps_fds: "fds (fst (snd (drop_privileges env w s))) = fds w"
  by (simp add: drop_privileges_def sys_getpwnam_def sys_chroot_def sys_chdir_def
      sys_setgid_def sys_setuid_def logged_def Let_def split: option.splits)

lemma drop_keeps_state: "snd (snd (drop_privileges env w s)) = s"
  by (simp add: drop_privileges_def sys_getpwnam_def sys_chroot_def sys_chdir_def
      sys_setgid_def sys_setuid_def logged_def Let_def split: option.splits)

lemma drop_extends_calls: "\<exists>later. calls (fst (snd (drop_privileges env w s))) = calls w @ later"
  by (simp add: drop_privileges_def sys_getpwnam_def sys_chroot_def sys_chdir_def
      sys_setgid_def sys_setuid_def logged_def Let_def split: option.splits)

text \<open>
  C5, as the code has it. Unless a daemon was requested and the null device cannot be
  opened (the function then fails before it looks at the effective user), the calls
  that \<open>Sys_SecurityInit\<close> makes after that are these. Without super-user privileges:
  \<open>geteuid\<close> alone, and the function succeeds. With them: \<open>getpwnam\<close>, \<open>chroot\<close> to the
  jail path, \<open>chdir\<close> to the root, \<open>setgid\<close>, \<open>setuid\<close>, in this order; the first of them
  that fails is the last call made and the function fails; when all succeed the
  function succeeds with the user and group of the account and the jail as root.
\<close>

theorem Sys_SecurityInit_order:
  assumes "daemon_state s \<noteq> DAEMON_STATE_REQUEST \<or> os_open env ''/dev/null'' = 0"
  shows
    "case Sys_SecurityInit env w s of
       (r, w', s') \<Rightarrow>
         (let before = calls w @
                (if daemon_state s = DAEMON_STATE_REQUEST then [Call_open ''/dev/null''] else []);
              user = low_priv_user s;
              jail = jail_path s
          in (euid w \<noteq> 0 \<longrightarrow> r = Success \<and> calls w' = before @ [Call_geteuid]) \<and>
             (euid w = 0 \<and> os_getpwnam env user = None \<longrightarrow>
                r = Failure CantGetUser \<and>
                calls w' = before @ [Call_geteuid, Call_getpwnam user]) \<and>
             (euid w = 0 \<and> os_getpwnam env user = Some pw \<and> os_chroot env jail \<noteq> 0 \<longrightarrow>
                r = Failure CantChroot \<and>
                calls w' = before @ [Call_geteuid, Call_getpwnam user, Call_chroot jail]) \<and>
             (euid w = 0 \<and> os_getpwnam env user = Some pw \<and> os_chroot env jail = 0 \<and>
              os_chdir env ''/'' \<noteq> 0 \<longrightarrow>
                r = Failure CantChroot \<and>
                calls w' = before @
                  [Call_geteuid, Call_getpwnam user, Call_chroot jail, Call_chdir ''/'']) \<and>
             (euid w = 0 \<and> os_getpwnam env user = Some pw \<and> os_chroot env jail = 0 \<and>
              os_chdir env ''/'' = 0 \<and> os_setgid env (pw_gid pw) \<noteq> 0 \<longrightarrow>
                r = Failure CantSwitchUser \<and>
                calls w' = before @
                  [Call_geteuid, Call_getpwnam user, Call_chroot jail, Call_chdir ''/'',
                   Call_setgid (pw_gid pw)]) \<and>
             (euid w = 0 \<and> os_getpwnam env user = Some pw \<and> os_chroot env jail = 0 \<and>
              os_chdir env ''/'' = 0 \<and> os_setgid env (pw_gid pw) = 0 \<and>
              os_setuid env (pw_uid pw) \<noteq> 0 \<longrightarrow>
                r = Failure CantSwitchUser \<and>
                calls w' = before @
                  [Call_geteuid, Call_getpwnam user, Call_chroot jail, Call_chdir ''/'',
                   Call_setgid (pw_gid pw), Call_setuid (pw_uid pw)]) \<and>
             (euid w = 0 \<and> os_getpwnam env user = Some pw \<and> os_chroot env jail = 0 \<and>
              os_chdir env ''/'' = 0 \<and> os_setgid env (pw_gid pw) = 0 \<and>
              os_setuid env (pw_uid pw) = 0 \<longrightarrow>
                r = Success \<and>
                calls w' = before @
                  [Call_geteuid, Call_getpwnam user, Call_chroot jail, Call_chdir ''/'',
                   Call_setgid (pw_gid pw), Call_setuid (pw_uid pw)] \<and>
                euid w' = pw_uid pw \<and> egid w' = pw_gid pw \<and> root_dir w' = jail))"
proof -
  obtain w0 s0 where
    run: "Sys_SecurityInit env w s =
       (if euid w = 0 then drop_privileges env (logged Call_geteuid w0) s0
        else (Success, logged Call_geteuid w0, s0))"
    and c0: "calls w0 = calls w @
           (if daemon_state s = DAEMON_STATE_REQUEST then [Call_open ''/dev/null''] else [])"
    and u0: "low_priv_user s0 = low_priv_user s" and j0: "jail_path s0 = jail_path s"
    using security_passes_open [OF assms, where w = w] by blast
  have c1: "calls (logged Call_geteuid w0) = calls w0 @ [Call_geteuid]"
    by (simp add: logged_def)
  show ?thesis
  proof (cases "euid w = 0")
    case False
    then show ?thesis by (simp add: run c0 c1 Let_def)
  next
    case True
    note root = True
    show ?thesis
    proof (cases "os_getpwnam env (low_priv_user s)")
      case None
      then show ?thesis
        using root drop_no_user [of env s0 "logged Call_geteuid w0"]
        by (simp add: run c0 c1 u0 j0 Let_def case_prod_beta)
    next
      case (Some acct)
      show ?thesis
        using root Some
          drop_chroot_fails [of env s0 acct "logged Call_geteuid w0"]
          drop_chdir_fails [of env s0 acct "logged Call_geteuid w0"]
          drop_setgid_fails [of env s0 acct "logged Call_geteuid w0"]
          drop_setuid_fails [of env s0 acct "logged Call_geteuid w0"]
          drop_succeeds [of env s0 acct "logged Call_geteuid w0"]
        by (simp add: run c0 c1 u0 j0 Let_def case_prod_beta)
    qed
  qed
qed


theorem Sys_SecurityInit_order_witness:
  "fst (Sys_SecurityInit example_os example_world (initial_state 8 8)) = Success \<and>
   calls (fst (snd (Sys_SecurityInit example_os example_world (initial_state 8 8)))) =
     [Call_geteuid, Call_getpwnam ''nobody'', Call_chroot ''/var/empty/'', Call_chdir ''/'',
      Call_setgid 65534, Call_setuid 65534] \<and>
   euid (fst (snd (Sys_SecurityInit example_os example_world (initial_state 8 8)))) = 65534 \<and>
   fst (Sys_SecurityInit (example_os\<lparr>os_setgid := \<lambda>g. 1\<rparr>) example_world (initial_state 8 8)) =
     Failure CantSwitchUser \<and>
   calls (fst (snd (Sys_SecurityInit (example_os\<lparr>os_setgid := \<lambda>g. 1\<rparr>) example_world
                      (initial_state 8 8)))) =
     [Call_geteuid, Call_getpwnam ''nobody'', Call_chroot ''/var/empty/'', Call_chdir ''/'',
      Call_setgid 65534] \<and>
   fst (Sys_SecurityInit example_os (example_world\<lparr>euid := 1000\<rparr>)
          ((initial_state 8 8)\<lparr>daemon_state := DAEMON_STATE_REQUEST\<rparr>)) = Success \<and>
   calls (fst (snd (Sys_SecurityInit example_os (example_world\<lparr>euid := 1000\<rparr>)
                      ((initial_state 8 8)\<lparr>daemon_state := DAEMON_STATE_REQUEST\<rparr>)))) =
     [Call_open ''/dev/null'', Call_geteuid]"
  using
    Sys_SecurityInit_order [of "initial_state 8 8" example_os example_world
      "\<lparr>pw_uid = 65534, pw_gid = 65534\<rparr>"]
    Sys_SecurityInit_order [of "initial_state 8 8" "example_os\<lparr>os_setgid := \<lambda>g. 1\<rparr>"
      example_world "\<lparr>pw_uid = 65534, pw_gid = 65534\<rparr>"]
    Sys_SecurityInit_order [of "(initial_state 8 8)\<lparr>daemon_state := DAEMON_STATE_REQUEST\<rparr>"
      example_os "example_world\<lparr>euid := 1000\<rparr>" "\<lparr>pw_uid = 65534, pw_gid = 65534\<rparr>"]
  by (simp add: initial_state_def example_os_def example_world_def case_prod_beta Let_def
      DEFAULT_JAIL_PATH_def DEFAULT_LOW_PRIV_USER_def)

text \<open>
  C5 as it is stated fails in its last part: without super-user privileges the phase
  does not always succeed. When a daemon was requested and the null device cannot be
  opened (here with the error 2), \<open>Sys_SecurityInit\<close> fails for the user 1000.
\<close>

theorem Sys_SecurityInit_unprivileged_counterexample:
  "euid (example_world\<lparr>euid := 1000\<rparr>) \<noteq> 0 \<and>
   fst (Sys_SecurityInit (example_os\<lparr>os_open := \<lambda>p. 2\<rparr>) (example_world\<lparr>euid := 1000\<rparr>)
          ((initial_state 8 8)\<lparr>daemon_state := DAEMON_STATE_REQUEST\<rparr>)) =
     Failure CantOpenNullDevice"
  by (simp add: Sys_SecurityInit_def sys_open_def logged_def initial_state_def example_os_def
      example_world_def Let_def)

section \<open>The phase that opens the null device\<close>

lemma security_opens_first:
  assumes "daemon_state s = DAEMON_STATE_REQUEST"
  shows "\<exists>later. calls (fst (snd (Sys_SecurityInit env w s))) =
           calls w @ Call_open ''/dev/null'' # later"
proof (cases "os_open env ''/dev/null'' = 0")
  case False
  with assms show ?thesis by (simp add: security_open_failure logged_def)
next
  case True
  then obtain w0 s0 where
    run: "Sys_SecurityInit env w s =
       (if euid w = 0 then drop_privileges env (logged Call_geteuid w0) s0
        else (Success, logged Call_geteuid w0, s0))"
    and c0: "calls w0 = calls w @
           (if daemon_state s = DAEMON_STATE_REQUEST then [Call_open ''/dev/null''] else [])"
    using security_passes_open [where s = s and env = env and w = w] by blast
  obtain later where
    "calls (fst (snd (drop_privileges env (logged Call_geteuid w0) s0))) =
     calls (logged Call_geteuid w0) @ later"
    using drop_extends_calls by blast
  then show ?thesis using assms by (simp add: run c0 logged_def)
qed

lemma security_open_success:
  assumes "daemon_state s = DAEMON_STATE_REQUEST" and "os_open env ''/dev/null'' = 0"
  shows "null_device (snd (snd (Sys_SecurityInit env w s))) \<noteq> - 1"
    and "map_of (fds (fst (snd (Sys_SecurityInit env w s))))
           (null_device (snd (snd (Sys_SecurityInit env w s)))) = Some NullDevice"
proof -
  define fd where "fd = lowest_free (map fst (fds w))"
  define w0 where "w0 = logged (Call_open ''/dev/null'') (w\<lparr>fds := (fd, NullDevice) # fds w\<rparr>)"
  have fd: "fd \<noteq> - 1" using lowest_free_nonneg [of "map fst (fds w)"] by (simp add: fd_def)
  have run: "Sys_SecurityInit env w s =
       (if euid w = 0 then drop_privileges env (logged Call_geteuid w0) (s\<lparr>null_device := fd\<rparr>)
        else (Success, logged Call_geteuid w0, s\<lparr>null_device := fd\<rparr>))"
    using assms fd
    by (simp add: Sys_SecurityInit_def sys_open_def sys_geteuid_def Let_def fd_def [symmetric]
        w0_def logged_def)
  have f0: "fds (logged Call_geteuid w0) = (fd, NullDevice) # fds w"
    by (simp add: w0_def logged_def)
  show "null_device (snd (snd (Sys_SecurityInit env w s))) \<noteq> - 1"
    using fd by (simp add: run drop_keeps_state)
  show "map_of (fds (fst (snd (Sys_SecurityInit env w s))))
           (null_device (snd (snd (Sys_SecurityInit env w s)))) = Some NullDevice"
    by (simp add: run drop_keeps_state drop_keeps_fds f0)
qed

lemma security_without_daemon:
  assumes "daemon_state s \<noteq> DAEMON_STATE_REQUEST"
  shows "null_device (snd (snd (Sys_SecurityInit env w s))) = null_device s"
    and "fds (fst (snd (Sys_SecurityInit env w s))) = fds w"
  using assms
  by (simp_all add: Sys_SecurityInit_def sys_geteuid_def drop_keeps_state drop_keeps_fds
      logged_def)

text \<open>
  C4, as the code has it. \<open>Sys_UnsecureInit\<close> opens nothing and always succeeds. When a
  daemon was requested, the null device is opened by \<open>Sys_SecurityInit\<close>, as the first
  call of that phase, before the effective user is looked at and before \<open>chroot\<close>; when
  it cannot be opened that phase fails at once, and when it can the handle is kept in
  \<open>null_device\<close> and refers to the null device when the phase ends. When no daemon was
  requested, \<open>Sys_SecurityInit\<close> leaves \<open>null_device\<close> and the descriptors as they were.
\<close>

theorem null_device_opened_by_Sys_SecurityInit:
  "Sys_UnsecureInit env w s = (Success, w, s) \<and>
   (daemon_state s = DAEMON_STATE_REQUEST \<longrightarrow>
      (case Sys_SecurityInit env w s of
         (r, w', s') \<Rightarrow>
           (\<exists>later. calls w' = calls w @ Call_open ''/dev/null'' # later) \<and>
           (os_open env ''/dev/null'' \<noteq> 0 \<longrightarrow>
              r = Failure CantOpenNullDevice \<and> null_device s' = - 1 \<and>
              calls w' = calls w @ [Call_open ''/dev/null'']) \<and>
           (os_open env ''/dev/null'' = 0 \<longrightarrow>
              null_device s' \<noteq> - 1 \<and> map_of (fds w') (null_device s') = Some NullDevice))) \<and>
   (daemon_state s \<noteq> DAEMON_STATE_REQUEST \<longrightarrow>
      (case Sys_SecurityInit env w s of
         (r, w', s') \<Rightarrow> null_device s' = null_device s \<and> fds w' = fds w))"
proof (intro conjI impI)
  show "Sys_UnsecureInit env w s = (Success, w, s)"
    by (simp add: Sys_UnsecureInit_def)
next
  assume req: "daemon_state s = DAEMON_STATE_REQUEST"
  have fail: "os_open env ''/dev/null'' \<noteq> 0 \<Longrightarrow>
      Sys_SecurityInit env w s =
         (Failure CantOpenNullDevice,
          logged (Call_open ''/dev/null'') (w\<lparr>errno := os_open env ''/dev/null''\<rparr>),
          s\<lparr>null_device := - 1\<rparr>)"
    using req by (rule security_open_failure)
  show "case Sys_SecurityInit env w s of
         (r, w', s') \<Rightarrow>
           (\<exists>later. calls w' = calls w @ Call_open ''/dev/null'' # later) \<and>
           (os_open env ''/dev/null'' \<noteq> 0 \<longrightarrow>
              r = Failure CantOpenNullDevice \<and> null_device s' = - 1 \<and>
              calls w' = calls w @ [Call_open ''/dev/null'']) \<and>
           (os_open env ''/dev/null'' = 0 \<longrightarrow>
              null_device s' \<noteq> - 1 \<and> map_of (fds w') (null_device s') = Some NullDevice)"
    using security_opens_first [OF req, of env w] fail
      security_open_success [OF req, of env w]
    by (auto simp: case_prod_beta logged_def)
next
  assume "daemon_state s \<noteq> DAEMON_STATE_REQUEST"
  then show "case Sys_SecurityInit env w s of
         (r, w', s') \<Rightarrow> null_device s' = null_device s \<and> fds w' = fds w"
    using security_without_daemon [of s env w] by (simp add: case_prod_beta)
qed

theorem null_device_opened_by_Sys_SecurityInit_witness:
  "null_device (snd (snd (Sys_SecurityInit example_os example_world
      ((initial_state 8 8)\<lparr>daemon_state := DAEMON_STATE_REQUEST\<rparr>)))) \<noteq> - 1 \<and>
   map_of (fds (fst (snd (Sys_SecurityInit example_os example_world
      ((initial_state 8 8)\<lparr>daemon_state := DAEMON_STATE_REQUEST\<rparr>)))))
     (null_device (snd (snd (Sys_SecurityInit example_os example_world
        ((initial_state 8 8)\<lparr>daemon_state := DAEMON_STATE_REQUEST\<rparr>))))) = Some NullDevice \<and>
   fst (Sys_SecurityInit (example_os\<lparr>os_open := \<lambda>p. 2\<rparr>) example_world
      ((initial_state 8 8)\<lparr>daemon_state := DAEMON_STATE_REQUEST\<rparr>)) = Failure CantOpenNullDevice \<and>
   calls (fst (snd (Sys_SecurityInit (example_os\<lparr>os_open := \<lambda>p. 2\<rparr>) example_world
      ((initial_state 8 8)\<lparr>daemon_state := DAEMON_STATE_REQUEST\<rparr>)))) = [Call_open ''/dev/null''] \<and>
   null_device (snd (snd (Sys_SecurityInit example_os example_world (initial_state 8 8)))) = - 1"
  using
    null_device_opened_by_Sys_SecurityInit [of example_os example_world
      "(initial_state 8 8)\<lparr>daemon_state := DAEMON_STATE_REQUEST\<rparr>"]
    null_device_opened_by_Sys_SecurityInit [of "example_os\<lparr>os_open := \<lambda>p. 2\<rparr>" example_world
      "(initial_state 8 8)\<lparr>daemon_state := DAEMON_STATE_REQUEST\<rparr>"]
    null_device_opened_by_Sys_SecurityInit [of example_os example_world "initial_state 8 8"]
  by (simp add: initial_state_def example_os_def example_world_def case_prod_beta)

text \<open>
  C4 as it is stated fails. With a daemon requested, \<open>Sys_UnsecureInit\<close> succeeds even
  when the null device cannot be opened, it makes no call and leaves \<open>null_device\<close> at
  -1; the device is opened in the next phase, by \<open>Sys_SecurityInit\<close>.
\<close>

theorem Sys_UnsecureInit_counterexample:
  "fst (Sys_UnsecureInit (example_os\<lparr>os_open := \<lambda>p. 2\<rparr>) example_world
      ((initial_state 8 8)\<lparr>daemon_state := DAEMON_STATE_REQUEST\<rparr>)) = Success \<and>
   calls (fst (snd (Sys_UnsecureInit example_os example_world
      ((initial_state 8 8)\<lparr>daemon_state := DAEMON_STATE_REQUEST\<rparr>)))) = [] \<and>
   null_device (snd (snd (Sys_UnsecureInit example_os example_world
      ((initial_state 8 8)\<lparr>daemon_state := DAEMON_STATE_REQUEST\<rparr>)))) = - 1 \<and>
   calls (fst (snd (Sys_SecurityInit example_os example_world
      ((initial_state 8 8)\<lparr>daemon_state := DAEMON_STATE_REQUEST\<rparr>)))) =
     [Call_open ''/dev/null'', Call_geteuid, Call_getpwnam ''nobody'',
      Call_chroot ''/var/empty/'', Call_chdir ''/'', Call_setgid 65534, Call_setuid 65534] \<and>
   null_device (snd (snd (Sys_SecurityInit example_os example_world
      ((initial_state 8 8)\<lparr>daemon_state := DAEMON_STATE_REQUEST\<rparr>)))) = 3"
  by (simp add: Sys_UnsecureInit_def Sys_SecurityInit_def drop_privileges_def sys_open_def
      sys_geteuid_def sys_getpwnam_def sys_chroot_def sys_chdir_def sys_setgid_def
      sys_setuid_def logged_def lowest_free_def initial_state_def example_os_def
      example_world_def DEFAULT_JAIL_PATH_def DEFAULT_LOW_PRIV_USER_def Let_def)

section \<open>Resolution: the loops over the ports\<close>

lemma take_Suc_update: "n < length t \<Longrightarrow> take (Suc n) (t[n := e]) = take n t @ [e]"
  by (simp add: take_Suc_conv_app_nth)

lemma BuildSockaddr_status:
  "fst (Sys_BuildSockaddr gai name port fam ls) = fst (Sys_BuildSockaddr gai name port fam ls')"
  by (simp add: Sys_BuildSockaddr_def split: prod.splits option.splits)

lemma BuildSockaddr_error:
  "fst (Sys_BuildSockaddr gai name port fam ls) \<noteq> Success \<Longrightarrow>
   Sys_BuildSockaddr gai name port fam ls = (Failure CantResolve, ls)"
  by (simp add: Sys_BuildSockaddr_def split: prod.splits option.splits if_splits)

lemma wildcard_ports_ok:
  assumes "\<forall>port\<in>set ports. fst (Sys_BuildSockaddr gai None port fam zero_listen_socket) = Success"
    and "nb_sockets s + length ports \<le> length (listen_sockets s)"
    and "\<forall>i<length ports. listen_sockets s ! (nb_sockets s + i) = zero_listen_socket"
  shows "resolve_wildcard_ports gai fam ports s =
         (Success,
          s\<lparr>listen_sockets :=
               take (nb_sockets s) (listen_sockets s) @ map (wildcard_entry gai fam) ports @
               drop (nb_sockets s + length ports) (listen_sockets s),
             nb_sockets := nb_sockets s + length ports\<rparr>)"
  using assms
proof (induction ports arbitrary: s)
  case Nil
  then show ?case by simp
next
  case (Cons port ports)
  let ?n = "nb_sockets s" and ?t = "listen_sockets s"
  let ?e = "wildcard_entry gai fam port"
  let ?s1 = "s\<lparr>listen_sockets := ?t[?n := ?e], nb_sockets := ?n + 1\<rparr>"
  from Cons.prems(2) have room: "?n < length ?t" by simp
  from Cons.prems(3) have z: "?t ! ?n = zero_listen_socket" by force
  from Cons.prems(1) have ok: "fst (Sys_BuildSockaddr gai None port fam zero_listen_socket) = Success"
    by simp
  obtain ls where b: "Sys_BuildSockaddr gai None port fam zero_listen_socket = (Success, ls)"
    using ok by (cases "Sys_BuildSockaddr gai None port fam zero_listen_socket") auto
  have e: "?e = ls\<lparr>optional := True\<rparr>" by (simp add: wildcard_entry_def b)
  have step: "resolve_wildcard_ports gai fam (port # ports) s =
              resolve_wildcard_ports gai fam ports ?s1"
    using room z b e by simp
  have p1: "\<forall>port\<in>set ports. fst (Sys_BuildSockaddr gai None port fam zero_listen_socket) = Success"
    using Cons.prems(1) by simp
  have p2: "nb_sockets ?s1 + length ports \<le> length (listen_sockets ?s1)"
    using Cons.prems(2) by simp
  have p3: "\<forall>i<length ports. listen_sockets ?s1 ! (nb_sockets ?s1 + i) = zero_listen_socket"
  proof (intro allI impI)
    fix i assume "i < length ports"
    then have "?t ! (?n + Suc i) = zero_listen_socket" using Cons.prems(3) by force
    then show "listen_sockets ?s1 ! (nb_sockets ?s1 + i) = zero_listen_socket" by simp
  qed
  have t1: "take (Suc ?n) (?t[?n := ?e]) = take ?n ?t @ [?e]"
    using room by (rule take_Suc_update)
  have t2: "drop (Suc (?n + length ports)) (?t[?n := ?e]) = drop (Suc (?n + length ports)) ?t"
    by simp
  show ?case
    unfolding step Cons.IH [OF p1 p2 p3]
    by (simp add: t1 t2)
qed

lemma wildcard_ports_success:
  assumes "resolve_wildcard_ports gai fam ports s = (Success, s')"
    and "nb_sockets s \<le> length (listen_sockets s)"
  shows "(\<forall>port\<in>set ports. fst (Sys_BuildSockaddr gai None port fam zero_listen_socket) = Success) \<and>
         nb_sockets s + length ports \<le> length (listen_sockets s)"
  using assms
proof (induction ports arbitrary: s)
  case Nil
  then show ?case by simp
next
  case (Cons port ports)
  let ?n = "nb_sockets s" and ?t = "listen_sockets s"
  from Cons.prems(1) have room: "?n < length ?t"
    by (simp split: if_splits)
  obtain r ls where b: "Sys_BuildSockaddr gai None port fam (?t ! ?n) = (r, ls)"
    by (cases "Sys_BuildSockaddr gai None port fam (?t ! ?n)") auto
  from Cons.prems(1) room b have r: "r = Success"
    by (cases r) auto
  from b r have ok: "fst (Sys_BuildSockaddr gai None port fam zero_listen_socket) = Success"
    using BuildSockaddr_status [of gai None port fam "?t ! ?n" zero_listen_socket] by simp
  from Cons.prems(1) room b r
  have rest: "resolve_wildcard_ports gai fam ports
                (s\<lparr>listen_sockets := ?t[?n := ls\<lparr>optional := True\<rparr>], nb_sockets := ?n + 1\<rparr>) =
              (Success, s')"
    by simp
  from Cons.IH [OF rest] room ok show ?case by simp
qed

lemma wildcard_ports_append:
  "resolve_wildcard_ports gai fam (xs @ ys) s =
     (case resolve_wildcard_ports gai fam xs s of
        (Failure e, s1) \<Rightarrow> (Failure e, s1)
      | (Success, s1) \<Rightarrow> resolve_wildcard_ports gai fam ys s1)"
  by (induction xs arbitrary: s) (auto split: prod.splits status.splits)

lemma wildcard_ports_fail_at:
  assumes "ports = done @ port # rest"
    and "\<forall>p\<in>set done. fst (Sys_BuildSockaddr gai None p fam zero_listen_socket) = Success"
    and "fst (Sys_BuildSockaddr gai None port fam zero_listen_socket) \<noteq> Success"
    and "nb_sockets s + length done < length (listen_sockets s)"
    and "\<forall>i<length done. listen_sockets s ! (nb_sockets s + i) = zero_listen_socket"
  shows "resolve_wildcard_ports gai fam ports s =
         (Failure CantResolve,
          s\<lparr>listen_sockets :=
               take (nb_sockets s) (listen_sockets s) @ map (wildcard_entry gai fam) done @
               drop (nb_sockets s + length done) (listen_sockets s),
             nb_sockets := nb_sockets s + length done\<rparr>)"
proof -
  let ?n = "nb_sockets s" and ?t = "listen_sockets s"
  let ?t1 = "take ?n ?t @ map (wildcard_entry gai fam) done @ drop (?n + length done) ?t"
  let ?s1 = "s\<lparr>listen_sockets := ?t1, nb_sockets := ?n + length done\<rparr>"
  have first: "resolve_wildcard_ports gai fam done s = (Success, ?s1)"
    using assms(2,4,5) by (intro wildcard_ports_ok) auto
  have len: "length ?t1 = length ?t" using assms(4) by simp
  have bad: "Sys_BuildSockaddr gai None port fam (?t1 ! (?n + length done)) =
             (Failure CantResolve, ?t1 ! (?n + length done))"
    using assms(3) BuildSockaddr_status [of gai None port fam "?t1 ! (?n + length done)" zero_listen_socket]
    by (intro BuildSockaddr_error) simp
  have "resolve_wildcard_ports gai fam (port # rest) ?s1 = (Failure CantResolve, ?s1)"
    using assms(4) len bad by simp
  then show ?thesis
    unfolding assms(1) by (simp add: wildcard_ports_append first)
qed


lemma StringToSockaddr_status:
  "fst (Sys_StringToSockaddr gai name port ls) = fst (Sys_StringToSockaddr gai name port ls')"
  using BuildSockaddr_status
  by (simp add: Sys_StringToSockaddr_def Let_def split: sum.splits prod.splits)

lemma BuildSockaddr_keeps:
  "local_addr_name_no_port (snd (Sys_BuildSockaddr gai name port fam ls)) =
     local_addr_name_no_port ls \<and>
   local_addr_name (snd (Sys_BuildSockaddr gai name port fam ls)) = local_addr_name ls \<and>
   optional (snd (Sys_BuildSockaddr gai name port fam ls)) = optional ls \<and>
   socket (snd (Sys_BuildSockaddr gai name port fam ls)) = socket ls"
  by (simp add: Sys_BuildSockaddr_def split: prod.splits option.splits)

lemma StringToSockaddr_keeps:
  "local_addr_name (snd (Sys_StringToSockaddr gai name port ls)) = local_addr_name ls \<and>
   optional (snd (Sys_StringToSockaddr gai name port ls)) = optional ls \<and>
   socket (snd (Sys_StringToSockaddr gai name port ls)) = socket ls"
  by (simp add: Sys_StringToSockaddr_def Let_def BuildSockaddr_keeps split: sum.splits prod.splits)

lemma StringToSockaddr_no_port:
  assumes "fst (Sys_StringToSockaddr gai name port ls) = Success"
  shows "\<exists>i j. local_addr_name_no_port (snd (Sys_StringToSockaddr gai name port ls)) =
           Some (take j (drop i name))"
  using assms
  by (auto simp: Sys_StringToSockaddr_def Let_def BuildSockaddr_keeps
      split: sum.splits prod.splits if_splits)

lemma address_ports_ok:
  assumes "\<forall>port\<in>set ports. fst (Sys_StringToSockaddr gai name port zero_listen_socket) = Success"
    and "nb_sockets s + length ports \<le> length (listen_sockets s)"
    and "\<forall>i<length ports. listen_sockets s ! (nb_sockets s + i) = zero_listen_socket"
  shows "resolve_address_ports gai name ports s =
         (Success,
          s\<lparr>listen_sockets :=
               take (nb_sockets s) (listen_sockets s) @ map (declared_entry gai name) ports @
               drop (nb_sockets s + length ports) (listen_sockets s),
             nb_sockets := nb_sockets s + length ports\<rparr>)"
  using assms
proof (induction ports arbitrary: s)
  case Nil
  then show ?case by simp
next
  case (Cons port ports)
  let ?n = "nb_sockets s" and ?t = "listen_sockets s"
  let ?e = "declared_entry gai name port"
  let ?s1 = "s\<lparr>listen_sockets := ?t[?n := ?e], nb_sockets := ?n + 1\<rparr>"
  from Cons.prems(2) have room: "?n < length ?t" by simp
  from Cons.prems(3) have z: "?t ! ?n = zero_listen_socket" by force
  from Cons.prems(1)
  have ok: "fst (Sys_StringToSockaddr gai name port zero_listen_socket) = Success"
    by simp
  obtain ls where b: "Sys_StringToSockaddr gai name port zero_listen_socket = (Success, ls)"
    using ok by (cases "Sys_StringToSockaddr gai name port zero_listen_socket") auto
  have e: "?e = ls\<lparr>local_addr_name := Some name\<rparr>" by (simp add: declared_entry_def b)
  have step: "resolve_address_ports gai name (port # ports) s =
              resolve_address_ports gai name ports ?s1"
    using room z b e by simp
  have p1: "\<forall>port\<in>set ports.
              fst (Sys_StringToSockaddr gai name port zero_listen_socket) = Success"
    using Cons.prems(1) by simp
  have p2: "nb_sockets ?s1 + length ports \<le> length (listen_sockets ?s1)"
    using Cons.prems(2) by simp
  have p3: "\<forall>i<length ports. listen_sockets ?s1 ! (nb_sockets ?s1 + i) = zero_listen_socket"
  proof (intro allI impI)
    fix i assume "i < length ports"
    then have "?t ! (?n + Suc i) = zero_listen_socket" using Cons.prems(3) by force
    then show "listen_sockets ?s1 ! (nb_sockets ?s1 + i) = zero_listen_socket" by simp
  qed
  have t1: "take (Suc ?n) (?t[?n := ?e]) = take ?n ?t @ [?e]"
    using room by (rule take_Suc_update)
  have t2: "drop (Suc (?n + length ports)) (?t[?n := ?e]) = drop (Suc (?n + length ports)) ?t"
    by simp
  show ?case
    unfolding step Cons.IH [OF p1 p2 p3]
    by (simp add: t1 t2)
qed

lemma address_ports_success:
  assumes "resolve_address_ports gai name ports s = (Success, s')"
    and "nb_sockets s \<le> length (listen_sockets s)"
  shows "(\<forall>port\<in>set ports.
            fst (Sys_StringToSockaddr gai name port zero_listen_socket) = Success) \<and>
         nb_sockets s + length ports \<le> length (listen_sockets s)"
  using assms
proof (induction ports arbitrary: s)
  case Nil
  then show ?case by simp
next
  case (Cons port ports)
  let ?n = "nb_sockets s" and ?t = "listen_sockets s"
  from Cons.prems(1) have room: "?n < length ?t"
    by (simp split: if_splits)
  obtain r ls where b: "Sys_StringToSockaddr gai name port (?t ! ?n) = (r, ls)"
    by (cases "Sys_StringToSockaddr gai name port (?t ! ?n)") auto
  from Cons.prems(1) room b have r: "r = Success"
    by (cases r) auto
  from b r have ok: "fst (Sys_StringToSockaddr gai name port zero_listen_socket) = Success"
    using StringToSockaddr_status [of gai name port "?t ! ?n" zero_listen_socket] by simp
  from Cons.prems(1) room b r
  have rest: "resolve_address_ports gai name ports
                (s\<lparr>listen_sockets := ?t[?n := ls\<lparr>local_addr_name := Some name\<rparr>],
                   nb_sockets := ?n + 1\<rparr>) =
              (Success, s')"
    by simp
  from Cons.IH [OF rest] room ok show ?case by simp
qed

lemma address_ports_append:
  "resolve_address_ports gai name (xs @ ys) s =
     (case resolve_address_ports gai name xs s of
        (Failure e, s1) \<Rightarrow> (Failure e, s1)
      | (Success, s1) \<Rightarrow> resolve_address_ports gai name ys s1)"
  by (induction xs arbitrary: s) (auto split: prod.splits status.splits)

lemma address_ports_fail_at:
  assumes "ports = done @ port # rest"
    and "\<forall>p\<in>set done. fst (Sys_StringToSockaddr gai name p zero_listen_socket) = Success"
    and "fst (Sys_StringToSockaddr gai name port zero_listen_socket) = Failure e"
    and "nb_sockets s + length done < length (listen_sockets s)"
    and "\<forall>i<length done. listen_sockets s ! (nb_sockets s + i) = zero_listen_socket"
  shows "\<exists>s'. resolve_address_ports gai name ports s = (Failure e, s') \<and>
           nb_sockets s' = nb_sockets s + length done \<and>
           take (nb_sockets s + length done) (listen_sockets s') =
             take (nb_sockets s) (listen_sockets s) @ map (declared_entry gai name) done"
proof -
  let ?n = "nb_sockets s" and ?t = "listen_sockets s"
  let ?t1 = "take ?n ?t @ map (declared_entry gai name) done @ drop (?n + length done) ?t"
  let ?s1 = "s\<lparr>listen_sockets := ?t1, nb_sockets := ?n + length done\<rparr>"
  have first: "resolve_address_ports gai name done s = (Success, ?s1)"
    using assms(2,4,5) by (intro address_ports_ok) auto
  have len: "length ?t1 = length ?t" using assms(4) by simp
  obtain r ls where b: "Sys_StringToSockaddr gai name port (?t1 ! (?n + length done)) = (r, ls)"
    by (cases "Sys_StringToSockaddr gai name port (?t1 ! (?n + length done))") auto
  have r: "r = Failure e"
    using b assms(3)
      StringToSockaddr_status [of gai name port "?t1 ! (?n + length done)" zero_listen_socket]
    by simp
  have last: "resolve_address_ports gai name (port # rest) ?s1 =
        (Failure e, ?s1\<lparr>listen_sockets := ?t1[?n + length done := ls]\<rparr>)"
    using assms(4) len b r by simp
  have tk: "take (?n + length done) (?t1[?n + length done := ls]) =
            take ?n ?t @ map (declared_entry gai name) done"
    using assms(4) by simp
  have whole: "resolve_address_ports gai name ports s =
        (Failure e, ?s1\<lparr>listen_sockets := ?t1[?n + length done := ls]\<rparr>)"
    unfolding assms(1) by (simp only: address_ports_append first last prod.case status.case)
  show ?thesis
    unfolding whole using tk by simp
qed


section \<open>Resolution: the loops over the families and over the declared addresses\<close>

lemma spec_wildcard_plan_append:
  "spec_wildcard_plan gai ports =
     map (wildcard_entry gai AF_INET) ports @ map (wildcard_entry gai AF_INET6) ports"
  by (simp add: spec_wildcard_plan_def comp_def)

lemma spec_declared_plan_Cons:
  "spec_declared_plan gai (name # names) ports =
     map (declared_entry gai name) ports @ spec_declared_plan gai names ports"
  by (simp add: spec_declared_plan_def comp_def)

lemma length_spec_declared_plan:
  "length (spec_declared_plan gai names ports) = length names * length ports"
  by (simp add: spec_declared_plan_def)

lemma resolve_without_addresses:
  assumes "nb_addresses s = 0" and "2 * length ports \<le> length (listen_sockets s)"
  shows "Sys_ResolveListenAddresses gai ports s =
     (case resolve_wildcard_ports gai AF_INET ports
             (s\<lparr>listen_sockets :=
                  replicate (2 * length ports) zero_listen_socket @
                  drop (2 * length ports) (listen_sockets s)\<rparr>) of
        (Failure e, s1) \<Rightarrow> (Failure e, s1)
      | (Success, s1) \<Rightarrow>
          (case resolve_wildcard_ports gai AF_INET6 ports s1 of
             (Failure e, s2) \<Rightarrow> (Failure e, s2)
           | (Success, s2) \<Rightarrow> (Success, s2)))"
proof -
  have two: "length [AF_INET, AF_INET6] * length ports = 2 * length ports"
    by simp
  show ?thesis
    unfolding Sys_ResolveListenAddresses_def Let_def two
    using assms by (auto split: prod.splits status.splits)
qed

lemma cleared_slots:
  "i < k \<Longrightarrow> (replicate k zero_listen_socket @ rest) ! i = zero_listen_socket"
  by (simp add: nth_append)

lemma wildcard_first_pass:
  assumes "nb_sockets s = 0" and "2 * length ports \<le> length (listen_sockets s)"
    and "\<forall>port\<in>set ports. fst (Sys_BuildSockaddr gai None port AF_INET zero_listen_socket) = Success"
  shows "resolve_wildcard_ports gai AF_INET ports
             (s\<lparr>listen_sockets :=
                  replicate (2 * length ports) zero_listen_socket @
                  drop (2 * length ports) (listen_sockets s)\<rparr>) =
         (Success,
          s\<lparr>listen_sockets :=
               map (wildcard_entry gai AF_INET) ports @
               replicate (length ports) zero_listen_socket @
               drop (2 * length ports) (listen_sockets s),
             nb_sockets := length ports\<rparr>)"
proof -
  let ?s0 = "s\<lparr>listen_sockets :=
                  replicate (2 * length ports) zero_listen_socket @
                  drop (2 * length ports) (listen_sockets s)\<rparr>"
  have a: "nb_sockets ?s0 + length ports \<le> length (listen_sockets ?s0)"
    using assms(1,2) by simp
  have b: "\<forall>i<length ports. listen_sockets ?s0 ! (nb_sockets ?s0 + i) = zero_listen_socket"
    using assms(1) by (simp add: cleared_slots)
  have d: "drop (length ports) (replicate (2 * length ports) zero_listen_socket) =
           replicate (length ports) zero_listen_socket"
    by simp
  show ?thesis
    unfolding wildcard_ports_ok [OF assms(3) a b] using assms(1) by (simp add: d)
qed

lemma wildcard_second_start:
  fixes s :: sys_state
  shows "nb_sockets (s\<lparr>listen_sockets := front @ replicate (length ports) zero_listen_socket @ back,
                       nb_sockets := length ports\<rparr>) = length ports"
  by simp

lemma resolve_wildcards_ok:
  assumes "nb_addresses s = 0" and "nb_sockets s = 0"
    and "2 * length ports \<le> length (listen_sockets s)"
    and "\<forall>port\<in>set ports. fst (Sys_BuildSockaddr gai None port AF_INET zero_listen_socket) = Success"
    and "\<forall>port\<in>set ports. fst (Sys_BuildSockaddr gai None port AF_INET6 zero_listen_socket) = Success"
  shows "Sys_ResolveListenAddresses gai ports s =
         (Success,
          s\<lparr>listen_sockets := spec_wildcard_plan gai ports @ drop (2 * length ports) (listen_sockets s),
             nb_sockets := 2 * length ports\<rparr>)"
proof -
  let ?s1 = "s\<lparr>listen_sockets :=
               map (wildcard_entry gai AF_INET) ports @
               replicate (length ports) zero_listen_socket @
               drop (2 * length ports) (listen_sockets s),
             nb_sockets := length ports\<rparr>"
  have a: "nb_sockets ?s1 + length ports \<le> length (listen_sockets ?s1)"
    using assms(3) by simp
  have b: "\<forall>i<length ports. listen_sockets ?s1 ! (nb_sockets ?s1 + i) = zero_listen_socket"
    by (simp add: nth_append)
  have second: "resolve_wildcard_ports gai AF_INET6 ports ?s1 =
         (Success,
          s\<lparr>listen_sockets := spec_wildcard_plan gai ports @ drop (2 * length ports) (listen_sockets s),
             nb_sockets := 2 * length ports\<rparr>)"
    unfolding wildcard_ports_ok [OF assms(5) a b]
    by (simp add: spec_wildcard_plan_append)
  show ?thesis
    by (simp only: resolve_without_addresses [OF assms(1,3)]
        wildcard_first_pass [OF assms(2,3,4)] second prod.case status.case)
qed

lemma resolve_wildcards_success:
  assumes "nb_addresses s = 0" and "nb_sockets s = 0"
    and "Sys_ResolveListenAddresses gai ports s = (Success, s')"
  shows "2 * length ports \<le> length (listen_sockets s)"
    and "\<forall>port\<in>set ports. fst (Sys_BuildSockaddr gai None port AF_INET zero_listen_socket) = Success"
    and "\<forall>port\<in>set ports. fst (Sys_BuildSockaddr gai None port AF_INET6 zero_listen_socket) = Success"
proof -
  show room: "2 * length ports \<le> length (listen_sockets s)"
    using assms(1,3) by (simp add: Sys_ResolveListenAddresses_def Let_def split: if_splits)
  let ?s0 = "s\<lparr>listen_sockets :=
                  replicate (2 * length ports) zero_listen_socket @
                  drop (2 * length ports) (listen_sockets s)\<rparr>"
  from assms(3) obtain s1 where
    first: "resolve_wildcard_ports gai AF_INET ports ?s0 = (Success, s1)"
    and second: "resolve_wildcard_ports gai AF_INET6 ports s1 = (Success, s')"
    unfolding resolve_without_addresses [OF assms(1) room]
    by (auto split: prod.splits status.splits)
  have n0: "nb_sockets ?s0 \<le> length (listen_sockets ?s0)" using assms(2) by simp
  from wildcard_ports_success [OF first n0]
  show v4: "\<forall>port\<in>set ports. fst (Sys_BuildSockaddr gai None port AF_INET zero_listen_socket) = Success"
    by simp
  from first wildcard_first_pass [OF assms(2) room v4, of ] have
    s1: "s1 = s\<lparr>listen_sockets :=
               map (wildcard_entry gai AF_INET) ports @
               replicate (length ports) zero_listen_socket @
               drop (2 * length ports) (listen_sockets s),
             nb_sockets := length ports\<rparr>"
    by simp
  have n1: "nb_sockets s1 \<le> length (listen_sockets s1)" by (simp add: s1)
  from wildcard_ports_success [OF second n1]
  show "\<forall>port\<in>set ports. fst (Sys_BuildSockaddr gai None port AF_INET6 zero_listen_socket) = Success"
    by simp
qed


lemma resolve_wildcards_fail_first_pass:
  assumes "nb_addresses s = 0" and "nb_sockets s = 0"
    and "2 * length ports \<le> length (listen_sockets s)"
    and "ports = done @ port # rest"
    and "\<forall>p\<in>set done. fst (Sys_BuildSockaddr gai None p AF_INET zero_listen_socket) = Success"
    and "fst (Sys_BuildSockaddr gai None port AF_INET zero_listen_socket) \<noteq> Success"
  shows "\<exists>s'. Sys_ResolveListenAddresses gai ports s = (Failure CantResolve, s') \<and>
           nb_sockets s' = length done \<and>
           take (length done) (listen_sockets s') = map (wildcard_entry gai AF_INET) done"
proof -
  let ?s0 = "s\<lparr>listen_sockets :=
                  replicate (2 * length ports) zero_listen_socket @
                  drop (2 * length ports) (listen_sockets s)\<rparr>"
  have shorter: "length done < length ports" using assms(4) by simp
  have a: "nb_sockets ?s0 + length done < length (listen_sockets ?s0)"
    using assms(2,3) shorter by simp
  have b: "\<forall>i<length done. listen_sockets ?s0 ! (nb_sockets ?s0 + i) = zero_listen_socket"
    using assms(2) shorter by (simp add: cleared_slots)
  note f = wildcard_ports_fail_at [OF assms(4,5,6) a b]
  show ?thesis
    unfolding resolve_without_addresses [OF assms(1,3)] f
    using assms(2) by simp
qed

lemma resolve_wildcards_fail_second_pass:
  assumes "nb_addresses s = 0" and "nb_sockets s = 0"
    and "2 * length ports \<le> length (listen_sockets s)"
    and "ports = done @ port # rest"
    and "\<forall>p\<in>set ports. fst (Sys_BuildSockaddr gai None p AF_INET zero_listen_socket) = Success"
    and "\<forall>p\<in>set done. fst (Sys_BuildSockaddr gai None p AF_INET6 zero_listen_socket) = Success"
    and "fst (Sys_BuildSockaddr gai None port AF_INET6 zero_listen_socket) \<noteq> Success"
  shows "\<exists>s'. Sys_ResolveListenAddresses gai ports s = (Failure CantResolve, s') \<and>
           nb_sockets s' = length ports + length done \<and>
           take (length ports + length done) (listen_sockets s') =
             map (wildcard_entry gai AF_INET) ports @ map (wildcard_entry gai AF_INET6) done"
proof -
  let ?s1 = "s\<lparr>listen_sockets :=
               map (wildcard_entry gai AF_INET) ports @
               replicate (length ports) zero_listen_socket @
               drop (2 * length ports) (listen_sockets s),
             nb_sockets := length ports\<rparr>"
  have shorter: "length done < length ports" using assms(4) by simp
  have a: "nb_sockets ?s1 + length done < length (listen_sockets ?s1)"
    using assms(3) shorter by simp
  have b: "\<forall>i<length done. listen_sockets ?s1 ! (nb_sockets ?s1 + i) = zero_listen_socket"
    using shorter by (simp add: nth_append)
  note f = wildcard_ports_fail_at [OF assms(4,6,7) a b]
  show ?thesis
    unfolding resolve_without_addresses [OF assms(1,3)]
      wildcard_first_pass [OF assms(2,3,5)]
    by (simp only: prod.case status.case f) simp
qed

lemma address_ports_counts:
  "resolve_address_ports gai name ports s = (Success, s') \<Longrightarrow>
   nb_sockets s' = nb_sockets s + length ports \<and>
   length (listen_sockets s') = length (listen_sockets s)"
proof (induction ports arbitrary: s)
  case Nil
  then show ?case by simp
next
  case (Cons port ports)
  let ?n = "nb_sockets s" and ?t = "listen_sockets s"
  from Cons.prems have room: "?n < length ?t" by (simp split: if_splits)
  obtain r ls where b: "Sys_StringToSockaddr gai name port (?t ! ?n) = (r, ls)"
    by (cases "Sys_StringToSockaddr gai name port (?t ! ?n)") auto
  from Cons.prems room b have r: "r = Success" by (cases r) auto
  from Cons.prems room b r
  have rest: "resolve_address_ports gai name ports
                (s\<lparr>listen_sockets := ?t[?n := ls\<lparr>local_addr_name := Some name\<rparr>],
                   nb_sockets := ?n + 1\<rparr>) =
              (Success, s')"
    by simp
  from Cons.IH [OF rest] show ?case by simp
qed

lemma addresses_append:
  "resolve_addresses gai (xs @ ys) ports s =
     (case resolve_addresses gai xs ports s of
        (Failure e, s1) \<Rightarrow> (Failure e, s1)
      | (Success, s1) \<Rightarrow> resolve_addresses gai ys ports s1)"
  by (induction xs arbitrary: s) (auto split: prod.splits status.splits option.splits)

lemma addresses_ok:
  assumes "\<forall>name\<in>set names. \<forall>port\<in>set ports.
             fst (Sys_StringToSockaddr gai name port zero_listen_socket) = Success"
    and "nb_sockets s + length names * length ports \<le> length (listen_sockets s)"
    and "\<forall>i<length names * length ports.
           listen_sockets s ! (nb_sockets s + i) = zero_listen_socket"
  shows "resolve_addresses gai (declared names) ports s =
         (Success,
          s\<lparr>listen_sockets :=
               take (nb_sockets s) (listen_sockets s) @ spec_declared_plan gai names ports @
               drop (nb_sockets s + length names * length ports) (listen_sockets s),
             nb_sockets := nb_sockets s + length names * length ports\<rparr>)"
  using assms
proof (induction names arbitrary: s)
  case Nil
  then show ?case by (simp add: declared_def spec_declared_plan_def)
next
  case (Cons name names)
  let ?n = "nb_sockets s" and ?t = "listen_sockets s"
  let ?p = "length ports" and ?k = "length names * length ports"
  let ?t1 = "take ?n ?t @ map (declared_entry gai name) ports @ drop (?n + ?p) ?t"
  let ?s1 = "s\<lparr>listen_sockets := ?t1, nb_sockets := ?n + ?p\<rparr>"
  from Cons.prems(2) have room: "?n + ?p + ?k \<le> length ?t" by (simp add: add.assoc)
  have z: "\<And>i. i < ?p + ?k \<Longrightarrow> ?t ! (?n + i) = zero_listen_socket"
    using Cons.prems(3) by simp
  have i1: "\<forall>port\<in>set ports. fst (Sys_StringToSockaddr gai name port zero_listen_socket) = Success"
    using Cons.prems(1) by simp
  have i2: "?n + ?p \<le> length ?t" using room by simp
  have i3: "\<forall>i<?p. ?t ! (?n + i) = zero_listen_socket" using z by simp
  have inner: "resolve_address_ports gai name ports s = (Success, ?s1)"
    by (rule address_ports_ok [OF i1 i2 i3])
  have o1: "\<forall>name\<in>set names. \<forall>port\<in>set ports.
             fst (Sys_StringToSockaddr gai name port zero_listen_socket) = Success"
    using Cons.prems(1) by simp
  have len1: "length ?t1 = length ?t" using i2 by simp
  have o2: "nb_sockets ?s1 + ?k \<le> length (listen_sockets ?s1)"
    using room len1 by simp
  have o3: "\<forall>i<?k. listen_sockets ?s1 ! (nb_sockets ?s1 + i) = zero_listen_socket"
  proof (intro allI impI)
    fix i assume i: "i < ?k"
    have "?t1 ! (?n + ?p + i) = drop (?n + ?p) ?t ! i"
      using i2 by (simp add: nth_append)
    also have "\<dots> = ?t ! (?n + (?p + i))" using room i by (simp add: add.assoc)
    also have "\<dots> = zero_listen_socket" using z [of "?p + i"] i by simp
    finally show "listen_sockets ?s1 ! (nb_sockets ?s1 + i) = zero_listen_socket" by simp
  qed
  have tk: "take (?n + ?p) ?t1 = take ?n ?t @ map (declared_entry gai name) ports"
    using i2 by simp
  have dr: "drop (?n + ?p + ?k) ?t1 = drop (?n + ?p + ?k) ?t"
    using i2 by (simp add: ac_simps)
  have unfold: "resolve_addresses gai (declared (name # names)) ports s =
                resolve_addresses gai (declared names) ports ?s1"
    by (simp add: declared_def inner)
  have sel: "nb_sockets ?s1 = ?n + ?p" "listen_sockets ?s1 = ?t1" by simp_all
  have idx: "?n + length (name # names) * ?p = ?n + ?p + ?k" by simp
  show ?case
    unfolding unfold Cons.IH [OF o1 o2 o3] idx
    by (simp only: sel tk dr spec_declared_plan_Cons append_assoc) simp
qed

lemma addresses_success:
  assumes "resolve_addresses gai (declared names) ports s = (Success, s')"
    and "nb_sockets s \<le> length (listen_sockets s)"
  shows "(\<forall>name\<in>set names. \<forall>port\<in>set ports.
            fst (Sys_StringToSockaddr gai name port zero_listen_socket) = Success) \<and>
         nb_sockets s + length names * length ports \<le> length (listen_sockets s)"
  using assms
proof (induction names arbitrary: s)
  case Nil
  then show ?case by simp
next
  case (Cons name names)
  from Cons.prems(1) obtain s1 where
    inner: "resolve_address_ports gai name ports s = (Success, s1)"
    and outer: "resolve_addresses gai (declared names) ports s1 = (Success, s')"
    by (auto simp: declared_def split: prod.splits status.splits)
  note c = address_ports_counts [OF inner]
  note i = address_ports_success [OF inner Cons.prems(2)]
  have n1: "nb_sockets s1 \<le> length (listen_sockets s1)" using c i by simp
  from Cons.IH [OF outer n1] c i show ?case by (simp add: add.assoc)
qed

lemma addresses_step:
  "resolve_addresses gai (\<lparr>addr_local_addr_name = Some name\<rparr> # las) ports s =
     (case resolve_address_ports gai name ports s of
        (Failure e, s') \<Rightarrow> (Failure e, s')
      | (Success, s') \<Rightarrow> resolve_addresses gai las ports s')"
  by simp

lemma addresses_fail_at:
  assumes "ports = done @ port # rest"
    and "\<forall>name\<in>set adone. \<forall>p\<in>set ports.
           fst (Sys_StringToSockaddr gai name p zero_listen_socket) = Success"
    and "\<forall>p\<in>set done. fst (Sys_StringToSockaddr gai name p zero_listen_socket) = Success"
    and "fst (Sys_StringToSockaddr gai name port zero_listen_socket) = Failure e"
    and "nb_sockets s + length adone * length ports + length done < length (listen_sockets s)"
    and "\<forall>i<length adone * length ports + length done.
           listen_sockets s ! (nb_sockets s + i) = zero_listen_socket"
  shows "\<exists>s'. resolve_addresses gai (declared (adone @ name # arest)) ports s = (Failure e, s') \<and>
           nb_sockets s' = nb_sockets s + length adone * length ports + length done \<and>
           take (nb_sockets s + length adone * length ports + length done) (listen_sockets s') =
             take (nb_sockets s) (listen_sockets s) @ spec_declared_plan gai adone ports @
             map (declared_entry gai name) done"
proof -
  let ?n = "nb_sockets s" and ?t = "listen_sockets s"
  let ?k = "length adone * length ports"
  let ?t1 = "take ?n ?t @ spec_declared_plan gai adone ports @ drop (?n + ?k) ?t"
  let ?s1 = "s\<lparr>listen_sockets := ?t1, nb_sockets := ?n + ?k\<rparr>"
  have room: "?n + ?k \<le> length ?t" using assms(5) by simp
  have z: "\<forall>i<?k. ?t ! (?n + i) = zero_listen_socket" using assms(6) by simp
  have first: "resolve_addresses gai (declared adone) ports s = (Success, ?s1)"
    by (rule addresses_ok [OF assms(2) room z])
  have len1: "length ?t1 = length ?t"
    using room by (simp add: length_spec_declared_plan)
  have a: "nb_sockets ?s1 + length done < length (listen_sockets ?s1)"
    using assms(5) len1 by simp
  have b: "\<forall>i<length done. listen_sockets ?s1 ! (nb_sockets ?s1 + i) = zero_listen_socket"
  proof (intro allI impI)
    fix i assume i: "i < length done"
    have "?t1 ! (?n + ?k + i) = drop (?n + ?k) ?t ! i"
      using room by (simp add: nth_append length_spec_declared_plan)
    also have "\<dots> = ?t ! (?n + (?k + i))" using assms(5) i by (simp add: add.assoc)
    also have "\<dots> = zero_listen_socket" using assms(6) i by simp
    finally show "listen_sockets ?s1 ! (nb_sockets ?s1 + i) = zero_listen_socket" by simp
  qed
  from address_ports_fail_at [OF assms(1,3,4) a b] obtain s' where
    inner: "resolve_address_ports gai name ports ?s1 = (Failure e, s')"
    and n': "nb_sockets s' = nb_sockets ?s1 + length done"
    and t': "take (nb_sockets ?s1 + length done) (listen_sockets s') =
             take (nb_sockets ?s1) (listen_sockets ?s1) @ map (declared_entry gai name) done"
    by blast
  have tk: "take (?n + ?k) ?t1 = take ?n ?t @ spec_declared_plan gai adone ports"
    using room by (simp add: length_spec_declared_plan)
  have split: "declared (adone @ name # arest) =
               declared adone @ \<lparr>addr_local_addr_name = Some name\<rparr> # declared arest"
    by (simp add: declared_def)
  have whole: "resolve_addresses gai (declared (adone @ name # arest)) ports s = (Failure e, s')"
    unfolding split addresses_append first
    by (simp only: prod.case status.case addresses_step inner)
  have sel: "nb_sockets ?s1 = ?n + ?k" "listen_sockets ?s1 = ?t1" by simp_all
  show ?thesis
    using whole n' t' unfolding sel tk by simp
qed

lemma resolve_with_addresses:
  assumes "names \<noteq> []" and "nb_addresses s = length names"
    and "take (length names) (listen_addresses s) = declared names"
  shows "Sys_ResolveListenAddresses gai ports s = resolve_addresses gai (declared names) ports s"
proof -
  have "length (take (length names) (listen_addresses s)) = length names"
    using assms(3) by (simp add: declared_def)
  then have "length names \<le> length (listen_addresses s)" by simp
  then show ?thesis
    using assms by (simp add: Sys_ResolveListenAddresses_def)
qed

section \<open>Resolution: the plan that is built\<close>

lemma wildcard_entry_optional: "optional (wildcard_entry gai fam port)"
  by (simp add: wildcard_entry_def)

lemma declared_entry_fields:
  "\<not> optional (declared_entry gai name port) \<and>
   local_addr_name (declared_entry gai name port) = Some name"
  by (simp add: declared_entry_def StringToSockaddr_keeps zero_listen_socket_def)

lemma declared_entry_no_port:
  assumes "fst (Sys_StringToSockaddr gai name port zero_listen_socket) = Success"
  shows "\<exists>i j. local_addr_name_no_port (declared_entry gai name port) = Some (take j (drop i name))"
  using StringToSockaddr_no_port [OF assms] by (simp add: declared_entry_def)

lemma plan_without_addresses:
  assumes "nb_addresses s = 0" and "nb_sockets s = 0"
    and "Sys_ResolveListenAddresses gai ports s = (Success, s')"
  shows "nb_sockets s' = 2 * length ports"
    and "take (nb_sockets s') (listen_sockets s') = spec_wildcard_plan gai ports"
    and "\<forall>e\<in>set (take (nb_sockets s') (listen_sockets s')). optional e"
proof -
  note ok = resolve_wildcards_success [OF assms]
  from resolve_wildcards_ok [OF assms(1,2) ok, of ] assms(3)
  have s': "s' = s\<lparr>listen_sockets :=
                  spec_wildcard_plan gai ports @ drop (2 * length ports) (listen_sockets s),
                nb_sockets := 2 * length ports\<rparr>"
    by simp
  have len: "length (spec_wildcard_plan gai ports) = 2 * length ports"
    by (simp add: spec_wildcard_plan_def)
  show "nb_sockets s' = 2 * length ports" by (simp add: s')
  show t: "take (nb_sockets s') (listen_sockets s') = spec_wildcard_plan gai ports"
    by (simp add: s' len)
  show "\<forall>e\<in>set (take (nb_sockets s') (listen_sockets s')). optional e"
    unfolding t by (auto simp: spec_wildcard_plan_def wildcard_entry_optional)
qed

lemma plan_with_addresses:
  assumes "names \<noteq> []" and "nb_addresses s = length names"
    and "take (length names) (listen_addresses s) = declared names"
    and "nb_sockets s = 0"
    and "\<forall>e\<in>set (listen_sockets s). e = zero_listen_socket"
    and "Sys_ResolveListenAddresses gai ports s = (Success, s')"
  shows "nb_sockets s' = length names * length ports"
    and "take (nb_sockets s') (listen_sockets s') = spec_declared_plan gai names ports"
    and "\<forall>e\<in>set (take (nb_sockets s') (listen_sockets s')).
           \<not> optional e \<and>
           (\<exists>name\<in>set names. local_addr_name e = Some name \<and>
              (\<exists>i j. local_addr_name_no_port e = Some (take j (drop i name))))"
proof -
  have run: "resolve_addresses gai (declared names) ports s = (Success, s')"
    using assms(6) resolve_with_addresses [OF assms(1,2,3)] by simp
  have n0: "nb_sockets s \<le> length (listen_sockets s)" using assms(4) by simp
  from addresses_success [OF run n0]
  have ok: "\<forall>name\<in>set names. \<forall>port\<in>set ports.
              fst (Sys_StringToSockaddr gai name port zero_listen_socket) = Success"
    and room: "nb_sockets s + length names * length ports \<le> length (listen_sockets s)"
    by auto
  have z: "\<forall>i<length names * length ports.
             listen_sockets s ! (nb_sockets s + i) = zero_listen_socket"
    using assms(4,5) room by simp
  from addresses_ok [OF ok room z] run
  have s': "s' = s\<lparr>listen_sockets :=
                  take (nb_sockets s) (listen_sockets s) @ spec_declared_plan gai names ports @
                  drop (nb_sockets s + length names * length ports) (listen_sockets s),
                nb_sockets := nb_sockets s + length names * length ports\<rparr>"
    by simp
  show "nb_sockets s' = length names * length ports" using assms(4) by (simp add: s')
  show t: "take (nb_sockets s') (listen_sockets s') = spec_declared_plan gai names ports"
    using assms(4) by (simp add: s' length_spec_declared_plan)
  show "\<forall>e\<in>set (take (nb_sockets s') (listen_sockets s')).
           \<not> optional e \<and>
           (\<exists>name\<in>set names. local_addr_name e = Some name \<and>
              (\<exists>i j. local_addr_name_no_port e = Some (take j (drop i name))))"
    unfolding t
  proof
    fix e assume "e \<in> set (spec_declared_plan gai names ports)"
    then obtain name port where e: "e = declared_entry gai name port"
      and name: "name \<in> set names" and port: "port \<in> set ports"
      by (auto simp: spec_declared_plan_def)
    from ok name port
    have "fst (Sys_StringToSockaddr gai name port zero_listen_socket) = Success" by simp
    from declared_entry_no_port [OF this] declared_entry_fields [of gai name port] name
    show "\<not> optional e \<and>
           (\<exists>name\<in>set names. local_addr_name e = Some name \<and>
              (\<exists>i j. local_addr_name_no_port e = Some (take j (drop i name))))"
      unfolding e by blast
  qed
qed

lemma example_ports_evaluate:
  "decimal ''27900'' = Some 27900" "decimal ''27950'' = Some 27950"
  by (simp_all add: decimal_def digit_value_def)

lemma example_wildcards_resolve:
  "fst (Sys_ResolveListenAddresses example_getaddrinfo [''27900'', ''27950''] (initial_state 2 8)) =
     Success"
  by (simp add: Sys_ResolveListenAddresses_def Sys_BuildSockaddr_def example_getaddrinfo_def
      example_answer_def example_ports_evaluate initial_state_def Let_def)

lemma example_registry_state:
  "example_registry =
     (initial_state 2 8)
       \<lparr>nb_addresses := 2, listen_addresses := declared [''203.0.113.5'', ''[::1]:27999'']\<rparr>"
  by (simp add: example_registry_def Sys_DeclareListenAddress_def initial_state_def declared_def
      zero_listen_address_def numeral_2_eq_2)

lemma example_registry_resolves:
  "fst (Sys_ResolveListenAddresses example_getaddrinfo [''27900'', ''27950''] example_registry) =
     Success"
  by (simp add: example_registry_state Sys_ResolveListenAddresses_def Sys_StringToSockaddr_def
      Sys_BuildSockaddr_def example_getaddrinfo_def example_answer_def example_hosts_def
      example_ports_evaluate initial_state_def declared_def char_at_def strrchr_def
      addr_buff_size_def NUL_def Let_def)

text \<open>
  \<open>Sys_StringToSockaddr\<close> and \<open>Sys_BuildSockaddr\<close> compared with the host portion and
  the lookup of the specification, for every C string.
\<close>

lemma unbracketed_is_spec:
  assumes "char_at address 0 \<noteq> CHR ''[''"
  shows "Sys_StringToSockaddr gai address port_name ls =
         (case spec_host address of
            Inl e \<Rightarrow> (Failure e, ls)
          | Inr (host, hint) \<Rightarrow>
              Sys_BuildSockaddr gai (Some host) port_name hint
                (ls\<lparr>local_addr_name_no_port := Some host\<rparr>))"
proof -
  from assms have nb: "\<not> (address \<noteq> [] \<and> hd address = CHR ''['')"
    by (cases address) (auto simp: char_at_def)
  have sh: "spec_host address =
        (let colons = count_list address CHR '':'';
             host = (if colons = 1 then takeWhile (\<lambda>c. c \<noteq> CHR '':'') address else address)
         in if 127 < length host then Inl AddressTooLong
            else Inr (host, if 2 \<le> colons then AF_INET6 else AF_UNSPEC))"
    unfolding spec_host_def by (rule if_not_P [OF nb])
  show ?thesis
  proof (cases "strchr address CHR '':''")
    case None
    then have c: "count_list address CHR '':'' = 0"
      by (simp add: strchr_None_iff count_list_zero_iff)
    show ?thesis
      using assms None c
      by (simp add: Sys_StringToSockaddr_def sh addr_buff_size_def Let_def not_less)
  next
    case (Some i)
    have t: "take i address = takeWhile (\<lambda>c. c \<noteq> CHR '':'') address"
      by (rule strchr_takeWhile [OF Some])
    have l: "i < length address" using strchr_Some_split [OF Some] by simp
    have li: "length (takeWhile (\<lambda>c. c \<noteq> CHR '':'') address) = i"
      using t l by (metis length_take min.absorb2 less_imp_le)
    note cs = count_list_split [OF Some]
    show ?thesis
    proof (cases "strrchr (drop (Suc i) address) CHR '':''")
      case None
      then have "count_list (drop (Suc i) address) CHR '':'' = 0"
        by (simp add: strrchr_None_iff count_list_zero_iff)
      with cs have c: "count_list address CHR '':'' = 1" by simp
      show ?thesis
        using assms Some None c li t [symmetric]
        by (simp add: Sys_StringToSockaddr_def sh addr_buff_size_def Let_def not_less)
    next
      case (Some j)
      then have "count_list (drop (Suc i) address) CHR '':'' \<noteq> 0"
        using strrchr_None_iff [of "drop (Suc i) address" "CHR '':''"]
        by (simp add: count_list_zero_iff)
      with cs have c: "2 \<le> count_list address CHR '':''" "count_list address CHR '':'' \<noteq> 1"
        by simp_all
      show ?thesis
        using assms \<open>strchr address CHR '':'' = Some i\<close> Some c
        by (simp add: Sys_StringToSockaddr_def sh addr_buff_size_def Let_def not_less)
    qed
  qed
qed

lemma bracketed_is_spec:
  assumes "NUL \<notin> set rest"
  shows "Sys_StringToSockaddr gai (CHR ''['' # rest) port_name ls =
         (case spec_host (CHR ''['' # rest) of
            Inl e \<Rightarrow> (Failure e, ls)
          | Inr (host, hint) \<Rightarrow>
              Sys_BuildSockaddr gai (Some host) port_name hint
                (ls\<lparr>local_addr_name_no_port := Some host\<rparr>))"
proof (cases "CHR '']'' \<in> set rest")
  case False
  then show ?thesis
    by (simp add: parse_no_closing_bracket spec_host_def)
next
  case True
  then obtain host tail where rest: "rest = host @ CHR '']'' # tail" and h: "CHR '']'' \<notin> set host"
    by (auto dest: split_list_first)
  have tw: "takeWhile (\<lambda>c. c \<noteq> CHR '']'') rest = host"
    using h by (auto simp: rest takeWhile_tail)
  have af: "drop (Suc (length host)) rest = tail" by (simp add: rest)
  have le: "length rest \<le> Suc (length host) \<longleftrightarrow> tail = []" by (simp add: rest)
  have i: "strchr (CHR ''['' # host @ CHR '']'' # tail) CHR '']'' = Some (Suc (length host))"
    using h by (simp add: strchr_append)
  have c: "char_at (CHR ''['' # host @ CHR '']'' # tail) (Suc (Suc (length host))) = char_at tail 0"
    by (simp add: char_at_def nth_append)
  have z: "char_at (CHR ''['' # host @ CHR '']'' # tail) 0 = CHR ''[''"
    by (simp add: char_at_def)
  have nul: "char_at tail 0 = NUL \<longleftrightarrow> tail = []"
    using assms by (cases tail) (auto simp: char_at_def rest)
  have col: "tail \<noteq> [] \<Longrightarrow> char_at tail 0 = hd tail"
    by (cases tail) (auto simp: char_at_def)
  have sp: "spec_host (CHR ''['' # rest) =
        (if tail \<noteq> [] \<and> hd tail \<noteq> CHR '':'' then Inl InvalidBracketEnd
         else if 127 < length host then Inl AddressTooLong
         else Inr (host, AF_INET6))"
    using True by (simp add: spec_host_def tw af le Let_def)
  have code: "Sys_StringToSockaddr gai (CHR ''['' # rest) port_name ls =
        (if tail \<noteq> [] \<and> hd tail \<noteq> CHR '':'' then (Failure InvalidBracketEnd, ls)
         else if 127 < length host then (Failure AddressTooLong, ls)
         else Sys_BuildSockaddr gai (Some host) port_name AF_INET6
                (ls\<lparr>local_addr_name_no_port := Some host\<rparr>))"
    unfolding rest
    using i z nul col
    by (auto simp: Sys_StringToSockaddr_def Let_def c addr_buff_size_def not_less)
  show ?thesis by (simp add: sp code)
qed

lemma StringToSockaddr_is_spec:
  assumes "NUL \<notin> set address"
  shows "Sys_StringToSockaddr gai address port_name ls =
         (case spec_host address of
            Inl e \<Rightarrow> (Failure e, ls)
          | Inr (host, hint) \<Rightarrow>
              Sys_BuildSockaddr gai (Some host) port_name hint
                (ls\<lparr>local_addr_name_no_port := Some host\<rparr>))"
proof (cases "char_at address 0 = CHR ''[''")
  case False
  then show ?thesis by (rule unbracketed_is_spec)
next
  case True
  then obtain rest where a: "address = CHR ''['' # rest"
    by (cases address) (auto simp: char_at_def NUL_def)
  with assms have "NUL \<notin> set rest" by simp
  then show ?thesis unfolding a by (rule bracketed_is_spec)
qed

lemma BuildSockaddr_is_lookup:
  "Sys_BuildSockaddr gai host port hint ls =
     (case spec_lookup gai host port hint of
        None \<Rightarrow> (Failure CantResolve, ls)
      | Some ai \<Rightarrow> (Success, ls\<lparr>local_addr := ai_addr ai, local_addr_len := ai_addrlen ai\<rparr>))"
  by (simp add: Sys_BuildSockaddr_def spec_lookup_def split: prod.splits option.splits)

lemma wildcard_entry_is_spec:
  assumes "fst (Sys_BuildSockaddr gai None port fam zero_listen_socket) = Success"
  shows "spec_wildcard_socket gai fam port = Some (wildcard_entry gai fam port)"
  using assms
  by (simp add: BuildSockaddr_is_lookup spec_wildcard_socket_def wildcard_entry_def
      zero_listen_socket_def split: option.splits)

lemma declared_entry_is_spec:
  assumes "NUL \<notin> set name"
    and "fst (Sys_StringToSockaddr gai name port zero_listen_socket) = Success"
  shows "spec_declared_socket gai name port = Some (declared_entry gai name port)"
  using assms(2)
  by (simp add: StringToSockaddr_is_spec [OF assms(1)] BuildSockaddr_is_lookup
      spec_declared_socket_def declared_entry_def zero_listen_socket_def
      split: sum.splits prod.splits option.splits)

lemma map_Some_eq:
  assumes "\<forall>x\<in>set xs. g x = Some (f x)"
  shows "map Some (map f xs) = map g xs"
  using assms by (induction xs) auto

lemma entries_without_addresses:
  assumes "nb_addresses s = 0" and "nb_sockets s = 0"
    and "Sys_ResolveListenAddresses gai ports s = (Success, s')"
  shows "map Some (take (nb_sockets s') (listen_sockets s')) =
         map (\<lambda>(fam, port). spec_wildcard_socket gai fam port)
           (List.product [AF_INET, AF_INET6] ports)"
proof -
  note ok = resolve_wildcards_success [OF assms]
  have t: "take (nb_sockets s') (listen_sockets s') = spec_wildcard_plan gai ports"
    by (rule plan_without_addresses(2) [OF assms])
  have "\<forall>x\<in>set (List.product [AF_INET, AF_INET6] ports).
          (\<lambda>(fam, port). spec_wildcard_socket gai fam port) x =
          Some ((\<lambda>(fam, port). wildcard_entry gai fam port) x)"
    using ok(2,3) by (auto simp: wildcard_entry_is_spec)
  from map_Some_eq [OF this] show ?thesis
    unfolding t spec_wildcard_plan_def .
qed

lemma entries_with_addresses:
  assumes "names \<noteq> []" and "\<forall>name\<in>set names. NUL \<notin> set name"
    and "nb_addresses s = length names"
    and "take (length names) (listen_addresses s) = declared names"
    and "nb_sockets s = 0"
    and "\<forall>e\<in>set (listen_sockets s). e = zero_listen_socket"
    and "Sys_ResolveListenAddresses gai ports s = (Success, s')"
  shows "map Some (take (nb_sockets s') (listen_sockets s')) =
         map (\<lambda>(name, port). spec_declared_socket gai name port) (List.product names ports)"
proof -
  have run: "resolve_addresses gai (declared names) ports s = (Success, s')"
    using assms(7) resolve_with_addresses [OF assms(1,3,4)] by simp
  have n0: "nb_sockets s \<le> length (listen_sockets s)" using assms(5) by simp
  from addresses_success [OF run n0]
  have ok: "\<forall>name\<in>set names. \<forall>port\<in>set ports.
              fst (Sys_StringToSockaddr gai name port zero_listen_socket) = Success"
    by auto
  have t: "take (nb_sockets s') (listen_sockets s') = spec_declared_plan gai names ports"
    by (rule plan_with_addresses(2) [OF assms(1,3,4,5,6,7)])
  have "\<forall>x\<in>set (List.product names ports).
          (\<lambda>(name, port). spec_declared_socket gai name port) x =
          Some ((\<lambda>(name, port). declared_entry gai name port) x)"
    using ok assms(2) by (auto simp: declared_entry_is_spec)
  from map_Some_eq [OF this] show ?thesis
    unfolding t spec_declared_plan_def .
qed

lemma spec_declared_socket_fields:
  assumes "spec_declared_socket gai name port = Some e"
  shows "\<not> optional e \<and> local_addr_name e = Some name \<and>
         (\<exists>host hint. spec_host name = Inr (host, hint) \<and>
            local_addr_name_no_port e = Some host \<and>
            (\<exists>ai. spec_lookup gai (Some host) port hint = Some ai \<and>
               local_addr e = ai_addr ai \<and> local_addr_len e = ai_addrlen ai))"
  using assms
  by (auto simp: spec_declared_socket_def split: sum.splits prod.splits)

lemma declared_sockets_fields:
  assumes "map Some es =
           map (\<lambda>(name, port). spec_declared_socket gai name port) (List.product names ports)"
  shows "\<forall>e\<in>set es.
           \<not> optional e \<and>
           (\<exists>name\<in>set names. local_addr_name e = Some name \<and>
              (\<exists>host hint. spec_host name = Inr (host, hint) \<and>
                 local_addr_name_no_port e = Some host))"
proof
  fix e assume "e \<in> set es"
  then have "Some e \<in> set (map Some es)" by simp
  then have "Some e \<in> set (map (\<lambda>(name, port). spec_declared_socket gai name port)
                              (List.product names ports))"
    unfolding assms .
  then obtain name port where n: "name \<in> set names"
    and e: "spec_declared_socket gai name port = Some e"
    by auto
  from spec_declared_socket_fields [OF e] n
  show "\<not> optional e \<and>
           (\<exists>name\<in>set names. local_addr_name e = Some name \<and>
              (\<exists>host hint. spec_host name = Inr (host, hint) \<and>
                 local_addr_name_no_port e = Some host))"
    by blast
qed

text \<open>
  C8. Starting with no socket in the table, a successful resolution without declared
  addresses leaves exactly two entries per port, families outer (IPv4, then IPv6) and
  ports inner; the entry of a family and a port holds the address that the resolver
  answers for no host (the wildcard address), that port and that family, has no name,
  and is optional. With the declared addresses \<open>names\<close> (C strings) and a table of
  zeroed entries (its initial content), a successful resolution leaves exactly one
  entry per address and port, addresses outer and ports inner; the entry of an address
  and a port holds the declared name, the host portion of that name without the port,
  and the address that the resolver answers for that host portion, that port and the
  family hint of the name, and it is not optional.
\<close>

theorem Sys_ResolveListenAddresses_entries:
  "(nb_addresses s = 0 \<and> nb_sockets s = 0 \<and>
    Sys_ResolveListenAddresses gai ports s = (Success, s') \<longrightarrow>
      nb_sockets s' = 2 * length ports \<and>
      map Some (take (nb_sockets s') (listen_sockets s')) =
        map (\<lambda>(fam, port). spec_wildcard_socket gai fam port)
          (List.product [AF_INET, AF_INET6] ports) \<and>
      (\<forall>e\<in>set (take (nb_sockets s') (listen_sockets s')). optional e)) \<and>
   (names \<noteq> [] \<and> (\<forall>name\<in>set names. NUL \<notin> set name) \<and>
    nb_addresses s = length names \<and>
    take (length names) (listen_addresses s) = declared names \<and> nb_sockets s = 0 \<and>
    (\<forall>e\<in>set (listen_sockets s). e = zero_listen_socket) \<and>
    Sys_ResolveListenAddresses gai ports s = (Success, s') \<longrightarrow>
      nb_sockets s' = length names * length ports \<and>
      map Some (take (nb_sockets s') (listen_sockets s')) =
        map (\<lambda>(name, port). spec_declared_socket gai name port) (List.product names ports) \<and>
      (\<forall>e\<in>set (take (nb_sockets s') (listen_sockets s')).
         \<not> optional e \<and>
         (\<exists>name\<in>set names. local_addr_name e = Some name \<and>
            (\<exists>host hint. spec_host name = Inr (host, hint) \<and>
               local_addr_name_no_port e = Some host))))"
proof (intro conjI impI)
  assume a: "nb_addresses s = 0 \<and> nb_sockets s = 0 \<and>
    Sys_ResolveListenAddresses gai ports s = (Success, s')"
  then have a1: "nb_addresses s = 0" and a2: "nb_sockets s = 0"
    and a3: "Sys_ResolveListenAddresses gai ports s = (Success, s')"
    by auto
  show "nb_sockets s' = 2 * length ports"
    by (rule plan_without_addresses(1) [OF a1 a2 a3])
  show "map Some (take (nb_sockets s') (listen_sockets s')) =
        map (\<lambda>(fam, port). spec_wildcard_socket gai fam port)
          (List.product [AF_INET, AF_INET6] ports)"
    by (rule entries_without_addresses [OF a1 a2 a3])
  show "\<forall>e\<in>set (take (nb_sockets s') (listen_sockets s')). optional e"
    by (rule plan_without_addresses(3) [OF a1 a2 a3])
next
  assume b: "names \<noteq> [] \<and> (\<forall>name\<in>set names. NUL \<notin> set name) \<and>
    nb_addresses s = length names \<and>
    take (length names) (listen_addresses s) = declared names \<and> nb_sockets s = 0 \<and>
    (\<forall>e\<in>set (listen_sockets s). e = zero_listen_socket) \<and>
    Sys_ResolveListenAddresses gai ports s = (Success, s')"
  then have b1: "names \<noteq> []" and b2: "\<forall>name\<in>set names. NUL \<notin> set name"
    and b3: "nb_addresses s = length names"
    and b4: "take (length names) (listen_addresses s) = declared names"
    and b5: "nb_sockets s = 0"
    and b6: "\<forall>e\<in>set (listen_sockets s). e = zero_listen_socket"
    and b7: "Sys_ResolveListenAddresses gai ports s = (Success, s')"
    by blast+
  show "nb_sockets s' = length names * length ports"
    by (rule plan_with_addresses(1) [OF b1 b3 b4 b5 b6 b7])
  show m: "map Some (take (nb_sockets s') (listen_sockets s')) =
        map (\<lambda>(name, port). spec_declared_socket gai name port) (List.product names ports)"
    by (rule entries_with_addresses [OF b1 b2 b3 b4 b5 b6 b7])
  show "\<forall>e\<in>set (take (nb_sockets s') (listen_sockets s')).
         \<not> optional e \<and>
         (\<exists>name\<in>set names. local_addr_name e = Some name \<and>
            (\<exists>host hint. spec_host name = Inr (host, hint) \<and>
               local_addr_name_no_port e = Some host))"
    by (rule declared_sockets_fields [OF m])
qed

lemma wildcard_bytes:
  "replicate 4 (0::nat) = [0, 0, 0, 0]"
  "replicate 16 (0::nat) = [0, 0, 0, 0, 0, 0, 0, 0, 0, 0, 0, 0, 0, 0, 0, 0]"
  by (simp_all add: numeral_eq_Suc)

lemma example_wildcard_sockets:
  "spec_wildcard_socket example_getaddrinfo AF_INET ''27900'' =
     Some \<lparr>socket = 0,
      local_addr = \<lparr>ss_family = AF_INET, ss_addr = [0, 0, 0, 0], ss_port = 27900\<rparr>,
      local_addr_len = 16, local_addr_name = None, local_addr_name_no_port = None,
      optional = True\<rparr>"
  "spec_wildcard_socket example_getaddrinfo AF_INET ''27950'' =
     Some \<lparr>socket = 0,
      local_addr = \<lparr>ss_family = AF_INET, ss_addr = [0, 0, 0, 0], ss_port = 27950\<rparr>,
      local_addr_len = 16, local_addr_name = None, local_addr_name_no_port = None,
      optional = True\<rparr>"
  "spec_wildcard_socket example_getaddrinfo AF_INET6 ''27900'' =
     Some \<lparr>socket = 0,
      local_addr = \<lparr>ss_family = AF_INET6,
                    ss_addr = [0, 0, 0, 0, 0, 0, 0, 0, 0, 0, 0, 0, 0, 0, 0, 0],
                    ss_port = 27900\<rparr>,
      local_addr_len = 28, local_addr_name = None, local_addr_name_no_port = None,
      optional = True\<rparr>"
  "spec_wildcard_socket example_getaddrinfo AF_INET6 ''27950'' =
     Some \<lparr>socket = 0,
      local_addr = \<lparr>ss_family = AF_INET6,
                    ss_addr = [0, 0, 0, 0, 0, 0, 0, 0, 0, 0, 0, 0, 0, 0, 0, 0],
                    ss_port = 27950\<rparr>,
      local_addr_len = 28, local_addr_name = None, local_addr_name_no_port = None,
      optional = True\<rparr>"
  by (simp_all add: spec_wildcard_socket_def spec_lookup_def example_getaddrinfo_def
      example_answer_def example_ports_evaluate wildcard_bytes)

lemma example_hosts_parsed:
  "spec_host ''203.0.113.5'' = Inr (''203.0.113.5'', AF_UNSPEC)"
  "spec_host ''[::1]:27999'' = Inr (''::1'', AF_INET6)"
  by (simp_all add: spec_host_def Let_def)

lemma example_declared_sockets:
  "spec_declared_socket example_getaddrinfo ''203.0.113.5'' ''27900'' =
     Some \<lparr>socket = 0,
      local_addr = \<lparr>ss_family = AF_INET, ss_addr = [203, 0, 113, 5], ss_port = 27900\<rparr>,
      local_addr_len = 16, local_addr_name = Some ''203.0.113.5'',
      local_addr_name_no_port = Some ''203.0.113.5'', optional = False\<rparr>"
  "spec_declared_socket example_getaddrinfo ''203.0.113.5'' ''27950'' =
     Some \<lparr>socket = 0,
      local_addr = \<lparr>ss_family = AF_INET, ss_addr = [203, 0, 113, 5], ss_port = 27950\<rparr>,
      local_addr_len = 16, local_addr_name = Some ''203.0.113.5'',
      local_addr_name_no_port = Some ''203.0.113.5'', optional = False\<rparr>"
  "spec_declared_socket example_getaddrinfo ''[::1]:27999'' ''27900'' =
     Some \<lparr>socket = 0,
      local_addr = \<lparr>ss_family = AF_INET6,
                    ss_addr = [0, 0, 0, 0, 0, 0, 0, 0, 0, 0, 0, 0, 0, 0, 0, 1],
                    ss_port = 27900\<rparr>,
      local_addr_len = 28, local_addr_name = Some ''[::1]:27999'',
      local_addr_name_no_port = Some ''::1'', optional = False\<rparr>"
  "spec_declared_socket example_getaddrinfo ''[::1]:27999'' ''27950'' =
     Some \<lparr>socket = 0,
      local_addr = \<lparr>ss_family = AF_INET6,
                    ss_addr = [0, 0, 0, 0, 0, 0, 0, 0, 0, 0, 0, 0, 0, 0, 0, 1],
                    ss_port = 27950\<rparr>,
      local_addr_len = 28, local_addr_name = Some ''[::1]:27999'',
      local_addr_name_no_port = Some ''::1'', optional = False\<rparr>"
  by (simp_all add: spec_declared_socket_def example_hosts_parsed spec_lookup_def
      example_getaddrinfo_def example_answer_def example_hosts_def example_ports_evaluate)

theorem Sys_ResolveListenAddresses_entries_witness:
  "nb_sockets (snd (Sys_ResolveListenAddresses example_getaddrinfo [''27900'', ''27950'']
                      (initial_state 2 8))) = 4 \<and>
   take 4 (listen_sockets (snd (Sys_ResolveListenAddresses example_getaddrinfo
                                  [''27900'', ''27950''] (initial_state 2 8)))) =
     [\<lparr>socket = 0,
       local_addr = \<lparr>ss_family = AF_INET, ss_addr = [0, 0, 0, 0], ss_port = 27900\<rparr>,
       local_addr_len = 16, local_addr_name = None, local_addr_name_no_port = None,
       optional = True\<rparr>,
      \<lparr>socket = 0,
       local_addr = \<lparr>ss_family = AF_INET, ss_addr = [0, 0, 0, 0], ss_port = 27950\<rparr>,
       local_addr_len = 16, local_addr_name = None, local_addr_name_no_port = None,
       optional = True\<rparr>,
      \<lparr>socket = 0,
       local_addr = \<lparr>ss_family = AF_INET6,
                     ss_addr = [0, 0, 0, 0, 0, 0, 0, 0, 0, 0, 0, 0, 0, 0, 0, 0],
                     ss_port = 27900\<rparr>,
       local_addr_len = 28, local_addr_name = None, local_addr_name_no_port = None,
       optional = True\<rparr>,
      \<lparr>socket = 0,
       local_addr = \<lparr>ss_family = AF_INET6,
                     ss_addr = [0, 0, 0, 0, 0, 0, 0, 0, 0, 0, 0, 0, 0, 0, 0, 0],
                     ss_port = 27950\<rparr>,
       local_addr_len = 28, local_addr_name = None, local_addr_name_no_port = None,
       optional = True\<rparr>] \<and>
   nb_sockets (snd (Sys_ResolveListenAddresses example_getaddrinfo [''27900'', ''27950'']
                      example_registry)) = 4 \<and>
   take 4 (listen_sockets (snd (Sys_ResolveListenAddresses example_getaddrinfo
                                  [''27900'', ''27950''] example_registry))) =
     [\<lparr>socket = 0,
       local_addr = \<lparr>ss_family = AF_INET, ss_addr = [203, 0, 113, 5], ss_port = 27900\<rparr>,
       local_addr_len = 16, local_addr_name = Some ''203.0.113.5'',
       local_addr_name_no_port = Some ''203.0.113.5'', optional = False\<rparr>,
      \<lparr>socket = 0,
       local_addr = \<lparr>ss_family = AF_INET, ss_addr = [203, 0, 113, 5], ss_port = 27950\<rparr>,
       local_addr_len = 16, local_addr_name = Some ''203.0.113.5'',
       local_addr_name_no_port = Some ''203.0.113.5'', optional = False\<rparr>,
      \<lparr>socket = 0,
       local_addr = \<lparr>ss_family = AF_INET6,
                     ss_addr = [0, 0, 0, 0, 0, 0, 0, 0, 0, 0, 0, 0, 0, 0, 0, 1],
                     ss_port = 27900\<rparr>,
       local_addr_len = 28, local_addr_name = Some ''[::1]:27999'',
       local_addr_name_no_port = Some ''::1'', optional = False\<rparr>,
      \<lparr>socket = 0,
       local_addr = \<lparr>ss_family = AF_INET6,
                     ss_addr = [0, 0, 0, 0, 0, 0, 0, 0, 0, 0, 0, 0, 0, 0, 0, 1],
                     ss_port = 27950\<rparr>,
       local_addr_len = 28, local_addr_name = Some ''[::1]:27999'',
       local_addr_name_no_port = Some ''::1'', optional = False\<rparr>]"
proof -
  have r1: "Sys_ResolveListenAddresses example_getaddrinfo [''27900'', ''27950''] (initial_state 2 8) =
      (Success, snd (Sys_ResolveListenAddresses example_getaddrinfo [''27900'', ''27950'']
                       (initial_state 2 8)))"
    using example_wildcards_resolve by (metis prod.collapse)
  have r2: "Sys_ResolveListenAddresses example_getaddrinfo [''27900'', ''27950''] example_registry =
      (Success, snd (Sys_ResolveListenAddresses example_getaddrinfo [''27900'', ''27950'']
                       example_registry))"
    using example_registry_resolves by (metis prod.collapse)
  have i1: "nb_addresses (initial_state 2 8) = 0 \<and> nb_sockets (initial_state 2 8) = 0"
    by (simp add: initial_state_def)
  have i2: "[''203.0.113.5'', ''[::1]:27999''] \<noteq> [] \<and>
            (\<forall>name\<in>set [''203.0.113.5'', ''[::1]:27999'']. NUL \<notin> set name) \<and>
            nb_addresses example_registry = length [''203.0.113.5'', ''[::1]:27999''] \<and>
            take (length [''203.0.113.5'', ''[::1]:27999'']) (listen_addresses example_registry) =
              declared [''203.0.113.5'', ''[::1]:27999''] \<and>
            nb_sockets example_registry = 0 \<and>
            (\<forall>e\<in>set (listen_sockets example_registry). e = zero_listen_socket)"
    by (simp add: example_registry_state initial_state_def declared_def NUL_def)
  let ?w = "snd (Sys_ResolveListenAddresses example_getaddrinfo [''27900'', ''27950'']
                   (initial_state 2 8))"
  let ?d = "snd (Sys_ResolveListenAddresses example_getaddrinfo [''27900'', ''27950'']
                   example_registry)"
  have c1: "nb_sockets ?w = 2 * length [''27900'', ''27950''] \<and>
      map Some (take (nb_sockets ?w) (listen_sockets ?w)) =
        map (\<lambda>(fam, port). spec_wildcard_socket example_getaddrinfo fam port)
          (List.product [AF_INET, AF_INET6] [''27900'', ''27950''])"
    using Sys_ResolveListenAddresses_entries [of "initial_state 2 8" example_getaddrinfo
        "[''27900'', ''27950'']" ?w "[]"] i1 r1
    by blast
  have c2: "nb_sockets ?d = length [''203.0.113.5'', ''[::1]:27999''] * length [''27900'', ''27950''] \<and>
      map Some (take (nb_sockets ?d) (listen_sockets ?d)) =
        map (\<lambda>(name, port). spec_declared_socket example_getaddrinfo name port)
          (List.product [''203.0.113.5'', ''[::1]:27999''] [''27900'', ''27950''])"
    using Sys_ResolveListenAddresses_entries [of example_registry example_getaddrinfo
        "[''27900'', ''27950'']" ?d "[''203.0.113.5'', ''[::1]:27999'']"] i2 r2
    by blast
  from c1 have n1: "nb_sockets ?w = 4" by simp
  from c2 have n2: "nb_sockets ?d = 4" by simp
  from c1 have t1: "map Some (take 4 (listen_sockets ?w)) =
        map (\<lambda>(fam, port). spec_wildcard_socket example_getaddrinfo fam port)
          (List.product [AF_INET, AF_INET6] [''27900'', ''27950''])"
    unfolding n1 by blast
  from c2 have t2: "map Some (take 4 (listen_sockets ?d)) =
        map (\<lambda>(name, port). spec_declared_socket example_getaddrinfo name port)
          (List.product [''203.0.113.5'', ''[::1]:27999''] [''27900'', ''27950''])"
    unfolding n2 by blast
  have m1: "map Some (take 4 (listen_sockets ?w)) =
      map Some
        [\<lparr>socket = 0,
          local_addr = \<lparr>ss_family = AF_INET, ss_addr = [0, 0, 0, 0], ss_port = 27900\<rparr>,
          local_addr_len = 16, local_addr_name = None, local_addr_name_no_port = None,
          optional = True\<rparr>,
         \<lparr>socket = 0,
          local_addr = \<lparr>ss_family = AF_INET, ss_addr = [0, 0, 0, 0], ss_port = 27950\<rparr>,
          local_addr_len = 16, local_addr_name = None, local_addr_name_no_port = None,
          optional = True\<rparr>,
         \<lparr>socket = 0,
          local_addr = \<lparr>ss_family = AF_INET6,
                        ss_addr = [0, 0, 0, 0, 0, 0, 0, 0, 0, 0, 0, 0, 0, 0, 0, 0],
                        ss_port = 27900\<rparr>,
          local_addr_len = 28, local_addr_name = None, local_addr_name_no_port = None,
          optional = True\<rparr>,
         \<lparr>socket = 0,
          local_addr = \<lparr>ss_family = AF_INET6,
                        ss_addr = [0, 0, 0, 0, 0, 0, 0, 0, 0, 0, 0, 0, 0, 0, 0, 0],
                        ss_port = 27950\<rparr>,
          local_addr_len = 28, local_addr_name = None, local_addr_name_no_port = None,
          optional = True\<rparr>]"
    unfolding t1 by (simp add: example_wildcard_sockets)
  have m2: "map Some (take 4 (listen_sockets ?d)) =
      map Some
        [\<lparr>socket = 0,
          local_addr = \<lparr>ss_family = AF_INET, ss_addr = [203, 0, 113, 5], ss_port = 27900\<rparr>,
          local_addr_len = 16, local_addr_name = Some ''203.0.113.5'',
          local_addr_name_no_port = Some ''203.0.113.5'', optional = False\<rparr>,
         \<lparr>socket = 0,
          local_addr = \<lparr>ss_family = AF_INET, ss_addr = [203, 0, 113, 5], ss_port = 27950\<rparr>,
          local_addr_len = 16, local_addr_name = Some ''203.0.113.5'',
          local_addr_name_no_port = Some ''203.0.113.5'', optional = False\<rparr>,
         \<lparr>socket = 0,
          local_addr = \<lparr>ss_family = AF_INET6,
                        ss_addr = [0, 0, 0, 0, 0, 0, 0, 0, 0, 0, 0, 0, 0, 0, 0, 1],
                        ss_port = 27900\<rparr>,
          local_addr_len = 28, local_addr_name = Some ''[::1]:27999'',
          local_addr_name_no_port = Some ''::1'', optional = False\<rparr>,
         \<lparr>socket = 0,
          local_addr = \<lparr>ss_family = AF_INET6,
                        ss_addr = [0, 0, 0, 0, 0, 0, 0, 0, 0, 0, 0, 0, 0, 0, 0, 1],
                        ss_port = 27950\<rparr>,
          local_addr_len = 28, local_addr_name = Some ''[::1]:27999'',
          local_addr_name_no_port = Some ''::1'', optional = False\<rparr>]"
    unfolding t2 by (simp add: example_declared_sockets)
  have inj: "inj (Some :: listen_socket \<Rightarrow> listen_socket option)" by simp
  from map_injective [OF m1 inj] map_injective [OF m2 inj] n1 n2
  show ?thesis by blast
qed


section \<open>Resolution: failures\<close>

lemma first_failing_port:
  assumes "\<exists>port\<in>set ports. \<not> P port"
  obtains before port rest where "ports = before @ port # rest" and "\<forall>p\<in>set before. P p"
    and "\<not> P port"
proof -
  from assms have "\<exists>x\<in>set ports. \<not> P x" .
  from split_list_first_prop [OF this] obtain ys x zs where
    "ports = ys @ x # zs" and "\<not> P x" and "\<forall>y\<in>set ys. \<not> \<not> P y"
    by blast
  then show ?thesis using that by auto
qed

lemma wildcard_lookup_error_is_fatal:
  assumes "nb_addresses s = 0" and "nb_sockets s = 0"
    and "2 * length ports \<le> length (listen_sockets s)"
    and "\<exists>port\<in>set ports.
           fst (Sys_BuildSockaddr gai None port AF_INET zero_listen_socket) \<noteq> Success \<or>
           fst (Sys_BuildSockaddr gai None port AF_INET6 zero_listen_socket) \<noteq> Success"
  shows "fst (Sys_ResolveListenAddresses gai ports s) = Failure CantResolve"
proof (cases "\<exists>port\<in>set ports.
                \<not> fst (Sys_BuildSockaddr gai None port AF_INET zero_listen_socket) = Success")
  case True
  then obtain before port rest where "ports = before @ port # rest"
    and "\<forall>p\<in>set before. fst (Sys_BuildSockaddr gai None p AF_INET zero_listen_socket) = Success"
    and "\<not> fst (Sys_BuildSockaddr gai None port AF_INET zero_listen_socket) = Success"
    by (rule first_failing_port)
  from resolve_wildcards_fail_first_pass [OF assms(1,2,3) this]
  show ?thesis by auto
next
  case False
  then have v4: "\<forall>p\<in>set ports.
      fst (Sys_BuildSockaddr gai None p AF_INET zero_listen_socket) = Success"
    by simp
  with assms(4) have "\<exists>port\<in>set ports.
      \<not> fst (Sys_BuildSockaddr gai None port AF_INET6 zero_listen_socket) = Success"
    by auto
  then obtain before port rest where "ports = before @ port # rest"
    and "\<forall>p\<in>set before. fst (Sys_BuildSockaddr gai None p AF_INET6 zero_listen_socket) = Success"
    and "\<not> fst (Sys_BuildSockaddr gai None port AF_INET6 zero_listen_socket) = Success"
    by (rule first_failing_port)
  from resolve_wildcards_fail_second_pass [OF assms(1,2,3) this(1) v4 this(2,3)]
  show ?thesis by auto
qed

lemma declared_lookup_error_is_fatal:
  assumes "names \<noteq> []" and "nb_addresses s = length names"
    and "take (length names) (listen_addresses s) = declared names"
    and "nb_sockets s = 0"
    and "\<exists>name\<in>set names. \<exists>port\<in>set ports.
           fst (Sys_StringToSockaddr gai name port zero_listen_socket) \<noteq> Success"
  shows "fst (Sys_ResolveListenAddresses gai ports s) \<noteq> Success"
proof
  assume "fst (Sys_ResolveListenAddresses gai ports s) = Success"
  then obtain s' where "resolve_addresses gai (declared names) ports s = (Success, s')"
    unfolding resolve_with_addresses [OF assms(1,2,3)]
    by (cases "resolve_addresses gai (declared names) ports s") auto
  from addresses_success [OF this] assms(4,5) show False by auto
qed

text \<open>
  C7, as the code has it. A lookup error is fatal on both paths. Without declared
  addresses, in a table that holds two entries per port and has no socket yet: when
  \<open>getaddrinfo\<close> fails for the wildcard address of either family and one of the ports,
  \<open>Sys_ResolveListenAddresses\<close> returns the resolution error. With declared addresses:
  when an address cannot be resolved for one of the ports, the function fails.
\<close>

theorem Sys_ResolveListenAddresses_lookup_errors:
  "(nb_addresses s = 0 \<and> nb_sockets s = 0 \<and> 2 * length ports \<le> length (listen_sockets s) \<and>
    (\<exists>port\<in>set ports.
       fst (Sys_BuildSockaddr gai None port AF_INET zero_listen_socket) \<noteq> Success \<or>
       fst (Sys_BuildSockaddr gai None port AF_INET6 zero_listen_socket) \<noteq> Success) \<longrightarrow>
      fst (Sys_ResolveListenAddresses gai ports s) = Failure CantResolve) \<and>
   (names \<noteq> [] \<and> nb_addresses s = length names \<and>
    take (length names) (listen_addresses s) = declared names \<and> nb_sockets s = 0 \<and>
    (\<exists>name\<in>set names. \<exists>port\<in>set ports.
       fst (Sys_StringToSockaddr gai name port zero_listen_socket) \<noteq> Success) \<longrightarrow>
      fst (Sys_ResolveListenAddresses gai ports s) \<noteq> Success)"
  using wildcard_lookup_error_is_fatal [of s ports gai]
    declared_lookup_error_is_fatal [of names s ports gai]
  by blast

theorem Sys_ResolveListenAddresses_lookup_errors_witness:
  "fst (Sys_ResolveListenAddresses example_getaddrinfo [''27900'', ''bogus''] (initial_state 2 8)) =
     Failure CantResolve \<and>
   fst (Sys_ResolveListenAddresses ipv4_only_getaddrinfo [''27900'', ''27950'']
          (initial_state 2 8)) = Failure CantResolve \<and>
   fst (Sys_ResolveListenAddresses ipv4_only_getaddrinfo [''27900'', ''27950'']
          example_registry) \<noteq> Success"
proof -
  have i1: "nb_addresses (initial_state 2 8) = 0 \<and> nb_sockets (initial_state 2 8) = 0 \<and>
            2 * length [''27900'', ''bogus''] \<le> length (listen_sockets (initial_state 2 8)) \<and>
            2 * length [''27900'', ''27950''] \<le> length (listen_sockets (initial_state 2 8))"
    by (simp add: initial_state_def)
  have i2: "nb_addresses example_registry = length [''203.0.113.5'', ''[::1]:27999''] \<and>
            take (length [''203.0.113.5'', ''[::1]:27999'']) (listen_addresses example_registry) =
              declared [''203.0.113.5'', ''[::1]:27999''] \<and>
            nb_sockets example_registry = 0"
    by (simp add: example_registry_state initial_state_def declared_def)
  have f1: "fst (Sys_BuildSockaddr example_getaddrinfo None ''bogus'' AF_INET zero_listen_socket) \<noteq>
            Success"
    by (simp add: Sys_BuildSockaddr_def example_getaddrinfo_def decimal_def digit_value_def)
  have f2: "fst (Sys_BuildSockaddr ipv4_only_getaddrinfo None ''27900'' AF_INET6
                   zero_listen_socket) \<noteq> Success"
    by (simp add: Sys_BuildSockaddr_def ipv4_only_getaddrinfo_def)
  have f3: "fst (Sys_StringToSockaddr ipv4_only_getaddrinfo ''[::1]:27999'' ''27900''
                   zero_listen_socket) \<noteq> Success"
    by (simp add: Sys_StringToSockaddr_def Sys_BuildSockaddr_def ipv4_only_getaddrinfo_def
        char_at_def addr_buff_size_def Let_def)
  show ?thesis
    using
      Sys_ResolveListenAddresses_lookup_errors [of "initial_state 2 8" "[''27900'', ''bogus'']"
        example_getaddrinfo "[]"]
      Sys_ResolveListenAddresses_lookup_errors [of "initial_state 2 8" "[''27900'', ''27950'']"
        ipv4_only_getaddrinfo "[]"]
      Sys_ResolveListenAddresses_lookup_errors [of example_registry "[''27900'', ''27950'']"
        ipv4_only_getaddrinfo "[''203.0.113.5'', ''[::1]:27999'']"]
      i1 i2 f1 f2 f3
    by auto
qed

text \<open>
  C7 as it is stated fails: the path without declared addresses does return a resolution
  error. It does so for a port that is not a known service, and on a host whose resolver
  has no IPv6.
\<close>

theorem Sys_ResolveListenAddresses_wildcard_counterexample:
  "nb_addresses (initial_state 2 8) = 0 \<and>
   fst (Sys_ResolveListenAddresses example_getaddrinfo [''bogus''] (initial_state 2 8)) =
     Failure CantResolve \<and>
   fst (Sys_ResolveListenAddresses ipv4_only_getaddrinfo [''27900''] (initial_state 2 8)) =
     Failure CantResolve"
  by (simp add: Sys_ResolveListenAddresses_def Sys_BuildSockaddr_def example_getaddrinfo_def
      ipv4_only_getaddrinfo_def example_answer_def decimal_def digit_value_def
      initial_state_def Let_def)

text \<open>
  C10. A failed resolution keeps what was resolved before the failing entry: the count
  and the entries are those of the entries before it. The resolution starts with no
  socket in the table, and the table has room for the plan. Without declared addresses
  the lookup fails for the port \<open>port\<close>, after the ports \<open>done\<close>, in the pass for IPv4 or
  in the pass for IPv6. With the declared addresses \<open>names\<close>, in a table of zeroed
  entries, the address \<open>name\<close> fails for the port \<open>port\<close> with the error \<open>e\<close>, after
  the addresses \<open>adone\<close> and the ports \<open>done\<close>.
\<close>

theorem Sys_ResolveListenAddresses_no_rollback:
  "(nb_addresses s = 0 \<and> nb_sockets s = 0 \<and> 2 * length ports \<le> length (listen_sockets s) \<and>
    ports = done @ port # rest \<and>
    (\<forall>p\<in>set done. fst (Sys_BuildSockaddr gai None p AF_INET zero_listen_socket) = Success) \<and>
    fst (Sys_BuildSockaddr gai None port AF_INET zero_listen_socket) \<noteq> Success \<longrightarrow>
      (\<exists>s'. Sys_ResolveListenAddresses gai ports s = (Failure CantResolve, s') \<and>
            nb_sockets s' = length done \<and>
            take (length done) (listen_sockets s') = map (wildcard_entry gai AF_INET) done)) \<and>
   (nb_addresses s = 0 \<and> nb_sockets s = 0 \<and> 2 * length ports \<le> length (listen_sockets s) \<and>
    ports = done @ port # rest \<and>
    (\<forall>p\<in>set ports. fst (Sys_BuildSockaddr gai None p AF_INET zero_listen_socket) = Success) \<and>
    (\<forall>p\<in>set done. fst (Sys_BuildSockaddr gai None p AF_INET6 zero_listen_socket) = Success) \<and>
    fst (Sys_BuildSockaddr gai None port AF_INET6 zero_listen_socket) \<noteq> Success \<longrightarrow>
      (\<exists>s'. Sys_ResolveListenAddresses gai ports s = (Failure CantResolve, s') \<and>
            nb_sockets s' = length ports + length done \<and>
            take (length ports + length done) (listen_sockets s') =
              map (wildcard_entry gai AF_INET) ports @ map (wildcard_entry gai AF_INET6) done)) \<and>
   (names = adone @ name # arest \<and> nb_addresses s = length names \<and>
    take (length names) (listen_addresses s) = declared names \<and> nb_sockets s = 0 \<and>
    (\<forall>e\<in>set (listen_sockets s). e = zero_listen_socket) \<and>
    length adone * length ports + length done < length (listen_sockets s) \<and>
    ports = done @ port # rest \<and>
    (\<forall>n\<in>set adone. \<forall>p\<in>set ports.
       fst (Sys_StringToSockaddr gai n p zero_listen_socket) = Success) \<and>
    (\<forall>p\<in>set done. fst (Sys_StringToSockaddr gai name p zero_listen_socket) = Success) \<and>
    fst (Sys_StringToSockaddr gai name port zero_listen_socket) = Failure e \<longrightarrow>
      (\<exists>s'. Sys_ResolveListenAddresses gai ports s = (Failure e, s') \<and>
            nb_sockets s' = length adone * length ports + length done \<and>
            take (length adone * length ports + length done) (listen_sockets s') =
              spec_declared_plan gai adone ports @ map (declared_entry gai name) done))"
proof (intro conjI impI)
  assume "nb_addresses s = 0 \<and> nb_sockets s = 0 \<and> 2 * length ports \<le> length (listen_sockets s) \<and>
    ports = done @ port # rest \<and>
    (\<forall>p\<in>set done. fst (Sys_BuildSockaddr gai None p AF_INET zero_listen_socket) = Success) \<and>
    fst (Sys_BuildSockaddr gai None port AF_INET zero_listen_socket) \<noteq> Success"
  then show "\<exists>s'. Sys_ResolveListenAddresses gai ports s = (Failure CantResolve, s') \<and>
            nb_sockets s' = length done \<and>
            take (length done) (listen_sockets s') = map (wildcard_entry gai AF_INET) done"
    using resolve_wildcards_fail_first_pass [of s ports "done" port rest gai] by blast
next
  assume "nb_addresses s = 0 \<and> nb_sockets s = 0 \<and> 2 * length ports \<le> length (listen_sockets s) \<and>
    ports = done @ port # rest \<and>
    (\<forall>p\<in>set ports. fst (Sys_BuildSockaddr gai None p AF_INET zero_listen_socket) = Success) \<and>
    (\<forall>p\<in>set done. fst (Sys_BuildSockaddr gai None p AF_INET6 zero_listen_socket) = Success) \<and>
    fst (Sys_BuildSockaddr gai None port AF_INET6 zero_listen_socket) \<noteq> Success"
  then show "\<exists>s'. Sys_ResolveListenAddresses gai ports s = (Failure CantResolve, s') \<and>
            nb_sockets s' = length ports + length done \<and>
            take (length ports + length done) (listen_sockets s') =
              map (wildcard_entry gai AF_INET) ports @ map (wildcard_entry gai AF_INET6) done"
    using resolve_wildcards_fail_second_pass [of s ports "done" port rest gai] by blast
next
  assume a: "names = adone @ name # arest \<and> nb_addresses s = length names \<and>
    take (length names) (listen_addresses s) = declared names \<and> nb_sockets s = 0 \<and>
    (\<forall>e\<in>set (listen_sockets s). e = zero_listen_socket) \<and>
    length adone * length ports + length done < length (listen_sockets s) \<and>
    ports = done @ port # rest \<and>
    (\<forall>n\<in>set adone. \<forall>p\<in>set ports.
       fst (Sys_StringToSockaddr gai n p zero_listen_socket) = Success) \<and>
    (\<forall>p\<in>set done. fst (Sys_StringToSockaddr gai name p zero_listen_socket) = Success) \<and>
    fst (Sys_StringToSockaddr gai name port zero_listen_socket) = Failure e"
  from a have nm: "names = adone @ name # arest" by blast
  then have ne: "names \<noteq> []" by simp
  from a have st: "nb_addresses s = length names"
      "take (length names) (listen_addresses s) = declared names"
    by blast+
  from a have n0: "nb_sockets s = 0" by blast
  from a have zero: "\<forall>e\<in>set (listen_sockets s). e = zero_listen_socket" by blast
  from a have cap: "length adone * length ports + length done < length (listen_sockets s)"
    by blast
  from a have p: "ports = done @ port # rest" by blast
  from a have o1: "\<forall>n\<in>set adone. \<forall>p\<in>set ports.
       fst (Sys_StringToSockaddr gai n p zero_listen_socket) = Success" by blast
  from a have o2: "\<forall>p\<in>set done.
       fst (Sys_StringToSockaddr gai name p zero_listen_socket) = Success" by blast
  from a have o3: "fst (Sys_StringToSockaddr gai name port zero_listen_socket) = Failure e"
    by blast
  have run: "Sys_ResolveListenAddresses gai ports s =
      resolve_addresses gai (declared (adone @ name # arest)) ports s"
    using resolve_with_addresses [OF ne st] unfolding nm .
  have room: "nb_sockets s + length adone * length ports + length done
      < length (listen_sockets s)"
    using cap n0 by simp
  have z: "\<forall>i<length adone * length ports + length done.
      listen_sockets s ! (nb_sockets s + i) = zero_listen_socket"
    using zero cap n0 by simp
  from addresses_fail_at [OF p o1 o2 o3 room z, of arest]
  show "\<exists>s'. Sys_ResolveListenAddresses gai ports s = (Failure e, s') \<and>
            nb_sockets s' = length adone * length ports + length done \<and>
            take (length adone * length ports + length done) (listen_sockets s') =
              spec_declared_plan gai adone ports @ map (declared_entry gai name) done"
    unfolding run n0 by simp
qed


theorem Sys_ResolveListenAddresses_no_rollback_witness:
  "fst (Sys_ResolveListenAddresses example_getaddrinfo [''27900'', ''bogus''] (initial_state 2 8)) =
     Failure CantResolve \<and>
   nb_sockets (snd (Sys_ResolveListenAddresses example_getaddrinfo [''27900'', ''bogus'']
                      (initial_state 2 8))) = 1 \<and>
   take 1 (listen_sockets (snd (Sys_ResolveListenAddresses example_getaddrinfo
                                  [''27900'', ''bogus''] (initial_state 2 8)))) =
     [wildcard_entry example_getaddrinfo AF_INET ''27900''] \<and>
   fst (Sys_ResolveListenAddresses ipv4_only_getaddrinfo [''27900'', ''27950'']
          (initial_state 2 8)) = Failure CantResolve \<and>
   nb_sockets (snd (Sys_ResolveListenAddresses ipv4_only_getaddrinfo [''27900'', ''27950'']
                      (initial_state 2 8))) = 2 \<and>
   take 2 (listen_sockets (snd (Sys_ResolveListenAddresses ipv4_only_getaddrinfo
                                  [''27900'', ''27950''] (initial_state 2 8)))) =
     [wildcard_entry ipv4_only_getaddrinfo AF_INET ''27900'',
      wildcard_entry ipv4_only_getaddrinfo AF_INET ''27950''] \<and>
   fst (Sys_ResolveListenAddresses ipv4_only_getaddrinfo [''27900'', ''27950'']
          example_registry) = Failure CantResolve \<and>
   nb_sockets (snd (Sys_ResolveListenAddresses ipv4_only_getaddrinfo [''27900'', ''27950'']
                      example_registry)) = 2 \<and>
   take 2 (listen_sockets (snd (Sys_ResolveListenAddresses ipv4_only_getaddrinfo
                                  [''27900'', ''27950''] example_registry))) =
     [declared_entry ipv4_only_getaddrinfo ''203.0.113.5'' ''27900'',
      declared_entry ipv4_only_getaddrinfo ''203.0.113.5'' ''27950'']"
proof -
  have i1: "nb_addresses (initial_state 2 8) = 0 \<and> nb_sockets (initial_state 2 8) = 0 \<and>
            2 * length [''27900'', ''bogus''] \<le> length (listen_sockets (initial_state 2 8)) \<and>
            2 * length [''27900'', ''27950''] \<le> length (listen_sockets (initial_state 2 8))"
    by (simp add: initial_state_def)
  have i2: "nb_addresses example_registry = length [''203.0.113.5'', ''[::1]:27999''] \<and>
            take (length [''203.0.113.5'', ''[::1]:27999'']) (listen_addresses example_registry) =
              declared [''203.0.113.5'', ''[::1]:27999''] \<and>
            nb_sockets example_registry = 0 \<and>
            (\<forall>e\<in>set (listen_sockets example_registry). e = zero_listen_socket) \<and>
            length [''203.0.113.5''] * length [''27900'', ''27950''] + length ([] :: string list)
              < length (listen_sockets example_registry)"
    by (simp add: example_registry_state initial_state_def declared_def)
  have g1: "fst (Sys_BuildSockaddr example_getaddrinfo None ''27900'' AF_INET zero_listen_socket) =
            Success"
    by (simp add: Sys_BuildSockaddr_def example_getaddrinfo_def example_answer_def
        example_ports_evaluate)
  have f1: "fst (Sys_BuildSockaddr example_getaddrinfo None ''bogus'' AF_INET zero_listen_socket) \<noteq>
            Success"
    by (simp add: Sys_BuildSockaddr_def example_getaddrinfo_def decimal_def digit_value_def)
  have g2: "\<forall>p\<in>set [''27900'', ''27950''].
              fst (Sys_BuildSockaddr ipv4_only_getaddrinfo None p AF_INET zero_listen_socket) =
              Success"
    by (simp add: Sys_BuildSockaddr_def ipv4_only_getaddrinfo_def example_getaddrinfo_def
        example_answer_def example_ports_evaluate)
  have f2: "fst (Sys_BuildSockaddr ipv4_only_getaddrinfo None ''27900'' AF_INET6
                   zero_listen_socket) \<noteq> Success"
    by (simp add: Sys_BuildSockaddr_def ipv4_only_getaddrinfo_def)
  have g3: "\<forall>n\<in>set [''203.0.113.5'']. \<forall>p\<in>set [''27900'', ''27950''].
              fst (Sys_StringToSockaddr ipv4_only_getaddrinfo n p zero_listen_socket) = Success"
    by (simp add: Sys_StringToSockaddr_def Sys_BuildSockaddr_def ipv4_only_getaddrinfo_def
        example_getaddrinfo_def example_answer_def example_hosts_def example_ports_evaluate
        char_at_def addr_buff_size_def Let_def)
  have f3: "fst (Sys_StringToSockaddr ipv4_only_getaddrinfo ''[::1]:27999'' ''27900''
                   zero_listen_socket) = Failure CantResolve"
    by (simp add: Sys_StringToSockaddr_def Sys_BuildSockaddr_def ipv4_only_getaddrinfo_def
        char_at_def addr_buff_size_def Let_def)
  have c1: "\<exists>s'. Sys_ResolveListenAddresses example_getaddrinfo [''27900'', ''bogus'']
                    (initial_state 2 8) = (Failure CantResolve, s') \<and>
            nb_sockets s' = length [''27900''] \<and>
            take (length [''27900'']) (listen_sockets s') =
              map (wildcard_entry example_getaddrinfo AF_INET) [''27900'']"
    using Sys_ResolveListenAddresses_no_rollback [where s = "initial_state 2 8"
        and ports = "[''27900'', ''bogus'']" and gai = example_getaddrinfo
        and ?done = "[''27900'']" and port = "''bogus''" and rest = "[]"] i1 g1 f1
    by simp
  have c2: "\<exists>s'. Sys_ResolveListenAddresses ipv4_only_getaddrinfo [''27900'', ''27950'']
                    (initial_state 2 8) = (Failure CantResolve, s') \<and>
            nb_sockets s' = length [''27900'', ''27950''] + length ([] :: string list) \<and>
            take (length [''27900'', ''27950''] + length ([] :: string list)) (listen_sockets s') =
              map (wildcard_entry ipv4_only_getaddrinfo AF_INET) [''27900'', ''27950''] @
              map (wildcard_entry ipv4_only_getaddrinfo AF_INET6) []"
    using Sys_ResolveListenAddresses_no_rollback [where s = "initial_state 2 8"
        and ports = "[''27900'', ''27950'']" and gai = ipv4_only_getaddrinfo
        and ?done = "[]" and port = "''27900''" and rest = "[''27950'']"] i1 g2 f2
    by simp
  have c3: "\<exists>s'. Sys_ResolveListenAddresses ipv4_only_getaddrinfo [''27900'', ''27950'']
                    example_registry = (Failure CantResolve, s') \<and>
            nb_sockets s' =
              length [''203.0.113.5''] * length [''27900'', ''27950''] +
              length ([] :: string list) \<and>
            take (length [''203.0.113.5''] * length [''27900'', ''27950''] +
                  length ([] :: string list)) (listen_sockets s') =
              spec_declared_plan ipv4_only_getaddrinfo [''203.0.113.5''] [''27900'', ''27950''] @
              map (declared_entry ipv4_only_getaddrinfo ''[::1]:27999'') []"
    using Sys_ResolveListenAddresses_no_rollback [where s = example_registry
        and ports = "[''27900'', ''27950'']" and gai = ipv4_only_getaddrinfo
        and ?done = "[]" and port = "''27900''" and rest = "[''27950'']"
        and names = "[''203.0.113.5'', ''[::1]:27999'']" and adone = "[''203.0.113.5'']"
        and name = "''[::1]:27999''" and arest = "[]" and e = CantResolve] i2 g3 f3
    by simp
  show ?thesis
    using c1 c2 c3 by (auto simp: spec_declared_plan_def numeral_2_eq_2)
qed

section \<open>Creating the sockets: two runs\<close>

lemma example_entries:
  "wildcard_entry example_getaddrinfo AF_INET ''27900'' =
     \<lparr>socket = 0,
      local_addr = \<lparr>ss_family = AF_INET, ss_addr = replicate 4 0, ss_port = 27900\<rparr>,
      local_addr_len = 16, local_addr_name = None, local_addr_name_no_port = None,
      optional = True\<rparr>"
  "wildcard_entry example_getaddrinfo AF_INET ''27950'' =
     \<lparr>socket = 0,
      local_addr = \<lparr>ss_family = AF_INET, ss_addr = replicate 4 0, ss_port = 27950\<rparr>,
      local_addr_len = 16, local_addr_name = None, local_addr_name_no_port = None,
      optional = True\<rparr>"
  "wildcard_entry example_getaddrinfo AF_INET6 ''27900'' =
     \<lparr>socket = 0,
      local_addr = \<lparr>ss_family = AF_INET6,
                    ss_addr = replicate 16 0, ss_port = 27900\<rparr>,
      local_addr_len = 28, local_addr_name = None, local_addr_name_no_port = None,
      optional = True\<rparr>"
  by (simp_all add: wildcard_entry_def Sys_BuildSockaddr_def example_getaddrinfo_def
      example_answer_def example_ports_evaluate zero_listen_socket_def zero_sockaddr_def)

lemmas socket_calls =
  sys_socket_def sys_bind_def sys_setsockopt_def sys_close_def logged_def lowest_free_def
  NETERR_AFNOSUPPORT_def INVALID_SOCKET_def memmove_entries_def Sys_CloseAllSockets_def
  Sys_CloseSocket_def Sys_GetLastNetError_def Let_def

lemma example_declared_entries:
  "declared_entry example_getaddrinfo ''203.0.113.5'' ''27900'' =
     \<lparr>socket = 0,
      local_addr = \<lparr>ss_family = AF_INET, ss_addr = [203, 0, 113, 5], ss_port = 27900\<rparr>,
      local_addr_len = 16, local_addr_name = Some ''203.0.113.5'',
      local_addr_name_no_port = Some ''203.0.113.5'', optional = False\<rparr>"
  "declared_entry example_getaddrinfo ''203.0.113.5'' ''27950'' =
     \<lparr>socket = 0,
      local_addr = \<lparr>ss_family = AF_INET, ss_addr = [203, 0, 113, 5], ss_port = 27950\<rparr>,
      local_addr_len = 16, local_addr_name = Some ''203.0.113.5'',
      local_addr_name_no_port = Some ''203.0.113.5'', optional = False\<rparr>"
  "declared_entry example_getaddrinfo ''203.0.113.5'' ''27999'' =
     \<lparr>socket = 0,
      local_addr = \<lparr>ss_family = AF_INET, ss_addr = [203, 0, 113, 5], ss_port = 27999\<rparr>,
      local_addr_len = 16, local_addr_name = Some ''203.0.113.5'',
      local_addr_name_no_port = Some ''203.0.113.5'', optional = False\<rparr>"
  by (simp_all add: declared_entry_def Sys_StringToSockaddr_def Sys_BuildSockaddr_def
      example_getaddrinfo_def example_answer_def example_hosts_def decimal_def digit_value_def
      char_at_def addr_buff_size_def zero_listen_socket_def zero_sockaddr_def Let_def)

lemma wildcard_plan_state:
  "snd (Sys_ResolveListenAddresses example_getaddrinfo [''27900''] (initial_state 2 8)) =
     (initial_state 2 8)
       \<lparr>listen_sockets :=
          [wildcard_entry example_getaddrinfo AF_INET ''27900'',
           wildcard_entry example_getaddrinfo AF_INET6 ''27900''] @
          drop 2 (listen_sockets (initial_state 2 8)),
        nb_sockets := 2\<rparr>"
proof -
  have ok: "\<forall>fam. \<forall>port\<in>set [''27900''].
      fst (Sys_BuildSockaddr example_getaddrinfo None port fam zero_listen_socket) = Success"
    by (simp add: Sys_BuildSockaddr_def example_getaddrinfo_def example_answer_def
        example_ports_evaluate)
  have "Sys_ResolveListenAddresses example_getaddrinfo [''27900''] (initial_state 2 8) =
      (Success,
       (initial_state 2 8)
         \<lparr>listen_sockets :=
            spec_wildcard_plan example_getaddrinfo [''27900''] @
            drop (2 * length [''27900'']) (listen_sockets (initial_state 2 8)),
          nb_sockets := 2 * length [''27900'']\<rparr>)"
    using ok by (intro resolve_wildcards_ok) (simp_all add: initial_state_def)
  then show ?thesis by (simp add: spec_wildcard_plan_def)
qed

lemma three_port_plan_state:
  "three_port_plan =
     (initial_state 2 8)
       \<lparr>nb_addresses := 1,
        listen_addresses := (listen_addresses (initial_state 2 8))
          [0 := \<lparr>addr_local_addr_name = Some ''203.0.113.5''\<rparr>],
        listen_sockets :=
          [declared_entry example_getaddrinfo ''203.0.113.5'' ''27900'',
           declared_entry example_getaddrinfo ''203.0.113.5'' ''27950'',
           declared_entry example_getaddrinfo ''203.0.113.5'' ''27999''] @
          drop 3 (listen_sockets (initial_state 2 8)),
        nb_sockets := 3\<rparr>"
proof -
  let ?s = "snd (Sys_DeclareListenAddress ''203.0.113.5'' (initial_state 2 8))"
  let ?ports = "[''27900'', ''27950'', ''27999'']"
  have s: "?s = (initial_state 2 8)
       \<lparr>listen_addresses := (listen_addresses (initial_state 2 8))
          [0 := \<lparr>addr_local_addr_name = Some ''203.0.113.5''\<rparr>],
        nb_addresses := 1\<rparr>"
    by (simp add: Sys_DeclareListenAddress_def initial_state_def zero_listen_address_def)
  have reg: "take (length [''203.0.113.5'']) (listen_addresses ?s) = declared [''203.0.113.5'']"
    unfolding s by (simp add: initial_state_def declared_def numeral_2_eq_2)
  have run: "Sys_ResolveListenAddresses example_getaddrinfo ?ports ?s =
             resolve_addresses example_getaddrinfo (declared [''203.0.113.5'']) ?ports ?s"
    using reg unfolding s by (intro resolve_with_addresses) simp_all
  have ok: "\<forall>name\<in>set [''203.0.113.5'']. \<forall>port\<in>set ?ports.
      fst (Sys_StringToSockaddr example_getaddrinfo name port zero_listen_socket) = Success"
    by (simp add: Sys_StringToSockaddr_def Sys_BuildSockaddr_def example_getaddrinfo_def
        example_answer_def example_hosts_def decimal_def digit_value_def char_at_def
        addr_buff_size_def Let_def)
  have room: "nb_sockets ?s + length [''203.0.113.5''] * length ?ports \<le> length (listen_sockets ?s)"
    unfolding s by (simp add: initial_state_def)
  have z: "\<forall>i<length [''203.0.113.5''] * length ?ports.
      listen_sockets ?s ! (nb_sockets ?s + i) = zero_listen_socket"
    unfolding s by (simp add: initial_state_def)
  have "three_port_plan = snd (resolve_addresses example_getaddrinfo (declared [''203.0.113.5''])
                                 ?ports ?s)"
    by (simp only: three_port_plan_def run)
  also have "\<dots> =
      ?s\<lparr>listen_sockets :=
           take (nb_sockets ?s) (listen_sockets ?s) @
           spec_declared_plan example_getaddrinfo [''203.0.113.5''] ?ports @
           drop (nb_sockets ?s + length [''203.0.113.5''] * length ?ports) (listen_sockets ?s),
         nb_sockets := nb_sockets ?s + length [''203.0.113.5''] * length ?ports\<rparr>"
    by (simp only: addresses_ok [OF ok room z] snd_conv)
  also have "\<dots> =
     (initial_state 2 8)
       \<lparr>nb_addresses := 1,
        listen_addresses := (listen_addresses (initial_state 2 8))
          [0 := \<lparr>addr_local_addr_name = Some ''203.0.113.5''\<rparr>],
        listen_sockets :=
          [declared_entry example_getaddrinfo ''203.0.113.5'' ''27900'',
           declared_entry example_getaddrinfo ''203.0.113.5'' ''27950'',
           declared_entry example_getaddrinfo ''203.0.113.5'' ''27999''] @
          drop 3 (listen_sockets (initial_state 2 8)),
        nb_sockets := 3\<rparr>"
    unfolding s by (simp add: spec_declared_plan_def initial_state_def)
  finally show ?thesis .
qed

text \<open>
  C1 fails on the code. In a plan of three optional entries, on a host without IPv6, the
  second entry cannot be created. The code shifts one entry less than follows the
  dropped one (here none), so the table keeps the second entry in place and loses the
  third; the second is tried and dropped once more. \<open>Sys_CreateListenSockets\<close>
  succeeds with one socket, not two. With the plan resolved for one port on a host
  without IPv4, the IPv6 entry is lost in the same way and the function succeeds with
  no socket at all.
\<close>

theorem Sys_CreateListenSockets_drops_too_much:
  "(case Sys_CreateListenSockets no_ipv6_os example_world three_entry_plan of
      (r, w, s) \<Rightarrow>
        r = Success \<and> nb_sockets s = 1 \<and>
        take (nb_sockets s) (listen_sockets s) =
          [(wildcard_entry example_getaddrinfo AF_INET ''27900'')\<lparr>socket := 3\<rparr>] \<and>
        fds w = [(3, UdpSocket AF_INET), (0, Terminal), (1, Terminal), (2, Terminal)]) \<and>
   (case Sys_CreateListenSockets no_ipv4_os example_world
           (snd (Sys_ResolveListenAddresses example_getaddrinfo [''27900''] (initial_state 2 8))) of
      (r, w, s) \<Rightarrow>
        r = Success \<and> nb_sockets s = 0 \<and>
        fds w = [(0, Terminal), (1, Terminal), (2, Terminal)])"
proof
  show "case Sys_CreateListenSockets no_ipv6_os example_world three_entry_plan of
      (r, w, s) \<Rightarrow>
        r = Success \<and> nb_sockets s = 1 \<and>
        take (nb_sockets s) (listen_sockets s) =
          [(wildcard_entry example_getaddrinfo AF_INET ''27900'')\<lparr>socket := 3\<rparr>] \<and>
        fds w = [(3, UdpSocket AF_INET), (0, Terminal), (1, Terminal), (2, Terminal)]"
    apply (simp add: Sys_CreateListenSockets_def no_ipv6_os_def example_os_def example_world_def
        three_entry_plan_def example_entries initial_state_def)
    apply (subst create_sockets_from.simps)
    apply (simp add: socket_calls)
    apply (subst create_sockets_from.simps)
    apply (simp add: socket_calls)
    apply (subst create_sockets_from.simps)
    apply (simp add: socket_calls)
    apply (subst create_sockets_from.simps)
    apply (simp add: socket_calls)
    done
  show "case Sys_CreateListenSockets no_ipv4_os example_world
           (snd (Sys_ResolveListenAddresses example_getaddrinfo [''27900''] (initial_state 2 8))) of
      (r, w, s) \<Rightarrow>
        r = Success \<and> nb_sockets s = 0 \<and>
        fds w = [(0, Terminal), (1, Terminal), (2, Terminal)]"
    unfolding wildcard_plan_state
    apply (simp add: Sys_CreateListenSockets_def no_ipv4_os_def example_os_def example_world_def
        example_entries initial_state_def)
    apply (subst create_sockets_from.simps)
    apply (simp add: socket_calls)
    apply (subst create_sockets_from.simps)
    apply (simp add: socket_calls)
    apply (subst create_sockets_from.simps)
    apply (simp add: socket_calls)
    done
qed

text \<open>
  C2 fails on the code. With one declared address and three ports, the second socket
  cannot be bound. \<open>Sys_CreateListenSockets\<close> fails and resets the count, and the first
  socket (descriptor 3) is closed; but the socket created for the failing entry
  (descriptor 4) is not yet in the table and stays open. The entries that have no
  socket yet hold the descriptor 0, which is closed as well.
\<close>

theorem Sys_CreateListenSockets_leaks_socket:
  "(case Sys_CreateListenSockets busy_port_os example_world three_port_plan of
      (r, w, s) \<Rightarrow>
        r = Failure SocketBindingFailed \<and> nb_sockets s = 0 \<and>
        fds w = [(4, UdpSocket AF_INET), (1, Terminal), (2, Terminal)])"
  apply (simp add: Sys_CreateListenSockets_def busy_port_os_def example_os_def
      example_world_def three_port_plan_state example_declared_entries initial_state_def)
  apply (subst create_sockets_from.simps)
  apply (simp add: socket_calls)
  apply (subst create_sockets_from.simps)
  apply (simp add: socket_calls)
  done

end
